theory Spec2Isabelle
  imports Main "HOL-Library.AList" "HOL-Library.Char_ord" "HOL-Library.List_Lexorder"
    "HOL-Library.Product_Lexorder"
begin

section \<open>The relational store\<close>

text \<open>
  The data access objects of \<^verbatim>\<open>school_year_settings_dao.py\<close> and
  \<^verbatim>\<open>theme_dao.py\<close> issue SQL against five tables. A table is a list of rows
  in insertion order, and a query returns the rows in that order unless it has an
  \<^verbatim>\<open>ORDER BY\<close>. Primary keys are the strings of \<^verbatim>\<open>uuid.uuid4()\<close>; the code
  only compares them for equality, so they are natural numbers here and
  \<^verbatim>\<open>uuid4\<close> draws them from a counter kept in the state. The flag columns hold
  \<^verbatim>\<open>'Y'\<close> or \<^verbatim>\<open>'N'\<close>; they are booleans here (\<^verbatim>\<open>'Y'\<close> is \<open>True\<close>).
  The column \<^verbatim>\<open>week_numbers\<close> holds the JSON text of a list of integers or NULL;
  it is an optional list here (\<^verbatim>\<open>json.dumps\<close> followed by \<^verbatim>\<open>json.loads\<close>
  is the identity on such lists). The timestamp columns are left out.
\<close>

type_synonym ident = nat

record theme =
  t_id :: ident
  t_theme_code :: string
  t_theme_name :: string

record sub_theme =
  st_id :: ident
  st_coures_themes_id :: ident
  st_sub_theme_code :: string
  st_sub_theme_name :: string

record theme_setting =
  ts_id :: ident
  ts_academic_year :: int
  ts_academic_term :: int
  ts_coures_themes_id :: ident
  ts_fill_in_week_enabled :: bool
  ts_scale_max :: int
  ts_select_most_relevant_sub_theme_enabled :: bool
  ts_created_by :: "string option"
  ts_updated_by :: "string option"

record sub_theme_setting =
  sts_id :: ident
  sts_academic_year :: int
  sts_academic_term :: int
  sts_coures_sub_themes_id :: ident
  sts_enabled :: bool
  sts_created_by :: "string option"
  sts_updated_by :: "string option"

record course_entry =
  ce_id :: ident
  ce_subj_no :: string
  ce_ps_class_nbr :: string
  ce_academic_year :: int
  ce_academic_term :: int
  ce_coures_sub_themes_id :: ident
  ce_indicator_value :: string
  ce_week_numbers :: "int list option"
  ce_is_most_relevant :: bool
  ce_created_by :: "string option"
  ce_updated_by :: "string option"

text \<open>
  \<^verbatim>\<open>SCHOOL.COFSUBJ\<close> is the external course roster; the export reads the Chinese
  course name from it.
\<close>

record cofsubj =
  cb_subj_no :: string
  cb_subj_chn_name :: "string option"

record db =
  coures_themes :: "theme list"
  coures_sub_themes :: "sub_theme list"
  themes_setting :: "theme_setting list"
  sub_theme_settings :: "sub_theme_setting list"
  course_entries :: "course_entry list"
  cofsubj_rows :: "cofsubj list"
  uuid_counter :: nat

text \<open>
  Exceptions are values. \<open>UniqueConstraint\<close> is the driver's error for ORA-00001, the
  only database error the model raises: its text contains \<^verbatim>\<open>unique constraint\<close>,
  which is what the handlers of the source look for. \<open>HTTPException\<close> carries the status
  code; the detail texts are left out. Every \<^verbatim>\<open>Database.execute\<close> commits at once,
  so an operation returns its result together with the store it leaves behind, also when
  it raises.
\<close>

datatype error = ValueError | UniqueConstraint | UnauthorizedException | HTTPException nat

type_synonym 'a result = "(error + 'a) \<times> db"

definition uuid4 :: "db \<Rightarrow> ident \<times> db" where
  "uuid4 d = (uuid_counter d, d\<lparr>uuid_counter := Suc (uuid_counter d)\<rparr>)"

definition fetchrow :: "'a list \<Rightarrow> 'a option" where
  "fetchrow rows = (case rows of [] \<Rightarrow> None | r # _ \<Rightarrow> Some r)"

text \<open>
  Modelled from the spec: the table declarations are not under src/. The unique keys are
  those of the data model: the primary key \<^verbatim>\<open>id\<close> of every table,
  \<^verbatim>\<open>(year, term, theme_id)\<close> for a theme setting,
  \<^verbatim>\<open>(year, term, sub_theme_id)\<close> for a sub-theme setting and
  \<^verbatim>\<open>(subj_no, ps_class_nbr, year, term, sub_theme_id)\<close> for a course entry.
  An \<^verbatim>\<open>INSERT\<close> that would break one raises and writes nothing.
\<close>

definition theme_setting_key :: "theme_setting \<Rightarrow> int \<times> int \<times> ident" where
  "theme_setting_key r = (ts_academic_year r, ts_academic_term r, ts_coures_themes_id r)"

definition sub_theme_setting_key :: "sub_theme_setting \<Rightarrow> int \<times> int \<times> ident" where
  "sub_theme_setting_key r =
     (sts_academic_year r, sts_academic_term r, sts_coures_sub_themes_id r)"

definition course_entry_key :: "course_entry \<Rightarrow> string \<times> string \<times> int \<times> int \<times> ident" where
  "course_entry_key r =
     (ce_subj_no r, ce_ps_class_nbr r, ce_academic_year r, ce_academic_term r,
      ce_coures_sub_themes_id r)"

definition insert_theme_setting :: "theme_setting \<Rightarrow> db \<Rightarrow> unit result" where
  "insert_theme_setting r d =
     (if ts_id r \<in> set (map ts_id (themes_setting d))
         \<or> theme_setting_key r \<in> set (map theme_setting_key (themes_setting d))
      then (Inl UniqueConstraint, d)
      else (Inr (), d\<lparr>themes_setting := themes_setting d @ [r]\<rparr>))"

definition insert_sub_theme_setting :: "sub_theme_setting \<Rightarrow> db \<Rightarrow> unit result" where
  "insert_sub_theme_setting r d =
     (if sts_id r \<in> set (map sts_id (sub_theme_settings d))
         \<or> sub_theme_setting_key r \<in> set (map sub_theme_setting_key (sub_theme_settings d))
      then (Inl UniqueConstraint, d)
      else (Inr (), d\<lparr>sub_theme_settings := sub_theme_settings d @ [r]\<rparr>))"

definition insert_course_entry :: "course_entry \<Rightarrow> db \<Rightarrow> unit result" where
  "insert_course_entry r d =
     (if ce_id r \<in> set (map ce_id (course_entries d))
         \<or> course_entry_key r \<in> set (map course_entry_key (course_entries d))
      then (Inl UniqueConstraint, d)
      else (Inr (), d\<lparr>course_entries := course_entries d @ [r]\<rparr>))"

section \<open>Course entries: \<^verbatim>\<open>CourseEntriesDAO\<close>\<close>

text \<open>
  A row of the entry queries: the entry joined with its sub-theme and the sub-theme's theme
  (\<^verbatim>\<open>JOIN coures_sub_themes st ... JOIN coures_themes t\<close>).
\<close>

type_synonym entry_row = "course_entry \<times> sub_theme \<times> theme"

definition entry_rows :: "db \<Rightarrow> entry_row list" where
  "entry_rows d =
     [(ce, st, t). ce \<leftarrow> course_entries d, st \<leftarrow> coures_sub_themes d,
        ce_coures_sub_themes_id ce = st_id st,
        t \<leftarrow> coures_themes d, st_coures_themes_id st = t_id t]"

definition get_course_entry_by_id :: "db \<Rightarrow> ident \<Rightarrow> entry_row option" where
  "get_course_entry_by_id d entry_id =
     fetchrow [r \<leftarrow> entry_rows d. ce_id (fst r) = entry_id]"

definition get_course_entry_by_sub_theme_id ::
  "db \<Rightarrow> string \<Rightarrow> string \<Rightarrow> int \<Rightarrow> int \<Rightarrow> ident \<Rightarrow> entry_row option" where
  "get_course_entry_by_sub_theme_id d subj_no ps_class_nbr academic_year academic_term sub_theme_id =
     fetchrow [r \<leftarrow> entry_rows d.
        course_entry_key (fst r) =
          (subj_no, ps_class_nbr, academic_year, academic_term, sub_theme_id)]"

text \<open>
  \<^verbatim>\<open>if week_numbers: week_numbers_json = json.dumps(week_numbers)\<close>: a missing
  list and an empty list both give NULL.
\<close>

definition to_week_numbers_json :: "int list option \<Rightarrow> int list option" where
  "to_week_numbers_json week_numbers =
     (case week_numbers of None \<Rightarrow> None
      | Some ws \<Rightarrow> if ws = [] then None else Some ws)"

text \<open>
  \<^verbatim>\<open>update_course_entry_by_id\<close>: the \<^verbatim>\<open>UPDATE\<close> always sets
  \<^verbatim>\<open>indicator_value\<close> and \<^verbatim>\<open>week_numbers\<close>, and sets
  \<^verbatim>\<open>is_most_relevant\<close> and \<^verbatim>\<open>updated_by\<close> only when they are not None.
\<close>

definition update_entry_row ::
  "string \<Rightarrow> int list option \<Rightarrow> bool option \<Rightarrow> string option \<Rightarrow> course_entry \<Rightarrow> course_entry" where
  "update_entry_row indicator_value week_numbers is_most_relevant updated_by ce =
     ce\<lparr>ce_indicator_value := indicator_value,
        ce_week_numbers := to_week_numbers_json week_numbers,
        ce_is_most_relevant :=
          (case is_most_relevant of None \<Rightarrow> ce_is_most_relevant ce | Some b \<Rightarrow> b),
        ce_updated_by :=
          (case updated_by of None \<Rightarrow> ce_updated_by ce | Some u \<Rightarrow> Some u)\<rparr>"

definition update_course_entry_by_id ::
  "ident \<Rightarrow> string \<Rightarrow> int list option \<Rightarrow> bool option \<Rightarrow> string option \<Rightarrow> db
     \<Rightarrow> entry_row option result" where
  "update_course_entry_by_id entry_id indicator_value week_numbers is_most_relevant updated_by d =
     (let d' = d\<lparr>course_entries :=
                  map (\<lambda>ce. if ce_id ce = entry_id
                             then update_entry_row indicator_value week_numbers
                                    is_most_relevant updated_by ce
                             else ce)
                    (course_entries d)\<rparr>
      in (Inr (get_course_entry_by_id d' entry_id), d'))"

text \<open>
  \<^verbatim>\<open>create_course_entry\<close>. The sub-theme is found through a setting of the year-term
  that is enabled; without one the function raises before it writes. An entry with the same
  natural key is updated through \<^verbatim>\<open>update_course_entry_by_id\<close>, otherwise a row is
  inserted. The argument \<open>is_most_relevant\<close> is optional because the request schema
  allows null: the insert stores \<^verbatim>\<open>'Y' if is_most_relevant else 'N'\<close>.
\<close>

definition enabled_sub_themes_by_code :: "db \<Rightarrow> int \<Rightarrow> int \<Rightarrow> string \<Rightarrow> sub_theme list" where
  "enabled_sub_themes_by_code d academic_year academic_term sub_theme_code =
     [st. st \<leftarrow> coures_sub_themes d, systs \<leftarrow> sub_theme_settings d,
        st_id st = sts_coures_sub_themes_id systs,
        sts_academic_year systs = academic_year,
        sts_academic_term systs = academic_term,
        st_sub_theme_code st = sub_theme_code,
        sts_enabled systs]"

definition truthy :: "bool option \<Rightarrow> bool" where
  "truthy b = (case b of Some True \<Rightarrow> True | _ \<Rightarrow> False)"

definition create_course_entry ::
  "string \<Rightarrow> string \<Rightarrow> int \<Rightarrow> int \<Rightarrow> string \<Rightarrow> string \<Rightarrow> int list option \<Rightarrow> bool option
     \<Rightarrow> string option \<Rightarrow> db \<Rightarrow> entry_row option result" where
  "create_course_entry subj_no ps_class_nbr academic_year academic_term sub_theme_code
       indicator_value week_numbers is_most_relevant created_by d =
     (case fetchrow (enabled_sub_themes_by_code d academic_year academic_term sub_theme_code) of
        None \<Rightarrow> (Inl ValueError, d)
      | Some sub_theme_result \<Rightarrow>
          (case get_course_entry_by_sub_theme_id d subj_no ps_class_nbr academic_year
                  academic_term (st_id sub_theme_result) of
             Some existing_entry \<Rightarrow>
               update_course_entry_by_id (ce_id (fst existing_entry)) indicator_value
                 week_numbers is_most_relevant created_by d
           | None \<Rightarrow>
               (case uuid4 d of
                  (entry_id, d1) \<Rightarrow>
                    (case insert_course_entry
                            \<lparr>ce_id = entry_id, ce_subj_no = subj_no,
                             ce_ps_class_nbr = ps_class_nbr,
                             ce_academic_year = academic_year,
                             ce_academic_term = academic_term,
                             ce_coures_sub_themes_id = st_id sub_theme_result,
                             ce_indicator_value = indicator_value,
                             ce_week_numbers = to_week_numbers_json week_numbers,
                             ce_is_most_relevant = truthy is_most_relevant,
                             ce_created_by = created_by,
                             ce_updated_by = created_by\<rparr> d1 of
                       (Inl e, d2) \<Rightarrow> (Inl e, d2)
                     | (Inr _, d2) \<Rightarrow> (Inr (get_course_entry_by_id d2 entry_id), d2)))))"

text \<open>The body of a create request (\<^verbatim>\<open>CourseEntryCreateRequest\<close>).\<close>

record entry_data =
  ed_subj_no :: string
  ed_ps_class_nbr :: string
  ed_academic_year :: int
  ed_academic_term :: int
  ed_sub_theme_code :: string
  ed_indicator_value :: string
  ed_week_numbers :: "int list option"
  ed_is_most_relevant :: "bool option"
  ed_created_by :: "string option"

definition create_from_data :: "entry_data \<Rightarrow> db \<Rightarrow> entry_row option result" where
  "create_from_data e d =
     create_course_entry (ed_subj_no e) (ed_ps_class_nbr e) (ed_academic_year e)
       (ed_academic_term e) (ed_sub_theme_code e) (ed_indicator_value e) (ed_week_numbers e)
       (ed_is_most_relevant e) (ed_created_by e) d"

text \<open>
  \<^verbatim>\<open>create_course_entries_batch\<close>: the loop over the entries; every exception of an
  entry is caught, printed and skipped, and a result is appended only when it is not None.
\<close>

fun create_course_entries_batch_loop ::
  "entry_data list \<Rightarrow> entry_row list \<Rightarrow> db \<Rightarrow> entry_row list \<times> db" where
  "create_course_entries_batch_loop [] results d = (results, d)"
| "create_course_entries_batch_loop (entry_data # rest) results d =
     (case create_from_data entry_data d of
        (Inr (Some r), d') \<Rightarrow> create_course_entries_batch_loop rest (results @ [r]) d'
      | (Inr None, d') \<Rightarrow> create_course_entries_batch_loop rest results d'
      | (Inl e, d') \<Rightarrow> create_course_entries_batch_loop rest results d')"

definition create_course_entries_batch :: "entry_data list \<Rightarrow> db \<Rightarrow> entry_row list \<times> db" where
  "create_course_entries_batch entries_data d =
     create_course_entries_batch_loop entries_data [] d"

text \<open>
  \<^verbatim>\<open>SimpleTokenAuth.verify_token\<close> compares the token with the MD5 digest of the
  user id, a salt and today's date. The digest (\<^verbatim>\<open>generate_token\<close>) is a parameter.
\<close>

definition verify_token :: "(string \<Rightarrow> string) \<Rightarrow> string \<Rightarrow> string \<Rightarrow> bool" where
  "verify_token generate_token token user_id = (token = generate_token user_id)"

text \<open>
  \<^verbatim>\<open>SchoolYearBusiness.create_course_entry\<close>: a ValueError of the data access
  object becomes HTTP 400, as does a missing result.
\<close>

definition create_course_entry_business ::
  "(string \<Rightarrow> string) \<Rightarrow> string \<Rightarrow> string \<Rightarrow> entry_data \<Rightarrow> db \<Rightarrow> entry_row result" where
  "create_course_entry_business generate_token token user_id entry_data d =
     (if \<not> verify_token generate_token token user_id then (Inl UnauthorizedException, d)
      else
        (case create_from_data (entry_data\<lparr>ed_created_by := Some user_id\<rparr>) d of
           (Inl ValueError, d') \<Rightarrow> (Inl (HTTPException 400), d')
         | (Inl e, d') \<Rightarrow> (Inl e, d')
         | (Inr None, d') \<Rightarrow> (Inl (HTTPException 400), d')
         | (Inr (Some r), d') \<Rightarrow> (Inr r, d')))"

text \<open>
  \<^verbatim>\<open>SchoolYearBusiness.create_course_entries_batch\<close>: every entry gets the caller as
  \<^verbatim>\<open>created_by\<close>; an empty list of results raises HTTP 400.
\<close>

definition create_course_entries_batch_business ::
  "(string \<Rightarrow> string) \<Rightarrow> string \<Rightarrow> string \<Rightarrow> entry_data list \<Rightarrow> db \<Rightarrow> entry_row list result" where
  "create_course_entries_batch_business generate_token token user_id entries_data d =
     (if \<not> verify_token generate_token token user_id then (Inl UnauthorizedException, d)
      else
        (case create_course_entries_batch
                (map (\<lambda>entry. entry\<lparr>ed_created_by := Some user_id\<rparr>) entries_data) d of
           (results, d') \<Rightarrow>
             if results = [] then (Inl (HTTPException 400), d') else (Inr results, d')))"

text \<open>
  \<^verbatim>\<open>get_course_entry\<close> finds the sub-theme through any setting of the year-term
  with that sub-theme code (enabled or not) and then the entry by its natural key.
\<close>

definition sub_themes_by_code :: "db \<Rightarrow> int \<Rightarrow> int \<Rightarrow> string \<Rightarrow> sub_theme list" where
  "sub_themes_by_code d academic_year academic_term sub_theme_code =
     [st. st \<leftarrow> coures_sub_themes d, systs \<leftarrow> sub_theme_settings d,
        st_id st = sts_coures_sub_themes_id systs,
        sts_academic_year systs = academic_year,
        sts_academic_term systs = academic_term,
        st_sub_theme_code st = sub_theme_code]"

definition get_course_entry ::
  "db \<Rightarrow> string \<Rightarrow> string \<Rightarrow> int \<Rightarrow> int \<Rightarrow> string \<Rightarrow> entry_row option" where
  "get_course_entry d subj_no ps_class_nbr academic_year academic_term sub_theme_code =
     (case fetchrow (sub_themes_by_code d academic_year academic_term sub_theme_code) of
        None \<Rightarrow> None
      | Some sub_theme_result \<Rightarrow>
          get_course_entry_by_sub_theme_id d subj_no ps_class_nbr academic_year academic_term
            (st_id sub_theme_result))"

definition delete_course_entry_by_id :: "ident \<Rightarrow> db \<Rightarrow> entry_row option \<times> db" where
  "delete_course_entry_by_id entry_id d =
     (case get_course_entry_by_id d entry_id of
        None \<Rightarrow> (None, d)
      | Some entry \<Rightarrow>
          (Some entry,
           d\<lparr>course_entries := [ce \<leftarrow> course_entries d. ce_id ce \<noteq> entry_id]\<rparr>))"

definition delete_course_entry ::
  "string \<Rightarrow> string \<Rightarrow> int \<Rightarrow> int \<Rightarrow> string \<Rightarrow> db \<Rightarrow> entry_row option \<times> db" where
  "delete_course_entry subj_no ps_class_nbr academic_year academic_term sub_theme_code d =
     (case get_course_entry d subj_no ps_class_nbr academic_year academic_term sub_theme_code of
        None \<Rightarrow> (None, d)
      | Some entry \<Rightarrow> delete_course_entry_by_id (ce_id (fst entry)) d)"

definition get_course_entries_by_subj_no ::
  "db \<Rightarrow> string \<Rightarrow> string \<Rightarrow> int \<Rightarrow> int \<Rightarrow> entry_row list" where
  "get_course_entries_by_subj_no d subj_no ps_class_nbr academic_year academic_term =
     sort_key (\<lambda>(ce, st, t). (t_theme_code t, st_sub_theme_code st))
       [r \<leftarrow> entry_rows d.
          ce_subj_no (fst r) = subj_no \<and> ce_ps_class_nbr (fst r) = ps_class_nbr \<and>
          ce_academic_year (fst r) = academic_year \<and> ce_academic_term (fst r) = academic_term]"

definition get_enabled_theme_sub_themes :: "db \<Rightarrow> int \<Rightarrow> int \<Rightarrow> (string \<times> string) list" where
  "get_enabled_theme_sub_themes d academic_year academic_term =
     sort (remdups
       [(t_theme_code t, st_sub_theme_code st).
          systs \<leftarrow> sub_theme_settings d, st \<leftarrow> coures_sub_themes d,
          sts_coures_sub_themes_id systs = st_id st,
          t \<leftarrow> coures_themes d, st_coures_themes_id st = t_id t,
          sts_academic_year systs = academic_year,
          sts_academic_term systs = academic_term,
          sts_enabled systs])"

definition copy_course_entry_with_new_user ::
  "string \<Rightarrow> string \<Rightarrow> int \<Rightarrow> int \<Rightarrow> string \<Rightarrow> string \<Rightarrow> int list option \<Rightarrow> bool \<Rightarrow> string
     \<Rightarrow> db \<Rightarrow> entry_row option result" where
  "copy_course_entry_with_new_user subj_no ps_class_nbr academic_year academic_term
       sub_theme_code indicator_value week_numbers_json is_most_relevant user_id d =
     (case fetchrow (sub_themes_by_code d academic_year academic_term sub_theme_code) of
        None \<Rightarrow> (Inl ValueError, d)
      | Some sub_theme_result \<Rightarrow>
          (case uuid4 d of
             (entry_id, d1) \<Rightarrow>
               (case insert_course_entry
                       \<lparr>ce_id = entry_id, ce_subj_no = subj_no,
                        ce_ps_class_nbr = ps_class_nbr,
                        ce_academic_year = academic_year,
                        ce_academic_term = academic_term,
                        ce_coures_sub_themes_id = st_id sub_theme_result,
                        ce_indicator_value = indicator_value,
                        ce_week_numbers = week_numbers_json,
                        ce_is_most_relevant = is_most_relevant,
                        ce_created_by = Some user_id,
                        ce_updated_by = Some user_id\<rparr> d1 of
                  (Inl e, d2) \<Rightarrow> (Inl e, d2)
                | (Inr _, d2) \<Rightarrow> (Inr (get_course_entry_by_id d2 entry_id), d2))))"

text \<open>
  \<^verbatim>\<open>check_most_relevant_validation\<close> counts the course's entries of the year-term
  under the theme that are marked most relevant; with a non-empty
  \<^verbatim>\<open>exclude_sub_theme_code\<close> it leaves out the entries of that sub-theme code.
\<close>

definition check_most_relevant_validation ::
  "db \<Rightarrow> string \<Rightarrow> string \<Rightarrow> int \<Rightarrow> int \<Rightarrow> string \<Rightarrow> string option \<Rightarrow> bool" where
  "check_most_relevant_validation d subj_no ps_class_nbr academic_year academic_term theme_code
       exclude_sub_theme_code =
     (let matching =
            [r \<leftarrow> entry_rows d.
               ce_subj_no (fst r) = subj_no \<and> ce_ps_class_nbr (fst r) = ps_class_nbr \<and>
               ce_academic_year (fst r) = academic_year \<and>
               ce_academic_term (fst r) = academic_term \<and>
               t_theme_code (snd (snd r)) = theme_code \<and> ce_is_most_relevant (fst r)]
      in (case exclude_sub_theme_code of
            None \<Rightarrow> length matching > 0
          | Some code \<Rightarrow>
              if code = [] then length matching > 0
              else length [r \<leftarrow> matching. st_sub_theme_code (fst (snd r)) \<noteq> code] > 0))"

text \<open>
  \<^verbatim>\<open>SchoolYearBusiness.update_course_entry_by_id\<close>: when the request sets
  \<^verbatim>\<open>is_most_relevant\<close> to true and the entry exists, the check above runs first and
  a hit raises HTTP 400; then the entry is updated, and a missing result raises HTTP 404.
\<close>

record entry_update =
  eu_indicator_value :: string
  eu_week_numbers :: "int list option"
  eu_is_most_relevant :: "bool option"
  eu_user_id :: string
  eu_token :: string

definition most_relevant_conflict :: "db \<Rightarrow> ident \<Rightarrow> bool option \<Rightarrow> bool" where
  "most_relevant_conflict d entry_id is_most_relevant =
     (case is_most_relevant of
        None \<Rightarrow> False
      | Some b \<Rightarrow>
          (case get_course_entry_by_id d entry_id of
             None \<Rightarrow> False
           | Some (ce, st, t) \<Rightarrow>
               b \<and> check_most_relevant_validation d (ce_subj_no ce) (ce_ps_class_nbr ce)
                     (ce_academic_year ce) (ce_academic_term ce) (t_theme_code t)
                     (Some (st_sub_theme_code st))))"

definition update_course_entry_by_id_business ::
  "(string \<Rightarrow> string) \<Rightarrow> ident \<Rightarrow> entry_update \<Rightarrow> db \<Rightarrow> entry_row result" where
  "update_course_entry_by_id_business generate_token entry_id entry_data d =
     (if \<not> verify_token generate_token (eu_token entry_data) (eu_user_id entry_data)
      then (Inl UnauthorizedException, d)
      else if most_relevant_conflict d entry_id (eu_is_most_relevant entry_data)
      then (Inl (HTTPException 400), d)
      else
        (case update_course_entry_by_id entry_id (eu_indicator_value entry_data)
                (eu_week_numbers entry_data) (eu_is_most_relevant entry_data)
                (Some (eu_user_id entry_data)) d of
           (Inl e, d') \<Rightarrow> (Inl e, d')
         | (Inr None, d') \<Rightarrow> (Inl (HTTPException 404), d')
         | (Inr (Some r), d') \<Rightarrow> (Inr r, d')))"

text \<open>
  \<^verbatim>\<open>SchoolYearBusiness.copy_course_entries\<close>. The target's entries of the course are
  counted and then deleted one by one through \<^verbatim>\<open>delete_course_entry\<close> (by sub-theme
  code); the source entries whose pair of codes is enabled in the target are inserted through
  \<^verbatim>\<open>copy_course_entry_with_new_user\<close>. An exception that is not an HTTPException
  becomes HTTP 500.
\<close>

record copy_entries_data =
  cd_subj_no :: string
  cd_ps_class_nbr :: string
  cd_source_academic_year :: int
  cd_source_academic_term :: int
  cd_target_academic_year :: int
  cd_target_academic_term :: int
  cd_user_id :: string
  cd_token :: string

record copy_entries_result =
  copied_count :: nat
  skipped_count :: nat
  deleted_count :: nat

fun delete_target_entries ::
  "string \<Rightarrow> string \<Rightarrow> int \<Rightarrow> int \<Rightarrow> entry_row list \<Rightarrow> db \<Rightarrow> db" where
  "delete_target_entries subj_no ps_class_nbr y t [] d = d"
| "delete_target_entries subj_no ps_class_nbr y t (entry # rest) d =
     delete_target_entries subj_no ps_class_nbr y t rest
       (snd (delete_course_entry subj_no ps_class_nbr y t
               (st_sub_theme_code (fst (snd entry))) d))"

fun copy_entries_loop ::
  "copy_entries_data \<Rightarrow> (string \<times> string) list \<Rightarrow> entry_row list \<Rightarrow> nat \<Rightarrow> nat \<Rightarrow> db
     \<Rightarrow> (nat \<times> nat) result" where
  "copy_entries_loop data enabled [] copied skipped d = (Inr (copied, skipped), d)"
| "copy_entries_loop data enabled (entry # rest) copied skipped d =
     (case entry of
        (ce, st, t) \<Rightarrow>
          if (t_theme_code t, st_sub_theme_code st) \<in> set enabled
          then
            (case copy_course_entry_with_new_user (cd_subj_no data) (cd_ps_class_nbr data)
                    (cd_target_academic_year data) (cd_target_academic_term data)
                    (st_sub_theme_code st) (ce_indicator_value ce)
                    (to_week_numbers_json (ce_week_numbers ce)) (ce_is_most_relevant ce)
                    (cd_user_id data) d of
               (Inl e, d') \<Rightarrow> (Inl e, d')
             | (Inr _, d') \<Rightarrow> copy_entries_loop data enabled rest (Suc copied) skipped d')
          else copy_entries_loop data enabled rest copied (Suc skipped) d)"

definition copy_course_entries ::
  "(string \<Rightarrow> string) \<Rightarrow> copy_entries_data \<Rightarrow> db \<Rightarrow> copy_entries_result result" where
  "copy_course_entries generate_token data d =
     (if \<not> verify_token generate_token (cd_token data) (cd_user_id data)
      then (Inl UnauthorizedException, d)
      else
        (let source_entries =
               get_course_entries_by_subj_no d (cd_subj_no data) (cd_ps_class_nbr data)
                 (cd_source_academic_year data) (cd_source_academic_term data)
         in if source_entries = [] then (Inl (HTTPException 404), d)
            else
              (let target_enabled_settings =
                     get_enabled_theme_sub_themes d (cd_target_academic_year data)
                       (cd_target_academic_term data)
               in if target_enabled_settings = [] then (Inl (HTTPException 404), d)
                  else
                    (let existing_target_entries =
                           get_course_entries_by_subj_no d (cd_subj_no data)
                             (cd_ps_class_nbr data) (cd_target_academic_year data)
                             (cd_target_academic_term data);
                         d1 = delete_target_entries (cd_subj_no data) (cd_ps_class_nbr data)
                                (cd_target_academic_year data) (cd_target_academic_term data)
                                existing_target_entries d
                     in (case copy_entries_loop data target_enabled_settings source_entries
                                 0 0 d1 of
                           (Inl e, d2) \<Rightarrow> (Inl (HTTPException 500), d2)
                         | (Inr (copied, skipped), d2) \<Rightarrow>
                             (Inr \<lparr>copied_count = copied, skipped_count = skipped,
                                   deleted_count = length existing_target_entries\<rparr>, d2))))))"

section \<open>Year-term settings: \<^verbatim>\<open>SchoolYearThemeSettingsDAO\<close>\<close>

definition get_theme_by_code :: "db \<Rightarrow> string \<Rightarrow> theme option" where
  "get_theme_by_code d theme_code =
     fetchrow [t \<leftarrow> coures_themes d. t_theme_code t = theme_code]"

definition get_sub_themes_by_theme_id :: "db \<Rightarrow> ident \<Rightarrow> (sub_theme \<times> theme) list" where
  "get_sub_themes_by_theme_id d theme_id =
     sort_key (\<lambda>r. st_sub_theme_code (fst r))
       [(st, t). st \<leftarrow> coures_sub_themes d, t \<leftarrow> coures_themes d,
          st_coures_themes_id st = t_id t, st_coures_themes_id st = theme_id]"

text \<open>
  The sub-themes of a theme with the year-term's flag
  (\<^verbatim>\<open>LEFT JOIN ... COALESCE(systs.enabled, 'N')\<close>): a sub-theme without a setting
  row gives one row with the flag off.
\<close>

definition left_join_enabled :: "db \<Rightarrow> int \<Rightarrow> int \<Rightarrow> sub_theme \<Rightarrow> bool list" where
  "left_join_enabled d academic_year academic_term st =
     (case [sts_enabled systs. systs \<leftarrow> sub_theme_settings d,
              st_id st = sts_coures_sub_themes_id systs,
              sts_academic_year systs = academic_year,
              sts_academic_term systs = academic_term] of
        [] \<Rightarrow> [False]
      | flags \<Rightarrow> flags)"

definition sub_themes_with_enabled :: "db \<Rightarrow> int \<Rightarrow> int \<Rightarrow> ident \<Rightarrow> (sub_theme \<times> bool) list" where
  "sub_themes_with_enabled d academic_year academic_term theme_id =
     [(st, enabled). st \<leftarrow> coures_sub_themes d, st_coures_themes_id st = theme_id,
        enabled \<leftarrow> left_join_enabled d academic_year academic_term st]"

type_synonym theme_setting_row = "theme_setting \<times> theme \<times> (sub_theme \<times> bool) list"

definition with_sub_themes :: "db \<Rightarrow> theme_setting \<times> theme \<Rightarrow> theme_setting_row" where
  "with_sub_themes d r =
     (fst r, snd r,
      sort_key (\<lambda>s. st_sub_theme_code (fst s))
        (sub_themes_with_enabled d (ts_academic_year (fst r)) (ts_academic_term (fst r))
           (ts_coures_themes_id (fst r))))"

definition get_school_year_theme_setting_by_code ::
  "db \<Rightarrow> int \<Rightarrow> int \<Rightarrow> string \<Rightarrow> theme_setting_row option" where
  "get_school_year_theme_setting_by_code d academic_year academic_term theme_code =
     map_option (with_sub_themes d)
       (fetchrow [(syts, t). syts \<leftarrow> themes_setting d, t \<leftarrow> coures_themes d,
                    ts_coures_themes_id syts = t_id t,
                    ts_academic_year syts = academic_year,
                    ts_academic_term syts = academic_term,
                    t_theme_code t = theme_code])"

definition get_school_year_theme_settings_by_year ::
  "db \<Rightarrow> int \<Rightarrow> int \<Rightarrow> theme_setting_row list" where
  "get_school_year_theme_settings_by_year d academic_year academic_term =
     map (with_sub_themes d)
       (sort_key (\<lambda>r. t_theme_code (snd r))
          [(syts, t). syts \<leftarrow> themes_setting d, t \<leftarrow> coures_themes d,
             ts_coures_themes_id syts = t_id t,
             ts_academic_year syts = academic_year,
             ts_academic_term syts = academic_term])"

text \<open>
  \<^verbatim>\<open>create_school_year_theme_setting\<close>: after the theme setting is inserted, a
  sub-theme setting with the flag on is inserted for every sub-theme of the theme; a unique
  constraint error of such an insert is skipped, any other error is raised again. The
  function returns the setting as it was queried before the loop.
\<close>

fun create_sub_theme_settings ::
  "int \<Rightarrow> int \<Rightarrow> string option \<Rightarrow> (sub_theme \<times> theme) list \<Rightarrow> db \<Rightarrow> unit result" where
  "create_sub_theme_settings academic_year academic_term created_by [] d = (Inr (), d)"
| "create_sub_theme_settings academic_year academic_term created_by (sub_theme # rest) d =
     (case uuid4 d of
        (sub_setting_id, d1) \<Rightarrow>
          (case insert_sub_theme_setting
                  \<lparr>sts_id = sub_setting_id, sts_academic_year = academic_year,
                   sts_academic_term = academic_term,
                   sts_coures_sub_themes_id = st_id (fst sub_theme),
                   sts_enabled = True, sts_created_by = created_by,
                   sts_updated_by = created_by\<rparr> d1 of
             (Inr _, d2) \<Rightarrow>
               create_sub_theme_settings academic_year academic_term created_by rest d2
           | (Inl e, d2) \<Rightarrow>
               if e = UniqueConstraint
               then create_sub_theme_settings academic_year academic_term created_by rest d2
               else (Inl e, d2)))"

definition create_school_year_theme_setting ::
  "int \<Rightarrow> int \<Rightarrow> string \<Rightarrow> bool \<Rightarrow> int \<Rightarrow> bool \<Rightarrow> string option \<Rightarrow> db
     \<Rightarrow> theme_setting_row option result" where
  "create_school_year_theme_setting academic_year academic_term theme_code
       fill_in_week_enabled scale_max select_most_relevant_sub_theme_enabled created_by d =
     (case get_theme_by_code d theme_code of
        None \<Rightarrow> (Inl ValueError, d)
      | Some theme \<Rightarrow>
          (case uuid4 d of
             (setting_id, d1) \<Rightarrow>
               (case insert_theme_setting
                       \<lparr>ts_id = setting_id, ts_academic_year = academic_year,
                        ts_academic_term = academic_term,
                        ts_coures_themes_id = t_id theme,
                        ts_fill_in_week_enabled = fill_in_week_enabled,
                        ts_scale_max = scale_max,
                        ts_select_most_relevant_sub_theme_enabled =
                          select_most_relevant_sub_theme_enabled,
                        ts_created_by = created_by, ts_updated_by = created_by\<rparr> d1 of
                  (Inl e, d2) \<Rightarrow> (Inl e, d2)
                | (Inr _, d2) \<Rightarrow>
                    (case get_school_year_theme_setting_by_code d2 academic_year
                            academic_term theme_code of
                       None \<Rightarrow> (Inr None, d2)
                     | Some result \<Rightarrow>
                         (case create_sub_theme_settings academic_year academic_term
                                 created_by (get_sub_themes_by_theme_id d2 (t_id theme)) d2 of
                            (Inl e, d3) \<Rightarrow> (Inl e, d3)
                          | (Inr _, d3) \<Rightarrow> (Inr (Some result), d3))))))"

text \<open>
  \<^verbatim>\<open>copy_school_year_theme_settings\<close>. The deletion of the target's rows is guarded
  by the number of the target's theme settings; the source's theme settings are read after
  the deletion.
\<close>

definition in_year_term_ts :: "int \<Rightarrow> int \<Rightarrow> theme_setting \<Rightarrow> bool" where
  "in_year_term_ts y t r = (ts_academic_year r = y \<and> ts_academic_term r = t)"

definition in_year_term_sts :: "int \<Rightarrow> int \<Rightarrow> sub_theme_setting \<Rightarrow> bool" where
  "in_year_term_sts y t r = (sts_academic_year r = y \<and> sts_academic_term r = t)"

fun copy_sub_theme_settings ::
  "int \<Rightarrow> int \<Rightarrow> string option \<Rightarrow> (sub_theme \<times> bool) list \<Rightarrow> nat \<Rightarrow> db \<Rightarrow> nat result" where
  "copy_sub_theme_settings ty tt created_by [] sub_themes_count d = (Inr sub_themes_count, d)"
| "copy_sub_theme_settings ty tt created_by (sub_theme_row # rest) sub_themes_count d =
     (case uuid4 d of
        (sub_setting_id, d1) \<Rightarrow>
          (case insert_sub_theme_setting
                  \<lparr>sts_id = sub_setting_id, sts_academic_year = ty, sts_academic_term = tt,
                   sts_coures_sub_themes_id = st_id (fst sub_theme_row),
                   sts_enabled = snd sub_theme_row, sts_created_by = created_by,
                   sts_updated_by = created_by\<rparr> d1 of
             (Inr _, d2) \<Rightarrow>
               copy_sub_theme_settings ty tt created_by rest (Suc sub_themes_count) d2
           | (Inl e, d2) \<Rightarrow>
               if e = UniqueConstraint
               then copy_sub_theme_settings ty tt created_by rest sub_themes_count d2
               else (Inl e, d2)))"

fun copy_theme_settings_loop ::
  "int \<Rightarrow> int \<Rightarrow> int \<Rightarrow> int \<Rightarrow> string option \<Rightarrow> theme_setting list \<Rightarrow> nat \<Rightarrow> nat \<Rightarrow> db
     \<Rightarrow> (nat \<times> nat) result" where
  "copy_theme_settings_loop sy st ty tt created_by [] themes_count sub_themes_count d =
     (Inr (themes_count, sub_themes_count), d)"
| "copy_theme_settings_loop sy st ty tt created_by (theme_row # rest) themes_count
       sub_themes_count d =
     (case uuid4 d of
        (setting_id, d1) \<Rightarrow>
          (case insert_theme_setting
                  \<lparr>ts_id = setting_id, ts_academic_year = ty, ts_academic_term = tt,
                   ts_coures_themes_id = ts_coures_themes_id theme_row,
                   ts_fill_in_week_enabled = ts_fill_in_week_enabled theme_row,
                   ts_scale_max = ts_scale_max theme_row,
                   ts_select_most_relevant_sub_theme_enabled =
                     ts_select_most_relevant_sub_theme_enabled theme_row,
                   ts_created_by = created_by, ts_updated_by = created_by\<rparr> d1 of
             (Inl e, d2) \<Rightarrow> (Inl e, d2)
           | (Inr _, d2) \<Rightarrow>
               (case copy_sub_theme_settings ty tt created_by
                       (sub_themes_with_enabled d2 sy st (ts_coures_themes_id theme_row))
                       sub_themes_count d2 of
                  (Inl e, d3) \<Rightarrow> (Inl e, d3)
                | (Inr n, d3) \<Rightarrow>
                    copy_theme_settings_loop sy st ty tt created_by rest (Suc themes_count)
                      n d3)))"

record copy_settings_result =
  themes_count :: nat
  sub_themes_count :: nat
  deleted_themes_count :: nat
  deleted_sub_themes_count :: nat

definition copy_school_year_theme_settings ::
  "int \<Rightarrow> int \<Rightarrow> int \<Rightarrow> int \<Rightarrow> string option \<Rightarrow> db \<Rightarrow> copy_settings_result result" where
  "copy_school_year_theme_settings sy st ty tt created_by d =
     (let source_count = length (filter (in_year_term_ts sy st) (themes_setting d))
      in if source_count = 0 then (Inl ValueError, d)
         else
           (let target_count = length (filter (in_year_term_ts ty tt) (themes_setting d));
                deleted_sub = (if target_count > 0
                               then length (filter (in_year_term_sts ty tt)
                                              (sub_theme_settings d))
                               else 0);
                deleted_themes = (if target_count > 0 then target_count else 0);
                d1 = (if target_count > 0
                      then d\<lparr>sub_theme_settings :=
                                filter (\<lambda>r. \<not> in_year_term_sts ty tt r) (sub_theme_settings d),
                              themes_setting :=
                                filter (\<lambda>r. \<not> in_year_term_ts ty tt r) (themes_setting d)\<rparr>
                      else d);
                themes_results = filter (in_year_term_ts sy st) (themes_setting d1)
            in (case copy_theme_settings_loop sy st ty tt created_by themes_results 0 0 d1 of
                  (Inl e, d2) \<Rightarrow> (Inl e, d2)
                | (Inr (n_themes, n_sub_themes), d2) \<Rightarrow>
                    (Inr \<lparr>themes_count = n_themes, sub_themes_count = n_sub_themes,
                          deleted_themes_count = deleted_themes,
                          deleted_sub_themes_count = deleted_sub\<rparr>, d2))))"

text \<open>
  \<^verbatim>\<open>SchoolYearThemeSettingsCopyBusiness.copy_school_year_theme_settings\<close>: a
  ValueError becomes HTTP 400 and any other exception HTTP 500.
\<close>

definition copy_school_year_theme_settings_business ::
  "(string \<Rightarrow> string) \<Rightarrow> string \<Rightarrow> string \<Rightarrow> int \<Rightarrow> int \<Rightarrow> int \<Rightarrow> int \<Rightarrow> db
     \<Rightarrow> copy_settings_result result" where
  "copy_school_year_theme_settings_business generate_token token user_id sy st ty tt d =
     (if \<not> verify_token generate_token token user_id then (Inl UnauthorizedException, d)
      else
        (case copy_school_year_theme_settings sy st ty tt (Some user_id) d of
           (Inl ValueError, d') \<Rightarrow> (Inl (HTTPException 400), d')
         | (Inl e, d') \<Rightarrow> (Inl (HTTPException 500), d')
         | (Inr r, d') \<Rightarrow> (Inr r, d')))"

section \<open>Sub-theme settings: \<^verbatim>\<open>SchoolYearSubThemeSettingsDAO\<close>\<close>

type_synonym sub_theme_setting_row = "sub_theme_setting \<times> sub_theme \<times> theme"

definition sub_theme_setting_rows :: "db \<Rightarrow> sub_theme_setting_row list" where
  "sub_theme_setting_rows d =
     [(systs, st, t). systs \<leftarrow> sub_theme_settings d, st \<leftarrow> coures_sub_themes d,
        sts_coures_sub_themes_id systs = st_id st,
        t \<leftarrow> coures_themes d, st_coures_themes_id st = t_id t]"

definition get_school_year_sub_theme_setting_by_id ::
  "db \<Rightarrow> ident \<Rightarrow> sub_theme_setting_row option" where
  "get_school_year_sub_theme_setting_by_id d setting_id =
     fetchrow [r \<leftarrow> sub_theme_setting_rows d. sts_id (fst r) = setting_id]"

definition update_enabled :: "ident \<Rightarrow> bool \<Rightarrow> string option \<Rightarrow> db \<Rightarrow> db" where
  "update_enabled setting_id enabled updated_by d =
     d\<lparr>sub_theme_settings :=
         map (\<lambda>r. if sts_id r = setting_id
                  then r\<lparr>sts_enabled := enabled, sts_updated_by := updated_by\<rparr>
                  else r)
           (sub_theme_settings d)\<rparr>"

text \<open>
  \<^verbatim>\<open>update_school_year_sub_theme_setting\<close>: a row with the id is updated; otherwise,
  with a year and a term, the id is read as a sub-theme id, and the setting of that
  year-term and sub-theme is updated or inserted. None is returned when neither resolves.
\<close>

definition update_school_year_sub_theme_setting ::
  "ident \<Rightarrow> bool \<Rightarrow> string option \<Rightarrow> int option \<Rightarrow> int option \<Rightarrow> db
     \<Rightarrow> sub_theme_setting_row option result" where
  "update_school_year_sub_theme_setting setting_id enabled updated_by academic_year
       academic_term d =
     (case get_school_year_sub_theme_setting_by_id d setting_id of
        Some existing \<Rightarrow>
          (let d' = update_enabled setting_id enabled updated_by d
           in (Inr (get_school_year_sub_theme_setting_by_id d' setting_id), d'))
      | None \<Rightarrow>
          (case (academic_year, academic_term) of
             (Some y, Some t) \<Rightarrow>
               (case fetchrow [(st, th). st \<leftarrow> coures_sub_themes d, th \<leftarrow> coures_themes d,
                                 st_coures_themes_id st = t_id th, st_id st = setting_id] of
                  None \<Rightarrow> (Inr None, d)
                | Some sub_theme \<Rightarrow>
                    (case fetchrow [r \<leftarrow> sub_theme_settings d.
                                      sub_theme_setting_key r = (y, t, setting_id)] of
                       Some existing_setting \<Rightarrow>
                         (let d' = update_enabled (sts_id existing_setting) enabled updated_by d
                          in (Inr (get_school_year_sub_theme_setting_by_id d'
                                     (sts_id existing_setting)), d'))
                     | None \<Rightarrow>
                         (case uuid4 d of
                            (new_setting_id, d1) \<Rightarrow>
                              (case insert_sub_theme_setting
                                      \<lparr>sts_id = new_setting_id, sts_academic_year = y,
                                       sts_academic_term = t,
                                       sts_coures_sub_themes_id = setting_id,
                                       sts_enabled = enabled, sts_created_by = updated_by,
                                       sts_updated_by = updated_by\<rparr> d1 of
                                 (Inl e, d2) \<Rightarrow> (Inl e, d2)
                               | (Inr _, d2) \<Rightarrow>
                                   (Inr (get_school_year_sub_theme_setting_by_id d2
                                           new_setting_id), d2)))))
           | _ \<Rightarrow> (Inr None, d)))"

text \<open>
  \<^verbatim>\<open>SchoolYearSubThemeSettingsBusiness.update_school_year_sub_theme_setting\<close>: a
  missing result raises HTTP 404.
\<close>

definition update_school_year_sub_theme_setting_business ::
  "(string \<Rightarrow> string) \<Rightarrow> string \<Rightarrow> string \<Rightarrow> ident \<Rightarrow> bool \<Rightarrow> int option \<Rightarrow> int option \<Rightarrow> db
     \<Rightarrow> sub_theme_setting_row result" where
  "update_school_year_sub_theme_setting_business generate_token token user_id setting_id
       enabled academic_year academic_term d =
     (if \<not> verify_token generate_token token user_id then (Inl UnauthorizedException, d)
      else
        (case update_school_year_sub_theme_setting setting_id enabled (Some user_id)
                academic_year academic_term d of
           (Inl e, d') \<Rightarrow> (Inl e, d')
         | (Inr None, d') \<Rightarrow> (Inl (HTTPException 404), d')
         | (Inr (Some r), d') \<Rightarrow> (Inr r, d')))"

section \<open>Integrity of the store\<close>

text \<open>
  The constraints the database keeps (see the data model): every sub-theme belongs to a
  theme of the catalog, and the entries have distinct ids and distinct natural keys. The
  ids in use are below the counter, so that \<^verbatim>\<open>uuid4\<close> never returns one of them.
\<close>

definition sub_themes_have_theme :: "db \<Rightarrow> bool" where
  "sub_themes_have_theme d =
     (\<forall>st \<in> set (coures_sub_themes d).
        \<exists>t \<in> set (coures_themes d). st_coures_themes_id st = t_id t)"

definition entries_ok :: "db \<Rightarrow> bool" where
  "entries_ok d =
     (distinct (map ce_id (course_entries d)) \<and>
      distinct (map course_entry_key (course_entries d)) \<and>
      (\<forall>ce \<in> set (course_entries d). ce_id ce < uuid_counter d))"

text \<open>
  The year-term has an enabled setting for a sub-theme with the code: the condition of
  the write guard, in the spec's words.
\<close>

definition enabled_setting_exists :: "db \<Rightarrow> int \<Rightarrow> int \<Rightarrow> string \<Rightarrow> bool" where
  "enabled_setting_exists d y t code =
     (\<exists>systs \<in> set (sub_theme_settings d). \<exists>st \<in> set (coures_sub_themes d).
        sts_coures_sub_themes_id systs = st_id st \<and> st_sub_theme_code st = code \<and>
        sts_academic_year systs = y \<and> sts_academic_term systs = t \<and> sts_enabled systs)"

section \<open>Example stores\<close>

text \<open>
  Two themes with three sub-themes; year 113 term 1 has one enabled setting (sub-theme 01
  of A101) and one entry of course S1/C1 against it, with weeks 1 and 2.
\<close>

definition store1 :: db where
  "store1 =
     \<lparr>coures_themes =
        [\<lparr>t_id = 1, t_theme_code = ''A101'', t_theme_name = ''SDGs''\<rparr>,
         \<lparr>t_id = 2, t_theme_code = ''A301'', t_theme_name = ''Core''\<rparr>],
      coures_sub_themes =
        [\<lparr>st_id = 11, st_coures_themes_id = 1, st_sub_theme_code = ''01'',
          st_sub_theme_name = ''Poverty''\<rparr>,
         \<lparr>st_id = 12, st_coures_themes_id = 1, st_sub_theme_code = ''02'',
          st_sub_theme_name = ''Hunger''\<rparr>,
         \<lparr>st_id = 21, st_coures_themes_id = 2, st_sub_theme_code = ''1020'',
          st_sub_theme_name = ''Practice''\<rparr>],
      themes_setting = [],
      sub_theme_settings =
        [\<lparr>sts_id = 31, sts_academic_year = 113, sts_academic_term = 1,
          sts_coures_sub_themes_id = 11, sts_enabled = True, sts_created_by = None,
          sts_updated_by = None\<rparr>],
      course_entries =
        [\<lparr>ce_id = 41, ce_subj_no = ''S1'', ce_ps_class_nbr = ''C1'', ce_academic_year = 113,
          ce_academic_term = 1, ce_coures_sub_themes_id = 11, ce_indicator_value = ''2'',
          ce_week_numbers = Some [1, 2], ce_is_most_relevant = True,
          ce_created_by = Some ''u'', ce_updated_by = Some ''u''\<rparr>],
      cofsubj_rows = [],
      uuid_counter = 100\<rparr>"

text \<open>A request of course S1/C2 against sub-theme code 01 in 113-1.\<close>

definition request1 :: entry_data where
  "request1 =
     \<lparr>ed_subj_no = ''S1'', ed_ps_class_nbr = ''C2'', ed_academic_year = 113,
      ed_academic_term = 1, ed_sub_theme_code = ''01'', ed_indicator_value = ''5'',
      ed_week_numbers = None, ed_is_most_relevant = Some False, ed_created_by = None\<rparr>"

text \<open>The rows a single create contributes to the batch result.\<close>

definition successes :: "error + entry_row option \<Rightarrow> entry_row list" where
  "successes res = (case res of Inr (Some r) \<Rightarrow> [r] | _ \<Rightarrow> [])"

text \<open>
  The constraints on the sub-theme settings: distinct ids and natural keys, ids below the
  counter, and every setting refers to a sub-theme of the catalog.
\<close>

definition sub_theme_settings_ok :: "db \<Rightarrow> bool" where
  "sub_theme_settings_ok d =
     (distinct (map sts_id (sub_theme_settings d)) \<and>
      distinct (map sub_theme_setting_key (sub_theme_settings d)) \<and>
      (\<forall>r \<in> set (sub_theme_settings d). sts_id r < uuid_counter d) \<and>
      (\<forall>r \<in> set (sub_theme_settings d).
         \<exists>st \<in> set (coures_sub_themes d). sts_coures_sub_themes_id r = st_id st))"

text \<open>
  The constraints on the catalog: distinct theme ids and theme codes, distinct sub-theme ids,
  a sub-theme code at most once per theme, and no empty sub-theme code. An entry has a
  most-relevant sibling when another entry of the same course and year-term is marked most
  relevant and its sub-theme belongs to the same theme.
\<close>

definition catalog_ok :: "db \<Rightarrow> bool" where
  "catalog_ok d =
     (distinct (map t_id (coures_themes d)) \<and>
      distinct (map t_theme_code (coures_themes d)) \<and>
      distinct (map st_id (coures_sub_themes d)) \<and>
      distinct (map (\<lambda>st. (st_coures_themes_id st, st_sub_theme_code st)) (coures_sub_themes d)) \<and>
      (\<forall>st \<in> set (coures_sub_themes d). st_sub_theme_code st \<noteq> []))"

definition same_course_term :: "course_entry \<Rightarrow> course_entry \<Rightarrow> bool" where
  "same_course_term a b =
     (ce_subj_no a = ce_subj_no b \<and> ce_ps_class_nbr a = ce_ps_class_nbr b \<and>
      ce_academic_year a = ce_academic_year b \<and> ce_academic_term a = ce_academic_term b)"

definition most_relevant_sibling :: "db \<Rightarrow> course_entry \<Rightarrow> bool" where
  "most_relevant_sibling d ce =
     (\<exists>ce2 \<in> set (course_entries d).
        ce_id ce2 \<noteq> ce_id ce \<and> same_course_term ce2 ce \<and> ce_is_most_relevant ce2 \<and>
        (\<exists>st \<in> set (coures_sub_themes d). \<exists>st2 \<in> set (coures_sub_themes d).
           st_id st = ce_coures_sub_themes_id ce \<and> st_id st2 = ce_coures_sub_themes_id ce2 \<and>
           st_coures_themes_id st2 = st_coures_themes_id st))"

text \<open>
  \<open>store2\<close> adds to \<open>store1\<close> an enabled setting for sub-theme 02 and an entry of
  the same course against it, not marked most relevant.
\<close>

definition entry42 :: course_entry where
  "entry42 =
     \<lparr>ce_id = 42, ce_subj_no = ''S1'', ce_ps_class_nbr = ''C1'', ce_academic_year = 113,
      ce_academic_term = 1, ce_coures_sub_themes_id = 12, ce_indicator_value = ''1'',
      ce_week_numbers = None, ce_is_most_relevant = False,
      ce_created_by = Some ''u'', ce_updated_by = Some ''u''\<rparr>"

definition store2 :: db where
  "store2 =
     store1\<lparr>sub_theme_settings := sub_theme_settings store1 @
               [\<lparr>sts_id = 32, sts_academic_year = 113, sts_academic_term = 1,
                 sts_coures_sub_themes_id = 12, sts_enabled = True, sts_created_by = None,
                 sts_updated_by = None\<rparr>],
            course_entries := course_entries store1 @ [entry42]\<rparr>"

definition update1 :: entry_update where
  "update1 =
     \<lparr>eu_indicator_value = ''3'', eu_week_numbers = None, eu_is_most_relevant = Some True,
      eu_user_id = ''u'', eu_token = ''tok''\<rparr>"

text \<open>
  The constraints on both settings tables: distinct ids and natural keys, and ids below the
  counter. \<open>sts_row\<close> is what a sub-theme setting says (its key and flag), and a
  sub-theme is \<open>absent\<close> from a year-term when it has no setting row there.
\<close>

definition settings_fresh :: "db \<Rightarrow> bool" where
  "settings_fresh d =
     (distinct (map sts_id (sub_theme_settings d)) \<and>
      distinct (map sub_theme_setting_key (sub_theme_settings d)) \<and>
      (\<forall>r \<in> set (sub_theme_settings d). sts_id r < uuid_counter d) \<and>
      distinct (map ts_id (themes_setting d)) \<and>
      distinct (map theme_setting_key (themes_setting d)) \<and>
      (\<forall>r \<in> set (themes_setting d). ts_id r < uuid_counter d))"

definition sts_row :: "sub_theme_setting \<Rightarrow> (int \<times> int \<times> ident) \<times> bool" where
  "sts_row r = (sub_theme_setting_key r, sts_enabled r)"

definition absent :: "db \<Rightarrow> int \<Rightarrow> int \<Rightarrow> sub_theme \<Rightarrow> bool" where
  "absent d y t st =
     ((y, t, st_id st) \<notin> set (map sub_theme_setting_key (sub_theme_settings d)))"

text \<open>
  The copy of the settings of a year-term, seen from outside. \<open>source_enabled\<close> is the
  flag that the left join of the copy reads for a sub-theme: on when the source year-term
  has an enabled setting of it, off when the setting is disabled or missing.
  \<open>kept_sub_theme_settings\<close> are the target's sub-theme settings that survive the
  deletion step: all of them when the target has no theme setting, none otherwise.
  \<open>copied_sub_rows\<close> are the rows the copy inserts: for every copied theme setting, in
  order, one row per catalog sub-theme of its theme whose key is not taken.
\<close>

definition source_enabled :: "db \<Rightarrow> int \<Rightarrow> int \<Rightarrow> sub_theme \<Rightarrow> bool" where
  "source_enabled d y t s =
     (\<exists>r \<in> set (sub_theme_settings d). sub_theme_setting_key r = (y, t, st_id s) \<and> sts_enabled r)"

definition ts_row :: "theme_setting \<Rightarrow> (int \<times> int \<times> ident) \<times> bool \<times> int \<times> bool" where
  "ts_row r =
     (theme_setting_key r, ts_fill_in_week_enabled r, ts_scale_max r,
      ts_select_most_relevant_sub_theme_enabled r)"

definition kept_sub_theme_settings :: "db \<Rightarrow> int \<Rightarrow> int \<Rightarrow> sub_theme_setting list" where
  "kept_sub_theme_settings d ty tt =
     (if filter (in_year_term_ts ty tt) (themes_setting d) = []
      then filter (in_year_term_sts ty tt) (sub_theme_settings d) else [])"

definition copied_sub_rows ::
  "db \<Rightarrow> (int \<times> int \<times> ident) list \<Rightarrow> int \<Rightarrow> int \<Rightarrow> int \<Rightarrow> int \<Rightarrow> theme_setting list
     \<Rightarrow> ((int \<times> int \<times> ident) \<times> bool) list" where
  "copied_sub_rows d taken sy st ty tt trs =
     concat (map (\<lambda>tr. map (\<lambda>s. ((ty, tt, st_id s), source_enabled d sy st s))
                          [s \<leftarrow> coures_sub_themes d.
                             st_coures_themes_id s = ts_coures_themes_id tr \<and>
                             (ty, tt, st_id s) \<notin> set taken])
               trs)"

text \<open>
  \<open>store3\<close>: year 113 term 1 has a theme setting of A101, year 114 term 1 one of A301
  with an enabled setting of its sub-theme. \<open>store4\<close>: year 114 term 1 has no theme
  setting, but a disabled setting of sub-theme 01 of A101.
\<close>

definition store3 :: db where
  "store3 =
     store1\<lparr>themes_setting :=
               [\<lparr>ts_id = 51, ts_academic_year = 113, ts_academic_term = 1,
                 ts_coures_themes_id = 1, ts_fill_in_week_enabled = True, ts_scale_max = 3,
                 ts_select_most_relevant_sub_theme_enabled = False, ts_created_by = None,
                 ts_updated_by = None\<rparr>,
                \<lparr>ts_id = 52, ts_academic_year = 114, ts_academic_term = 1,
                 ts_coures_themes_id = 2, ts_fill_in_week_enabled = False, ts_scale_max = 5,
                 ts_select_most_relevant_sub_theme_enabled = True, ts_created_by = None,
                 ts_updated_by = None\<rparr>],
            sub_theme_settings := sub_theme_settings store1 @
               [\<lparr>sts_id = 32, sts_academic_year = 114, sts_academic_term = 1,
                 sts_coures_sub_themes_id = 21, sts_enabled = True, sts_created_by = None,
                 sts_updated_by = None\<rparr>]\<rparr>"

definition store4 :: db where
  "store4 =
     store1\<lparr>themes_setting :=
               [\<lparr>ts_id = 51, ts_academic_year = 113, ts_academic_term = 1,
                 ts_coures_themes_id = 1, ts_fill_in_week_enabled = True, ts_scale_max = 3,
                 ts_select_most_relevant_sub_theme_enabled = False, ts_created_by = None,
                 ts_updated_by = None\<rparr>],
            sub_theme_settings := sub_theme_settings store1 @
               [\<lparr>sts_id = 33, sts_academic_year = 114, sts_academic_term = 1,
                 sts_coures_sub_themes_id = 11, sts_enabled = False, sts_created_by = None,
                 sts_updated_by = None\<rparr>]\<rparr>"

text \<open>
  \<open>store5\<close>: course S1/C1 has its entry of sub-theme 01 in 113-1 and an entry of
  sub-theme 02 in 114-1; year 114 term 1 has an enabled setting of sub-theme 01 and no
  setting of sub-theme 02. \<open>copy1\<close> asks to copy the course from 113-1 to 114-1.
\<close>

definition store5 :: db where
  "store5 =
     store1\<lparr>sub_theme_settings := sub_theme_settings store1 @
               [\<lparr>sts_id = 34, sts_academic_year = 114, sts_academic_term = 1,
                 sts_coures_sub_themes_id = 11, sts_enabled = True, sts_created_by = None,
                 sts_updated_by = None\<rparr>],
            course_entries := course_entries store1 @
               [\<lparr>ce_id = 43, ce_subj_no = ''S1'', ce_ps_class_nbr = ''C1'',
                 ce_academic_year = 114, ce_academic_term = 1, ce_coures_sub_themes_id = 12,
                 ce_indicator_value = ''1'', ce_week_numbers = None,
                 ce_is_most_relevant = False, ce_created_by = Some ''u'',
                 ce_updated_by = Some ''u''\<rparr>]\<rparr>"

definition copy1 :: copy_entries_data where
  "copy1 =
     \<lparr>cd_subj_no = ''S1'', cd_ps_class_nbr = ''C1'', cd_source_academic_year = 113,
      cd_source_academic_term = 1, cd_target_academic_year = 114,
      cd_target_academic_term = 1, cd_user_id = ''u'', cd_token = ''tok''\<rparr>"

section \<open>The simple CSV export: \<^verbatim>\<open>export_course_entries_to_csv\<close>\<close>

text \<open>
  A Python string is modelled by the list of the bytes of its UTF-8 encoding. Concatenation,
  equality and the order of strings are the same on the byte lists as on the code points.
  The literals of the source that are not ASCII are written byte by byte; the byte order
  mark U+FEFF is the three bytes EF BB BF.
\<close>

definition bom :: string where
  "bom = [CHR 0xEF, CHR 0xBB, CHR 0xBF]"

text \<open>\<^verbatim>\<open>str\<close> of an integer.\<close>

fun str_nat :: "nat \<Rightarrow> string" where
  "str_nat n =
     (if n < 10 then [''0123456789'' ! n]
      else str_nat (n div 10) @ [''0123456789'' ! (n mod 10)])"

declare str_nat.simps [simp del]

definition str_int :: "int \<Rightarrow> string" where
  "str_int i = (if i < 0 then CHR ''-'' # str_nat (nat (- i)) else str_nat (nat i))"

fun join :: "string \<Rightarrow> string list \<Rightarrow> string" where
  "join sep [] = []"
| "join sep [x] = x"
| "join sep (x # y # ys) = x @ sep @ join sep (y # ys)"

text \<open>
  \<^verbatim>\<open>csv.writer(output, quoting=csv.QUOTE_MINIMAL, lineterminator='\n')\<close> of the
  standard library, after its documentation: a field is quoted when it contains the
  delimiter, the quote character or a character of the line terminator, a quote character
  inside a quoted field is doubled, and a row that is one empty field is written as a pair
  of quotes. The fields are joined by commas and the row ends with the line terminator.
\<close>

definition needs_quote :: "string \<Rightarrow> bool" where
  "needs_quote field = list_ex (\<lambda>c. c = CHR '','' \<or> c = CHR 0x22 \<or> c = CHR 0x0A) field"

definition quote_field :: "string \<Rightarrow> string" where
  "quote_field field =
     (if needs_quote field
      then [CHR 0x22] @ concat (map (\<lambda>c. if c = CHR 0x22 then [c, c] else [c]) field) @
           [CHR 0x22]
      else field)"

definition writerow :: "string list \<Rightarrow> string" where
  "writerow row =
     (if row = [[]] then [CHR 0x22, CHR 0x22, CHR 0x0A]
      else join '','' (map quote_field row) @ [CHR 0x0A])"

text \<open>
  \<^verbatim>\<open>get_all_course_entries_by_academic_year_term\<close>: the entries of the year-term
  joined with their sub-theme and theme, left joined with the course roster for the
  Chinese course name (\<^verbatim>\<open>COALESCE(cb.subj_chn_name, '')\<close>), ordered by theme code
  and sub-theme code.
\<close>

type_synonym export_row = "course_entry \<times> sub_theme \<times> theme \<times> string"

definition left_join_cofsubj :: "db \<Rightarrow> course_entry \<Rightarrow> string list" where
  "left_join_cofsubj d ce =
     (case [cb \<leftarrow> cofsubj_rows d. cb_subj_no cb = ce_subj_no ce] of
        [] \<Rightarrow> ['''']
      | rows \<Rightarrow> map (\<lambda>cb. case cb_subj_chn_name cb of None \<Rightarrow> '''' | Some n \<Rightarrow> n) rows)"

definition get_all_course_entries_by_academic_year_term ::
  "db \<Rightarrow> int \<Rightarrow> int \<Rightarrow> export_row list" where
  "get_all_course_entries_by_academic_year_term d academic_year academic_term =
     sort_key (\<lambda>(ce, st, t, n). (t_theme_code t, st_sub_theme_code st))
       [(ce, st, t, n). ce \<leftarrow> course_entries d, st \<leftarrow> coures_sub_themes d,
          ce_coures_sub_themes_id ce = st_id st,
          t \<leftarrow> coures_themes d, st_coures_themes_id st = t_id t,
          n \<leftarrow> left_join_cofsubj d ce,
          ce_academic_year ce = academic_year, ce_academic_term ce = academic_term]"

text \<open>
  The grouping by course. \<^verbatim>\<open>courses_dict\<close> and the
  \<^verbatim>\<open>entries_by_sub_theme\<close> of a course are Python dictionaries, which keep their
  keys in the order of first insertion: association lists under \<open>AList.update\<close>. The
  entries of a course are keyed by the sub-theme code alone.
\<close>

record course_data =
  co_subj_no :: string
  co_ps_class_nbr :: string
  co_course_chinese_name :: string
  co_entries_by_sub_theme :: "(string \<times> export_row) list"

definition default_course :: course_data where
  "default_course =
     \<lparr>co_subj_no = '''', co_ps_class_nbr = '''', co_course_chinese_name = '''',
      co_entries_by_sub_theme = []\<rparr>"

definition add_entry ::
  "export_row \<Rightarrow> ((string \<times> string) \<times> course_data) list
     \<Rightarrow> ((string \<times> string) \<times> course_data) list" where
  "add_entry entry courses_dict =
     (case entry of
        (ce, st, t, course_chinese_name) \<Rightarrow>
          (let course_key = (ce_subj_no ce, ce_ps_class_nbr ce);
               c0 = (case map_of courses_dict course_key of
                       None \<Rightarrow> default_course | Some c \<Rightarrow> c);
               c1 = c0\<lparr>co_subj_no := ce_subj_no ce, co_ps_class_nbr := ce_ps_class_nbr ce\<rparr>;
               c2 = (if course_chinese_name \<noteq> ''''
                     then c1\<lparr>co_course_chinese_name := course_chinese_name\<rparr> else c1);
               c3 = c2\<lparr>co_entries_by_sub_theme :=
                          AList.update (st_sub_theme_code st) entry
                            (co_entries_by_sub_theme c2)\<rparr>
           in AList.update course_key c3 courses_dict))"

text \<open>
  The column names. \<^verbatim>\<open>sdgs_number_map\<close> gives the names of the seventeen
  sub-themes of A101 (the number of the goal, a full stop and the Chinese name of the goal);
  \<^verbatim>\<open>week_name_map\<close> gives the name of the week column of six sub-themes, the same
  name for 1120 and 1130 of A301.
\<close>

definition sdgs_number_map :: "(string \<times> string) list" where
  "sdgs_number_map =
     [(''01'',
       ''1.'' @ [CHR 0xE6, CHR 0xB6, CHR 0x88, CHR 0xE9, CHR 0x99, CHR 0xA4, CHR 0xE8, CHR 0xB2,
       CHR 0xA7, CHR 0xE7, CHR 0xAA, CHR 0xAE]),
      (''02'',
       ''2.'' @ [CHR 0xE6, CHR 0xB6, CHR 0x88, CHR 0xE9, CHR 0x99, CHR 0xA4, CHR 0xE9, CHR 0xA3,
       CHR 0xA2, CHR 0xE9, CHR 0xA4, CHR 0x93]),
      (''03'',
       ''3.'' @ [CHR 0xE5, CHR 0x81, CHR 0xA5, CHR 0xE5, CHR 0xBA, CHR 0xB7, CHR 0xE8, CHR 0x88,
       CHR 0x87, CHR 0xE7, CHR 0xA6, CHR 0x8F, CHR 0xE7, CHR 0xA5, CHR 0x89]),
      (''04'',
       ''4.'' @ [CHR 0xE6, CHR 0x95, CHR 0x99, CHR 0xE8, CHR 0x82, CHR 0xB2, CHR 0xE5, CHR 0x93,
       CHR 0x81, CHR 0xE8, CHR 0xB3, CHR 0xAA]),
      (''05'',
       ''5.'' @ [CHR 0xE6, CHR 0x80, CHR 0xA7, CHR 0xE5, CHR 0x88, CHR 0xA5, CHR 0xE5, CHR 0xB9,
       CHR 0xB3, CHR 0xE7, CHR 0xAD, CHR 0x89]),
      (''06'',
       ''6.'' @ [CHR 0xE6, CHR 0xB7, CHR 0xA8, CHR 0xE6, CHR 0xB0, CHR 0xB4, CHR 0xE8, CHR 0x88,
       CHR 0x87, CHR 0xE8, CHR 0xA1, CHR 0x9B, CHR 0xE7, CHR 0x94, CHR 0x9F]),
      (''07'',
       ''7.'' @ [CHR 0xE5, CHR 0x8F, CHR 0xAF, CHR 0xE8, CHR 0xB2, CHR 0xA0, CHR 0xE6, CHR 0x93,
       CHR 0x94, CHR 0xE8, CHR 0x83, CHR 0xBD, CHR 0xE6, CHR 0xBA, CHR 0x90]),
      (''08'',
       ''8.'' @ [CHR 0xE5, CHR 0xB0, CHR 0xB1, CHR 0xE6, CHR 0xA5, CHR 0xAD, CHR 0xE8, CHR 0x88,
       CHR 0x87, CHR 0xE7, CHR 0xB6, CHR 0x93, CHR 0xE6, CHR 0xBF, CHR 0x9F, CHR 0xE6, CHR 0x88,
       CHR 0x90, CHR 0xE9, CHR 0x95, CHR 0xB7]),
      (''09'',
       ''9.'' @ [CHR 0xE5, CHR 0xB7, CHR 0xA5, CHR 0xE6, CHR 0xA5, CHR 0xAD, CHR 0xE3, CHR 0x80,
       CHR 0x81, CHR 0xE5, CHR 0x89, CHR 0xB5, CHR 0xE6, CHR 0x96, CHR 0xB0, CHR 0xE5, CHR 0x9F,
       CHR 0xBA, CHR 0xE7, CHR 0xA4, CHR 0x8E, CHR 0xE5, CHR 0xBB, CHR 0xBA, CHR 0xE8, CHR 0xA8,
       CHR 0xAD]),
      (''10'',
       ''10.'' @ [CHR 0xE6, CHR 0xB8, CHR 0x9B, CHR 0xE5, CHR 0xB0, CHR 0x91, CHR 0xE4, CHR
       0xB8, CHR 0x8D, CHR 0xE5, CHR 0xB9, CHR 0xB3, CHR 0xE7, CHR 0xAD, CHR 0x89]),
      (''11'',
       ''11.'' @ [CHR 0xE6, CHR 0xB0, CHR 0xB8, CHR 0xE7, CHR 0xBA, CHR 0x8C, CHR 0xE5, CHR
       0x9F, CHR 0x8E, CHR 0xE5, CHR 0xB8, CHR 0x82]),
      (''12'',
       ''12.'' @ [CHR 0xE8, CHR 0xB2, CHR 0xAC, CHR 0xE4, CHR 0xBB, CHR 0xBB, CHR 0xE6, CHR
       0xB6, CHR 0x88, CHR 0xE8, CHR 0xB2, CHR 0xBB, CHR 0xE8, CHR 0x88, CHR 0x87, CHR 0xE7, CHR
       0x94, CHR 0x9F, CHR 0xE7, CHR 0x94, CHR 0xA2]),
      (''13'',
       ''13.'' @ [CHR 0xE6, CHR 0xB0, CHR 0xA3, CHR 0xE5, CHR 0x80, CHR 0x99, CHR 0xE8, CHR
       0xA1, CHR 0x8C, CHR 0xE5, CHR 0x8B, CHR 0x95]),
      (''14'',
       ''14.'' @ [CHR 0xE6, CHR 0xB5, CHR 0xB7, CHR 0xE6, CHR 0xB4, CHR 0x8B, CHR 0xE7, CHR
       0x94, CHR 0x9F, CHR 0xE6, CHR 0x85, CHR 0x8B]),
      (''15'',
       ''15.'' @ [CHR 0xE9, CHR 0x99, CHR 0xB8, CHR 0xE5, CHR 0x9C, CHR 0xB0, CHR 0xE7, CHR
       0x94, CHR 0x9F, CHR 0xE6, CHR 0x85, CHR 0x8B]),
      (''16'',
       ''16.'' @ [CHR 0xE5, CHR 0x92, CHR 0x8C, CHR 0xE5, CHR 0xB9, CHR 0xB3, CHR 0xE8, CHR
       0x88, CHR 0x87, CHR 0xE6, CHR 0xAD, CHR 0xA3, CHR 0xE7, CHR 0xBE, CHR 0xA9, CHR 0xE5, CHR
       0x88, CHR 0xB6, CHR 0xE5, CHR 0xBA, CHR 0xA6]),
      (''17'',
       ''17.'' @ [CHR 0xE5, CHR 0x85, CHR 0xA8, CHR 0xE7, CHR 0x90, CHR 0x83, CHR 0xE5, CHR
       0xA4, CHR 0xA5, CHR 0xE4, CHR 0xBC, CHR 0xB4])]"

definition week_name_map :: "((string \<times> string) \<times> string) list" where
  "week_name_map =
     [((''A301'', ''1020''),
       [CHR 0xE5, CHR 0xAF, CHR 0xA6, CHR 0xE4, CHR 0xBD, CHR 0x9C, CHR 0xE9, CHR 0x80, CHR
       0xB1, CHR 0xE6, CHR 0xAC, CHR 0xA1]),
      ((''A301'', ''1080''),
       [CHR 0xE4, CHR 0xBA, CHR 0xBA, CHR 0xE6, CHR 0x96, CHR 0x87, CHR 0xE9, CHR 0x97, CHR
       0x9C, CHR 0xE6, CHR 0x87, CHR 0xB7, CHR 0xE9, CHR 0x80, CHR 0xB1, CHR 0xE6, CHR 0xAC, CHR
       0xA1]),
      ((''A301'', ''1120''),
       [CHR 0xE5, CHR 0xAA, CHR 0x92, CHR 0xE9, CHR 0xAB, CHR 0x94, CHR 0xE8, CHR 0xAD, CHR
       0x98, CHR 0xE8, CHR 0xAE, CHR 0x80, CHR 0xE6, CHR 0x88, CHR 0x96, CHR 0xE8, CHR 0xB3, CHR
       0x87, CHR 0xE8, CHR 0xA8, CHR 0x8A, CHR 0xE5, CHR 0x88, CHR 0xA4, CHR 0xE8, CHR 0xAE, CHR
       0x80, CHR 0xE9, CHR 0x80, CHR 0xB1, CHR 0xE6, CHR 0xAC, CHR 0xA1]),
      ((''A301'', ''1130''),
       [CHR 0xE5, CHR 0xAA, CHR 0x92, CHR 0xE9, CHR 0xAB, CHR 0x94, CHR 0xE8, CHR 0xAD, CHR
       0x98, CHR 0xE8, CHR 0xAE, CHR 0x80, CHR 0xE6, CHR 0x88, CHR 0x96, CHR 0xE8, CHR 0xB3, CHR
       0x87, CHR 0xE8, CHR 0xA8, CHR 0x8A, CHR 0xE5, CHR 0x88, CHR 0xA4, CHR 0xE8, CHR 0xAE, CHR
       0x80, CHR 0xE9, CHR 0x80, CHR 0xB1, CHR 0xE6, CHR 0xAC, CHR 0xA1]),
      ((''A401'', ''1010''),
       [CHR 0xE8, CHR 0xB3, CHR 0x87, CHR 0xE8, CHR 0xA8, CHR 0x8A, CHR 0xE7, CHR 0xA7, CHR
       0x91, CHR 0xE6, CHR 0x8A, CHR 0x80, CHR 0xE9, CHR 0x80, CHR 0xB1, CHR 0xE6, CHR 0xAC, CHR
       0xA1]),
      ((''A501'', ''1010''),
       [CHR 0xE5, CHR 0x9C, CHR 0xA8, CHR 0xE5, CHR 0x9C, CHR 0xB0, CHR 0xE9, CHR 0x97, CHR
       0x9C, CHR 0xE6, CHR 0x87, CHR 0xB7, CHR 0xE9, CHR 0x80, CHR 0xB1, CHR 0xE6, CHR 0xAC, CHR
       0xA1])]"

text \<open>
  The name of the indicator column of a sub-theme: for A101 the name of the table, or the
  sub-theme's name when the code is not in the table; for A401 \<^verbatim>\<open>UCAN\<close> before the
  name, but the name followed by \<^verbatim>\<open>(UCAN)\<close> for the sub-theme named
  U+8CC7 U+8A0A U+79D1 U+6280 (information technology); for A501 the name followed by
  \<^verbatim>\<open>(USR)\<close>; for A601 \<^verbatim>\<open>STEAM\<close> before the name; for every other theme the
  name followed by U+4E3B U+984C, a colon and U+6307 U+6A19 U+4E3B U+984C in brackets.
\<close>

definition information_technology :: string where
  "information_technology =
     [CHR 0xE8, CHR 0xB3, CHR 0x87, CHR 0xE8, CHR 0xA8, CHR 0x8A, CHR 0xE7, CHR 0xA7, CHR 0x91,
     CHR 0xE6, CHR 0x8A, CHR 0x80]"

definition indicator_theme_suffix :: string where
  "indicator_theme_suffix =
     ''('' @ [CHR 0xE4, CHR 0xB8, CHR 0xBB, CHR 0xE9, CHR 0xA1, CHR 0x8C] @ '':'' @ [CHR 0xE6,
     CHR 0x8C, CHR 0x87, CHR 0xE6, CHR 0xA8, CHR 0x99, CHR 0xE4, CHR 0xB8, CHR 0xBB, CHR 0xE9,
     CHR 0xA1, CHR 0x8C] @ '')''"

definition week_suffix :: string where
  "week_suffix =
     [CHR 0xE9, CHR 0x80, CHR 0xB1, CHR 0xE6, CHR 0xAC, CHR 0xA1]"

definition most_relevant_code_suffix :: string where
  "most_relevant_code_suffix =
     [CHR 0xE6, CHR 0x9C, CHR 0x80, CHR 0xE7, CHR 0x9B, CHR 0xB8, CHR 0xE9, CHR 0x97, CHR 0x9C,
     CHR 0xE5, CHR 0xAD, CHR 0x90, CHR 0xE4, CHR 0xB8, CHR 0xBB, CHR 0xE9, CHR 0xA1, CHR 0x8C,
     CHR 0xE4, CHR 0xBB, CHR 0xA3, CHR 0xE7, CHR 0xA2, CHR 0xBC]"

definition most_relevant_name_suffix :: string where
  "most_relevant_name_suffix =
     [CHR 0xE6, CHR 0x9C, CHR 0x80, CHR 0xE7, CHR 0x9B, CHR 0xB8, CHR 0xE9, CHR 0x97, CHR 0x9C,
     CHR 0xE5, CHR 0xAD, CHR 0x90, CHR 0xE4, CHR 0xB8, CHR 0xBB, CHR 0xE9, CHR 0xA1, CHR 0x8C,
     CHR 0xE5, CHR 0x90, CHR 0x8D, CHR 0xE7, CHR 0xA8, CHR 0xB1]"

definition year_term_column :: string where
  "year_term_column =
     [CHR 0xE5, CHR 0xAD, CHR 0xB8, CHR 0xE5, CHR 0xB9, CHR 0xB4, CHR 0xE6, CHR 0x9C, CHR 0x9F]"

definition course_name_column :: string where
  "course_name_column =
     [CHR 0xE8, CHR 0xAA, CHR 0xB2, CHR 0xE7, CHR 0xA8, CHR 0x8B, CHR 0xE5, CHR 0x90, CHR 0x8D,
     CHR 0xE7, CHR 0xA8, CHR 0xB1]"

definition column_name :: "string \<Rightarrow> string \<Rightarrow> string \<Rightarrow> string" where
  "column_name theme_code sub_theme_code sub_theme_name =
     (if theme_code = ''A101''
      then (case map_of sdgs_number_map sub_theme_code of
              None \<Rightarrow> sub_theme_name | Some n \<Rightarrow> n)
      else if theme_code = ''A401''
      then (if sub_theme_name \<noteq> information_technology then ''UCAN'' @ sub_theme_name
            else information_technology @ ''(UCAN)'')
      else if theme_code = ''A501'' then sub_theme_name @ ''(USR)''
      else if theme_code = ''A601'' then ''STEAM'' @ sub_theme_name
      else sub_theme_name @ indicator_theme_suffix)"

text \<open>
  The name of the week column: the name of the table, or the sub-theme's name followed by
  U+9031 U+6B21 (week) when the table has none.
\<close>

definition week_column_name :: "string \<Rightarrow> string \<Rightarrow> string \<Rightarrow> string" where
  "week_column_name theme_code sub_theme_code sub_theme_name =
     (case map_of week_name_map (theme_code, sub_theme_code) of
        None \<Rightarrow> sub_theme_name @ week_suffix
      | Some week_col_name \<Rightarrow>
          if week_col_name = [] then sub_theme_name @ week_suffix else week_col_name)"

text \<open>
  The columns. A \<^verbatim>\<open>col_info\<close> is a dictionary with the type of the column, its name
  and, for an indicator or week column, the sub-theme code. The loop over the enabled
  sub-themes of a theme appends the indicator column to \<^verbatim>\<open>csv_columns\<close> and to the
  theme's list; for a theme with weeks it appends the week column to the theme's list, and
  to \<^verbatim>\<open>csv_columns\<close> only when no column has that name yet. (The
  \<^verbatim>\<open>week_column_map\<close> of the source is written and never read.)
\<close>

datatype col_info =
    most_relevant_code string
  | most_relevant_name string
  | indicator string string
  | week string string

fun sub_themes_loop ::
  "string \<Rightarrow> bool \<Rightarrow> (sub_theme \<times> bool) list \<Rightarrow> string list \<times> col_info list
     \<Rightarrow> string list \<times> col_info list" where
  "sub_themes_loop theme_code fill_in_week_enabled [] acc = acc"
| "sub_themes_loop theme_code fill_in_week_enabled (sub_theme # rest) acc =
     (if \<not> snd sub_theme then sub_themes_loop theme_code fill_in_week_enabled rest acc
      else
        (let sub_theme_code = st_sub_theme_code (fst sub_theme);
             sub_theme_name = st_sub_theme_name (fst sub_theme);
             column_name = column_name theme_code sub_theme_code sub_theme_name;
             csv_columns = fst acc @ [column_name];
             cols = snd acc @ [indicator column_name sub_theme_code]
         in if fill_in_week_enabled
            then
              (let week_col_name = week_column_name theme_code sub_theme_code sub_theme_name
               in sub_themes_loop theme_code fill_in_week_enabled rest
                    (if week_col_name \<notin> set csv_columns
                     then csv_columns @ [week_col_name] else csv_columns,
                     cols @ [week week_col_name sub_theme_code]))
            else sub_themes_loop theme_code fill_in_week_enabled rest (csv_columns, cols)))"

definition theme_order :: "string list" where
  "theme_order = [''A101'', ''A301'', ''A401'', ''A501'', ''A601'']"

fun themes_loop ::
  "string list \<Rightarrow> theme_setting_row list \<Rightarrow> string list \<times> (string \<times> col_info list) list
     \<Rightarrow> string list \<times> (string \<times> col_info list) list" where
  "themes_loop [] theme_settings acc = acc"
| "themes_loop (theme_code # rest) theme_settings acc =
     (case find (\<lambda>ts. t_theme_code (fst (snd ts)) = theme_code) theme_settings of
        None \<Rightarrow> themes_loop rest theme_settings acc
      | Some theme_setting \<Rightarrow>
          (case theme_setting of
             (syts, t, sub_themes) \<Rightarrow>
               (let most_relevant_code_col = t_theme_name t @ most_relevant_code_suffix;
                    most_relevant_name_col = t_theme_name t @ most_relevant_name_suffix;
                    start =
                      (if ts_select_most_relevant_sub_theme_enabled syts
                       then (fst acc @ [most_relevant_code_col, most_relevant_name_col],
                             [most_relevant_code most_relevant_code_col,
                              most_relevant_name most_relevant_name_col])
                       else (fst acc, []));
                    finished = sub_themes_loop theme_code (ts_fill_in_week_enabled syts)
                             sub_themes start
                in themes_loop rest theme_settings
                     (fst finished, AList.update theme_code (snd finished) (snd acc)))))"

text \<open>
  The cells of a course. The most relevant sub-theme of a theme is the first entry of the
  course, in the order of its dictionary, that is of the theme and is marked; an indicator
  or week cell is looked up by the sub-theme code of its column.
\<close>

definition most_relevant_sub_theme ::
  "(string \<times> export_row) list \<Rightarrow> string \<Rightarrow> export_row option" where
  "most_relevant_sub_theme entries_by_sub_theme theme_code =
     find (\<lambda>(ce, st, t, n). t_theme_code t = theme_code \<and> ce_is_most_relevant ce)
       (map snd entries_by_sub_theme)"

fun cell :: "(string \<times> export_row) list \<Rightarrow> export_row option \<Rightarrow> col_info \<Rightarrow> string" where
  "cell entries_by_sub_theme most_relevant (most_relevant_code name) =
     (case most_relevant of None \<Rightarrow> ''''
      | Some (ce, st, t, n) \<Rightarrow> st_sub_theme_code st)"
| "cell entries_by_sub_theme most_relevant (most_relevant_name name) =
     (case most_relevant of None \<Rightarrow> ''''
      | Some (ce, st, t, n) \<Rightarrow> st_sub_theme_name st)"
| "cell entries_by_sub_theme most_relevant (indicator name sub_theme_code) =
     (case map_of entries_by_sub_theme sub_theme_code of None \<Rightarrow> ''''
      | Some (ce, st, t, n) \<Rightarrow> ce_indicator_value ce)"
| "cell entries_by_sub_theme most_relevant (week name sub_theme_code) =
     (case map_of entries_by_sub_theme sub_theme_code of None \<Rightarrow> ''''
      | Some (ce, st, t, n) \<Rightarrow>
          (case ce_week_numbers ce of None \<Rightarrow> ''''
           | Some week_numbers \<Rightarrow>
               if week_numbers = [] then '''' else join '','' (map str_int week_numbers)))"

definition course_row ::
  "string \<Rightarrow> (string \<times> col_info list) list \<Rightarrow> course_data \<Rightarrow> string list" where
  "course_row year_term_str theme_columns course_data =
     [year_term_str, co_subj_no course_data, co_ps_class_nbr course_data,
      co_course_chinese_name course_data] @
     concat (map (\<lambda>theme_code.
                    case map_of theme_columns theme_code of
                      None \<Rightarrow> []
                    | Some cols \<Rightarrow>
                        map (cell (co_entries_by_sub_theme course_data)
                               (most_relevant_sub_theme (co_entries_by_sub_theme course_data)
                                  theme_code))
                          cols)
               theme_order)"

text \<open>
  \<^verbatim>\<open>export_course_entries_to_csv\<close>: HTTP 404 when the year-term has no theme
  setting; otherwise the byte order mark, the header row and one row per course in the
  order of the course keys. The function reads the store and writes nothing.
\<close>

definition export_course_entries_to_csv :: "db \<Rightarrow> int \<Rightarrow> int \<Rightarrow> error + string" where
  "export_course_entries_to_csv d academic_year academic_term =
     (let theme_settings = get_school_year_theme_settings_by_year d academic_year academic_term
      in if theme_settings = [] then Inl (HTTPException 404)
         else
           (let all_entries =
                  get_all_course_entries_by_academic_year_term d academic_year academic_term;
                courses_dict = fold add_entry all_entries [];
                columns =
                  themes_loop theme_order theme_settings
                    ([year_term_column, ''OPMS_COURSE_NO'', ''PS_CLASS_NBR'',
                      course_name_column], []);
                year_term_str = str_int academic_year @ str_int academic_term
            in Inr (bom @ writerow (fst columns) @
                    concat (map (\<lambda>course_key.
                                   writerow
                                     (course_row year_term_str (snd columns)
                                        (the (map_of courses_dict course_key))))
                              (sort (map fst courses_dict))))))"

text \<open>
  \<open>store8\<close>: theme A301 asks for weeks in 113-1 and its sub-themes 1120 and 1130, whose
  week columns have the same name in \<^verbatim>\<open>week_name_map\<close>, are both enabled; course
  S1/C1 has an entry of each, with week 1 and week 2.
\<close>

definition store8 :: db where
  "store8 =
     \<lparr>coures_themes = [\<lparr>t_id = 2, t_theme_code = ''A301'', t_theme_name = ''Core''\<rparr>],
      coures_sub_themes =
        [\<lparr>st_id = 22, st_coures_themes_id = 2, st_sub_theme_code = ''1120'',
          st_sub_theme_name = ''Media''\<rparr>,
         \<lparr>st_id = 23, st_coures_themes_id = 2, st_sub_theme_code = ''1130'',
          st_sub_theme_name = ''Info''\<rparr>],
      themes_setting =
        [\<lparr>ts_id = 51, ts_academic_year = 113, ts_academic_term = 1,
          ts_coures_themes_id = 2, ts_fill_in_week_enabled = True, ts_scale_max = 3,
          ts_select_most_relevant_sub_theme_enabled = False, ts_created_by = None,
          ts_updated_by = None\<rparr>],
      sub_theme_settings =
        [\<lparr>sts_id = 61, sts_academic_year = 113, sts_academic_term = 1,
          sts_coures_sub_themes_id = 22, sts_enabled = True, sts_created_by = None,
          sts_updated_by = None\<rparr>,
         \<lparr>sts_id = 62, sts_academic_year = 113, sts_academic_term = 1,
          sts_coures_sub_themes_id = 23, sts_enabled = True, sts_created_by = None,
          sts_updated_by = None\<rparr>],
      course_entries =
        [\<lparr>ce_id = 71, ce_subj_no = ''S1'', ce_ps_class_nbr = ''C1'', ce_academic_year = 113,
          ce_academic_term = 1, ce_coures_sub_themes_id = 22, ce_indicator_value = ''2'',
          ce_week_numbers = Some [1], ce_is_most_relevant = False,
          ce_created_by = Some ''u'', ce_updated_by = Some ''u''\<rparr>,
         \<lparr>ce_id = 72, ce_subj_no = ''S1'', ce_ps_class_nbr = ''C1'', ce_academic_year = 113,
          ce_academic_term = 1, ce_coures_sub_themes_id = 23, ce_indicator_value = ''3'',
          ce_week_numbers = Some [2], ce_is_most_relevant = False,
          ce_created_by = Some ''u'', ce_updated_by = Some ''u''\<rparr>],
      cofsubj_rows = [],
      uuid_counter = 100\<rparr>"

section \<open>Lemmas on the queries\<close>

lemma fetchrow_None: "fetchrow xs = None \<longleftrightarrow> xs = []"
  by (simp add: fetchrow_def split: list.splits)

lemma fetchrow_Some: "fetchrow xs = Some x \<Longrightarrow> x \<in> set xs"
  by (auto simp: fetchrow_def split: list.splits)

lemma fetchrow_filter_Some: "fetchrow (filter P xs) = Some x \<Longrightarrow> x \<in> set xs \<and> P x"
  by (drule fetchrow_Some) simp

lemma fetchrow_nonempty: "x \<in> set xs \<Longrightarrow> \<exists>y. fetchrow xs = Some y"
  by (cases xs) (auto simp: fetchrow_def)

lemma set_entry_rows:
  "set (entry_rows d) =
     {(ce, st, t). ce \<in> set (course_entries d) \<and> st \<in> set (coures_sub_themes d) \<and>
        ce_coures_sub_themes_id ce = st_id st \<and> t \<in> set (coures_themes d) \<and>
        st_coures_themes_id st = t_id t}"
  by (auto simp: entry_rows_def)

lemma set_enabled_sub_themes_by_code:
  "set (enabled_sub_themes_by_code d y t code) =
     {st \<in> set (coures_sub_themes d). \<exists>systs \<in> set (sub_theme_settings d).
        st_id st = sts_coures_sub_themes_id systs \<and> sts_academic_year systs = y \<and>
        sts_academic_term systs = t \<and> st_sub_theme_code st = code \<and> sts_enabled systs}"
  by (auto simp: enabled_sub_themes_by_code_def)

lemma enabled_setting_exists_iff:
  "enabled_setting_exists d y t code \<longleftrightarrow> enabled_sub_themes_by_code d y t code \<noteq> []"
proof
  assume "enabled_setting_exists d y t code"
  then obtain systs st where "systs \<in> set (sub_theme_settings d)" "st \<in> set (coures_sub_themes d)"
      "sts_coures_sub_themes_id systs = st_id st" "st_sub_theme_code st = code"
      "sts_academic_year systs = y" "sts_academic_term systs = t" "sts_enabled systs"
    unfolding enabled_setting_exists_def by auto
  then have "st \<in> set (enabled_sub_themes_by_code d y t code)"
    unfolding set_enabled_sub_themes_by_code by (intro CollectI conjI bexI[of _ systs]) simp_all
  then show "enabled_sub_themes_by_code d y t code \<noteq> []" by auto
next
  assume "enabled_sub_themes_by_code d y t code \<noteq> []"
  then obtain st where "st \<in> set (enabled_sub_themes_by_code d y t code)"
    by (cases "enabled_sub_themes_by_code d y t code") auto
  then obtain systs where "st \<in> set (coures_sub_themes d)" "systs \<in> set (sub_theme_settings d)"
      "st_id st = sts_coures_sub_themes_id systs" "sts_academic_year systs = y"
      "sts_academic_term systs = t" "st_sub_theme_code st = code" "sts_enabled systs"
    unfolding set_enabled_sub_themes_by_code by auto
  then show "enabled_setting_exists d y t code"
    unfolding enabled_setting_exists_def by (intro bexI[of _ systs] bexI[of _ st]) auto
qed

lemma filter_map_upd_same:
  assumes "\<And>x. k (f x) = k x"
  shows "[c \<leftarrow> map (\<lambda>x. if k x = i then f x else x) xs. k c = i] = map f [c \<leftarrow> xs. k c = i]"
  using assms by (induction xs) auto

lemma filter_map_upd_other:
  assumes "\<And>x. k (f x) = k x"
  shows "[c \<leftarrow> map (\<lambda>x. if k x = i then f x else x) xs. k c \<noteq> i] = [c \<leftarrow> xs. k c \<noteq> i]"
  using assms by (induction xs) auto

lemma distinct_filter_key:
  "distinct (map k xs) \<Longrightarrow> x \<in> set xs \<Longrightarrow> [c \<leftarrow> xs. k c = k x] = [x]"
proof (induction xs)
  case Nil
  then show ?case by simp
next
  case (Cons a xs)
  show ?case
  proof (cases "a = x")
    case True
    with Cons.prems have "\<forall>c \<in> set xs. k c \<noteq> k x" by (auto simp: image_iff)
    then have "[c \<leftarrow> xs. k c = k x] = []" by (simp add: filter_empty_conv)
    with True show ?thesis by simp
  next
    case False
    with Cons.prems have "x \<in> set xs" "k a \<noteq> k x" by (auto simp: image_iff)
    with Cons show ?thesis by simp
  qed
qed

lemma filter_key_map:
  assumes "\<And>x. k (g x) = k x"
  shows "filter (\<lambda>c. P (k c)) (map g xs) = map g (filter (\<lambda>c. P (k c)) xs)"
  using assms by (induction xs) auto

lemma key_update_entry_row [simp]:
  "course_entry_key (update_entry_row v wn imr ub x) = course_entry_key x"
  by (simp add: course_entry_key_def update_entry_row_def)

lemma id_update_entry_row [simp]: "ce_id (update_entry_row v wn imr ub x) = ce_id x"
  by (simp add: update_entry_row_def)

lemma sub_theme_update_entry_row [simp]:
  "ce_coures_sub_themes_id (update_entry_row v wn imr ub x) = ce_coures_sub_themes_id x"
  by (simp add: update_entry_row_def)

lemma value_update_entry_row [simp]:
  "ce_indicator_value (update_entry_row v wn imr ub x) = v"
  by (simp add: update_entry_row_def)

lemma distinct_key_eq:
  "distinct (map k xs) \<Longrightarrow> x \<in> set xs \<Longrightarrow> y \<in> set xs \<Longrightarrow> k x = k y \<Longrightarrow> x = y"
  by (auto simp: distinct_map dest: inj_onD)

lemma entry_rows_fst: "r \<in> set (entry_rows d) \<Longrightarrow> fst r \<in> set (course_entries d)"
  by (auto simp: set_entry_rows)

text \<open>The effect of the update on a store whose entry ids are distinct.\<close>

lemma update_course_entry_by_id_effect:
  assumes ok: "entries_ok d"
      and row: "(ce0, st0, t0) \<in> set (entry_rows d)"
  shows "\<exists>r d'. update_course_entry_by_id (ce_id ce0) v wn imr ub d = (Inr (Some r), d')
           \<and> fst r = update_entry_row v wn imr ub ce0
           \<and> coures_themes d' = coures_themes d
           \<and> coures_sub_themes d' = coures_sub_themes d
           \<and> sub_theme_settings d' = sub_theme_settings d
           \<and> themes_setting d' = themes_setting d
           \<and> entries_ok d'
           \<and> [x \<leftarrow> course_entries d'. course_entry_key x = course_entry_key ce0] = [fst r]
           \<and> [x \<leftarrow> course_entries d'. course_entry_key x \<noteq> course_entry_key ce0] =
               [x \<leftarrow> course_entries d. course_entry_key x \<noteq> course_entry_key ce0]"
proof -
  let ?f = "update_entry_row v wn imr ub"
  let ?g = "\<lambda>x. if ce_id x = ce_id ce0 then ?f x else x"
  let ?d' = "d\<lparr>course_entries := map ?g (course_entries d)\<rparr>"
  have mem: "ce0 \<in> set (course_entries d)" using row by (simp add: set_entry_rows)
  have dist: "distinct (map ce_id (course_entries d))"
    and distk: "distinct (map course_entry_key (course_entries d))"
    using ok by (simp_all add: entries_ok_def)
  have gk: "\<And>x. course_entry_key (?g x) = course_entry_key x" by simp
  have gi: "\<And>x. ce_id (?g x) = ce_id x" by simp
  have gother: "?g x = x"
    if "x \<in> set (course_entries d)" "course_entry_key x \<noteq> course_entry_key ce0" for x
  proof -
    have "ce_id x \<noteq> ce_id ce0"
    proof
      assume "ce_id x = ce_id ce0"
      then have "x = ce0" using distinct_key_eq[OF dist that(1) mem] by simp
      with that(2) show False by simp
    qed
    then show ?thesis by simp
  qed
  have run: "update_course_entry_by_id (ce_id ce0) v wn imr ub d =
               (Inr (get_course_entry_by_id ?d' (ce_id ce0)), ?d')"
    by (simp add: update_course_entry_by_id_def Let_def)
  have "?g ce0 \<in> ?g ` set (course_entries d)" using mem by (rule imageI)
  then have "?f ce0 \<in> set (course_entries ?d')" by simp
  then have row': "(?f ce0, st0, t0) \<in> set (entry_rows ?d')"
    using row by (simp add: set_entry_rows)
  then have "(?f ce0, st0, t0) \<in> set [r \<leftarrow> entry_rows ?d'. ce_id (fst r) = ce_id ce0]" by simp
  from fetchrow_nonempty[OF this]
  obtain r where r: "get_course_entry_by_id ?d' (ce_id ce0) = Some r"
    unfolding get_course_entry_by_id_def by auto
  then have "r \<in> set (entry_rows ?d')" "ce_id (fst r) = ce_id ce0"
    unfolding get_course_entry_by_id_def by (auto dest: fetchrow_filter_Some)
  then have "fst r \<in> ?g ` set (course_entries d)" "ce_id (fst r) = ce_id ce0"
    using entry_rows_fst[of r ?d'] by simp_all
  then obtain x where x: "x \<in> set (course_entries d)" "fst r = ?g x" "ce_id (?g x) = ce_id ce0"
    by (auto simp del: id_update_entry_row)
  then have "x = ce0" using distinct_key_eq[OF dist x(1) mem] by (simp split: if_splits)
  with x have fr: "fst r = ?f ce0" by simp
  have ok': "entries_ok ?d'"
  proof -
    have i: "map ce_id (map ?g (course_entries d)) = map ce_id (course_entries d)" by simp
    have k: "map course_entry_key (map ?g (course_entries d)) =
             map course_entry_key (course_entries d)" by simp
    have "\<forall>n \<in> set (map ce_id (course_entries d)). n < uuid_counter d"
      using ok by (simp add: entries_ok_def)
    then have "\<forall>n \<in> set (map ce_id (map ?g (course_entries d))). n < uuid_counter d"
      by (simp only: i)
    then have f: "\<forall>c \<in> set (map ?g (course_entries d)). ce_id c < uuid_counter d"
      by (simp only: set_map ball_simps)
    show ?thesis
      unfolding entries_ok_def using dist distk f by (simp add: i k del: map_map set_map)
  qed
  have same: "[x \<leftarrow> course_entries ?d'. course_entry_key x = course_entry_key ce0] = [?f ce0]"
  proof -
    have "[x \<leftarrow> map ?g (course_entries d). course_entry_key x = course_entry_key ce0] =
          map ?g [x \<leftarrow> course_entries d. course_entry_key x = course_entry_key ce0]"
      using filter_key_map[of course_entry_key ?g "\<lambda>k. k = course_entry_key ce0", OF gk] by simp
    also have "\<dots> = map ?g [ce0]" using distinct_filter_key[OF distk mem] by simp
    finally show ?thesis by simp
  qed
  have other: "[x \<leftarrow> course_entries ?d'. course_entry_key x \<noteq> course_entry_key ce0] =
               [x \<leftarrow> course_entries d. course_entry_key x \<noteq> course_entry_key ce0]"
  proof -
    have "[x \<leftarrow> map ?g (course_entries d). course_entry_key x \<noteq> course_entry_key ce0] =
          map ?g [x \<leftarrow> course_entries d. course_entry_key x \<noteq> course_entry_key ce0]"
      using filter_key_map[of course_entry_key ?g "\<lambda>k. k \<noteq> course_entry_key ce0", OF gk] by simp
    also have "\<dots> = [x \<leftarrow> course_entries d. course_entry_key x \<noteq> course_entry_key ce0]"
      using gother by (intro map_idI) auto
    finally show ?thesis by simp
  qed
  show ?thesis
    using run r fr ok' same other by (intro exI[of _ r] exI[of _ ?d']) simp
qed


lemma enabled_sub_theme_hd:
  assumes "enabled_sub_themes_by_code d y t code = st # rest"
  shows "st \<in> set (coures_sub_themes d) \<and> st_sub_theme_code st = code \<and>
         (\<exists>systs \<in> set (sub_theme_settings d).
            sts_coures_sub_themes_id systs = st_id st \<and> sts_academic_year systs = y \<and>
            sts_academic_term systs = t \<and> sts_enabled systs)"
proof -
  have "st \<in> set (enabled_sub_themes_by_code d y t code)" using assms by simp
  then obtain systs where "st \<in> set (coures_sub_themes d)" "systs \<in> set (sub_theme_settings d)"
      "st_id st = sts_coures_sub_themes_id systs" "sts_academic_year systs = y"
      "sts_academic_term systs = t" "st_sub_theme_code st = code" "sts_enabled systs"
    unfolding set_enabled_sub_themes_by_code by auto
  then show ?thesis by (intro conjI bexI[of _ systs]) simp_all
qed

text \<open>The effect of a create on a store that keeps its constraints.\<close>

lemma create_course_entry_effect:
  assumes ok: "entries_ok d" and th: "sub_themes_have_theme d"
      and en: "enabled_sub_themes_by_code d y t code = st # rest"
  shows "\<exists>r d'. create_course_entry s c y t code v wn imr cb d = (Inr (Some r), d')
           \<and> coures_themes d' = coures_themes d
           \<and> coures_sub_themes d' = coures_sub_themes d
           \<and> sub_theme_settings d' = sub_theme_settings d
           \<and> themes_setting d' = themes_setting d
           \<and> entries_ok d'
           \<and> course_entry_key (fst r) = (s, c, y, t, st_id st)
           \<and> ce_indicator_value (fst r) = v
           \<and> [x \<leftarrow> course_entries d'. course_entry_key x = (s, c, y, t, st_id st)] = [fst r]
           \<and> [x \<leftarrow> course_entries d'. course_entry_key x \<noteq> (s, c, y, t, st_id st)] =
               [x \<leftarrow> course_entries d. course_entry_key x \<noteq> (s, c, y, t, st_id st)]
           \<and> (\<forall>x \<in> set (course_entries d).
                 course_entry_key x = (s, c, y, t, st_id st) \<longrightarrow> ce_id (fst r) = ce_id x)"
proof (cases "get_course_entry_by_sub_theme_id d s c y t (st_id st)")
  case (Some ex)
  obtain ce0 st0 t0 where ex: "ex = (ce0, st0, t0)" by (cases ex)
  have "ex \<in> set (entry_rows d) \<and> course_entry_key (fst ex) = (s, c, y, t, st_id st)"
    using Some unfolding get_course_entry_by_sub_theme_id_def by (rule fetchrow_filter_Some)
  then have row: "(ce0, st0, t0) \<in> set (entry_rows d)"
    and key: "course_entry_key ce0 = (s, c, y, t, st_id st)" by (simp_all add: ex)
  have run: "create_course_entry s c y t code v wn imr cb d =
             update_course_entry_by_id (ce_id ce0) v wn imr cb d"
    using en Some by (simp add: create_course_entry_def fetchrow_def ex)
  from update_course_entry_by_id_effect[OF ok row, of v wn imr cb]
  obtain r d' where u: "update_course_entry_by_id (ce_id ce0) v wn imr cb d = (Inr (Some r), d')"
      "fst r = update_entry_row v wn imr cb ce0"
      "coures_themes d' = coures_themes d" "coures_sub_themes d' = coures_sub_themes d"
      "sub_theme_settings d' = sub_theme_settings d" "themes_setting d' = themes_setting d"
      "entries_ok d'"
      "[x \<leftarrow> course_entries d'. course_entry_key x = course_entry_key ce0] = [fst r]"
      "[x \<leftarrow> course_entries d'. course_entry_key x \<noteq> course_entry_key ce0] =
         [x \<leftarrow> course_entries d. course_entry_key x \<noteq> course_entry_key ce0]"
    by blast
  have mem: "ce0 \<in> set (course_entries d)" using row by (simp add: set_entry_rows)
  have distk: "distinct (map course_entry_key (course_entries d))"
    using ok by (simp add: entries_ok_def)
  have same_id: "\<forall>x \<in> set (course_entries d).
      course_entry_key x = (s, c, y, t, st_id st) \<longrightarrow> ce_id (fst r) = ce_id x"
  proof (intro ballI impI)
    fix x assume "x \<in> set (course_entries d)" "course_entry_key x = (s, c, y, t, st_id st)"
    then have "x = ce0" using distinct_key_eq[OF distk _ mem] key by simp
    then show "ce_id (fst r) = ce_id x" using u(2) by simp
  qed
  have "course_entry_key (fst r) = (s, c, y, t, st_id st)" "ce_indicator_value (fst r) = v"
    using u(2) key by simp_all
  then show ?thesis
    unfolding run using u key same_id by (intro exI[of _ r] exI[of _ d']) simp
next
  case None
  let ?K = "(s, c, y, t, st_id st)"
  let ?n = "uuid_counter d"
  let ?new = "\<lparr>ce_id = ?n, ce_subj_no = s, ce_ps_class_nbr = c, ce_academic_year = y,
                ce_academic_term = t, ce_coures_sub_themes_id = st_id st,
                ce_indicator_value = v, ce_week_numbers = to_week_numbers_json wn,
                ce_is_most_relevant = truthy imr, ce_created_by = cb, ce_updated_by = cb\<rparr>"
  let ?d2 = "d\<lparr>uuid_counter := Suc ?n, course_entries := course_entries d @ [?new]\<rparr>"
  have stmem: "st \<in> set (coures_sub_themes d)" using enabled_sub_theme_hd[OF en] by simp
  then obtain t0 where t0: "t0 \<in> set (coures_themes d)" "st_coures_themes_id st = t_id t0"
    using th unfolding sub_themes_have_theme_def by auto
  have empty: "[r \<leftarrow> entry_rows d. course_entry_key (fst r) = ?K] = []"
    using None unfolding get_course_entry_by_sub_theme_id_def by (simp add: fetchrow_None)
  have nokey: "course_entry_key x \<noteq> ?K" if "x \<in> set (course_entries d)" for x
  proof
    assume k: "course_entry_key x = ?K"
    then have "ce_coures_sub_themes_id x = st_id st" by (simp add: course_entry_key_def)
    then have "(x, st, t0) \<in> set (entry_rows d)"
      using that stmem t0 by (simp add: set_entry_rows)
    then have "(x, st, t0) \<in> set [r \<leftarrow> entry_rows d. course_entry_key (fst r) = ?K]"
      using k by simp
    then show False unfolding empty by simp
  qed
  have fresh: "ce_id x < ?n" if "x \<in> set (course_entries d)" for x
    using ok that by (simp add: entries_ok_def)
  have knew: "course_entry_key ?new = ?K" by (simp add: course_entry_key_def)
  have nid: "?n \<notin> set (map ce_id (course_entries d))" using fresh by fastforce
  have nk: "?K \<notin> set (map course_entry_key (course_entries d))" using nokey by fastforce
  have ins: "insert_course_entry ?new (d\<lparr>uuid_counter := Suc ?n\<rparr>) = (Inr (), ?d2)"
    using nid nk unfolding insert_course_entry_def knew by simp
  have run: "create_course_entry s c y t code v wn imr cb d =
             (Inr (get_course_entry_by_id ?d2 ?n), ?d2)"
    using en None ins by (simp add: create_course_entry_def fetchrow_def uuid4_def)
  have "(?new, st, t0) \<in> set (entry_rows ?d2)"
    using stmem t0 by (simp add: set_entry_rows)
  then have "(?new, st, t0) \<in> set [r \<leftarrow> entry_rows ?d2. ce_id (fst r) = ?n]" by simp
  from fetchrow_nonempty[OF this]
  obtain r where r: "get_course_entry_by_id ?d2 ?n = Some r"
    unfolding get_course_entry_by_id_def by auto
  then have "r \<in> set (entry_rows ?d2)" "ce_id (fst r) = ?n"
    unfolding get_course_entry_by_id_def by (auto dest: fetchrow_filter_Some)
  then have "fst r \<in> set (course_entries d) \<or> fst r = ?new" "ce_id (fst r) = ?n"
    using entry_rows_fst[of r ?d2] by auto
  then have fr: "fst r = ?new" using fresh[of "fst r"] by auto
  have ok': "entries_ok ?d2"
    using ok nid nk fresh unfolding entries_ok_def knew
    by (auto simp: knew less_Suc_eq)
  have same: "[x \<leftarrow> course_entries ?d2. course_entry_key x = ?K] = [?new]"
    using nokey by (simp add: knew filter_empty_conv)
  have other: "[x \<leftarrow> course_entries ?d2. course_entry_key x \<noteq> ?K] =
               [x \<leftarrow> course_entries d. course_entry_key x \<noteq> ?K]"
    by (simp add: knew)
  show ?thesis
    unfolding run r
    using fr ok' same other knew nokey by (intro exI[of _ r] exI[of _ ?d2]) simp
qed

lemma store1_entries_ok: "entries_ok store1"
  by (simp add: entries_ok_def store1_def course_entry_key_def)

lemma store1_sub_themes_have_theme: "sub_themes_have_theme store1"
  by (simp add: sub_themes_have_theme_def store1_def)

lemma batch_loop_acc:
  "create_course_entries_batch_loop es acc d =
     (acc @ fst (create_course_entries_batch_loop es [] d),
      snd (create_course_entries_batch_loop es [] d))"
proof (induction es arbitrary: acc d)
  case Nil
  then show ?case by simp
next
  case (Cons e es)
  obtain res d1 where r: "create_from_data e d = (res, d1)" by (cases "create_from_data e d")
  show ?case
  proof (cases res)
    case (Inl err)
    with r Cons.IH[of acc d1] show ?thesis by simp
  next
    case (Inr opt)
    show ?thesis
    proof (cases opt)
      case None
      with r Inr Cons.IH[of acc d1] show ?thesis by simp
    next
      case (Some row)
      with r Inr Cons.IH[of "acc @ [row]" d1] Cons.IH[of "[row]" d1] show ?thesis by simp
    qed
  qed
qed

lemma batch_Cons:
  "create_course_entries_batch (e # es) d =
     (case create_from_data e d of
        (res, d1) \<Rightarrow>
          (case create_course_entries_batch es d1 of
             (rs, d2) \<Rightarrow> (successes res @ rs, d2)))"
proof -
  obtain res d1 where r: "create_from_data e d = (res, d1)" by (cases "create_from_data e d")
  obtain rs d2 where b: "create_course_entries_batch_loop es [] d1 = (rs, d2)"
    by (cases "create_course_entries_batch_loop es [] d1")
  show ?thesis
  proof (cases res)
    case (Inl err)
    with r b show ?thesis by (simp add: create_course_entries_batch_def successes_def)
  next
    case (Inr opt)
    show ?thesis
    proof (cases opt)
      case None
      with r b Inr show ?thesis by (simp add: create_course_entries_batch_def successes_def)
    next
      case (Some row)
      with r b Inr batch_loop_acc[of es "[row]" d1] show ?thesis
        by (simp add: create_course_entries_batch_def successes_def)
    qed
  qed
qed

lemma batch_append:
  "create_course_entries_batch (es1 @ es2) d =
     (case create_course_entries_batch es1 d of
        (rs1, d1) \<Rightarrow>
          (case create_course_entries_batch es2 d1 of
             (rs2, d2) \<Rightarrow> (rs1 @ rs2, d2)))"
proof (induction es1 arbitrary: d)
  case Nil
  then show ?case by (simp add: create_course_entries_batch_def split: prod.splits)
next
  case (Cons e es1)
  show ?case
    unfolding append_Cons batch_Cons using Cons.IH by (simp split: prod.splits)
qed

lemma set_sub_theme_setting_rows:
  "set (sub_theme_setting_rows d) =
     {(systs, st, t). systs \<in> set (sub_theme_settings d) \<and> st \<in> set (coures_sub_themes d) \<and>
        sts_coures_sub_themes_id systs = st_id st \<and> t \<in> set (coures_themes d) \<and>
        st_coures_themes_id st = t_id t}"
  by (auto simp: sub_theme_setting_rows_def)

lemma sub_theme_setting_rows_fst:
  "r \<in> set (sub_theme_setting_rows d) \<Longrightarrow> fst r \<in> set (sub_theme_settings d)"
  by (auto simp: set_sub_theme_setting_rows)

lemma setting_has_row:
  assumes ok: "sub_theme_settings_ok d" and th: "sub_themes_have_theme d"
      and x: "x \<in> set (sub_theme_settings d)"
  shows "\<exists>st t. (x, st, t) \<in> set (sub_theme_setting_rows d)"
proof -
  obtain st where st: "st \<in> set (coures_sub_themes d)" "sts_coures_sub_themes_id x = st_id st"
    using ok x unfolding sub_theme_settings_ok_def by blast
  obtain t where "t \<in> set (coures_themes d)" "st_coures_themes_id st = t_id t"
    using th st(1) unfolding sub_themes_have_theme_def by blast
  with st x show ?thesis by (auto simp: set_sub_theme_setting_rows)
qed

lemma get_setting_by_id_None:
  assumes ok: "sub_theme_settings_ok d" and th: "sub_themes_have_theme d"
  shows "get_school_year_sub_theme_setting_by_id d sid = None \<longleftrightarrow>
         sid \<notin> set (map sts_id (sub_theme_settings d))"
proof
  assume n: "get_school_year_sub_theme_setting_by_id d sid = None"
  show "sid \<notin> set (map sts_id (sub_theme_settings d))"
  proof
    assume "sid \<in> set (map sts_id (sub_theme_settings d))"
    then obtain x where x: "x \<in> set (sub_theme_settings d)" "sts_id x = sid" by auto
    from setting_has_row[OF ok th x(1)] obtain st t where
      "(x, st, t) \<in> set (sub_theme_setting_rows d)" by blast
    then have "(x, st, t) \<in> set [r \<leftarrow> sub_theme_setting_rows d. sts_id (fst r) = sid]"
      using x(2) by simp
    from fetchrow_nonempty[OF this] n show False
      by (simp add: get_school_year_sub_theme_setting_by_id_def)
  qed
next
  assume a: "sid \<notin> set (map sts_id (sub_theme_settings d))"
  have "[r \<leftarrow> sub_theme_setting_rows d. sts_id (fst r) = sid] = []"
    unfolding filter_empty_conv using a sub_theme_setting_rows_fst by fastforce
  then show "get_school_year_sub_theme_setting_by_id d sid = None"
    by (simp add: get_school_year_sub_theme_setting_by_id_def fetchrow_def)
qed

text \<open>The effect of \<open>update_enabled\<close> on an existing setting row.\<close>

lemma update_enabled_effect:
  assumes ok: "sub_theme_settings_ok d" and th: "sub_themes_have_theme d"
      and x0: "x0 \<in> set (sub_theme_settings d)"
  shows "\<exists>r. get_school_year_sub_theme_setting_by_id (update_enabled (sts_id x0) en ub d)
                (sts_id x0) = Some r
           \<and> fst r = x0\<lparr>sts_enabled := en, sts_updated_by := ub\<rparr>
           \<and> [x \<leftarrow> sub_theme_settings (update_enabled (sts_id x0) en ub d). sts_id x = sts_id x0]
               = [fst r]
           \<and> [x \<leftarrow> sub_theme_settings (update_enabled (sts_id x0) en ub d). sts_id x \<noteq> sts_id x0]
               = [x \<leftarrow> sub_theme_settings d. sts_id x \<noteq> sts_id x0]"
proof -
  let ?f = "\<lambda>x. x\<lparr>sts_enabled := en, sts_updated_by := ub\<rparr>"
  let ?g = "\<lambda>x. if sts_id x = sts_id x0 then ?f x else x"
  let ?d' = "update_enabled (sts_id x0) en ub d"
  have d': "?d' = d\<lparr>sub_theme_settings := map ?g (sub_theme_settings d)\<rparr>"
    by (simp add: update_enabled_def)
  have dist: "distinct (map sts_id (sub_theme_settings d))"
    using ok by (simp add: sub_theme_settings_ok_def)
  have fi: "\<And>x. sts_id (?f x) = sts_id x" by simp
  from setting_has_row[OF ok th x0] obtain st t where
    row: "(x0, st, t) \<in> set (sub_theme_setting_rows d)" by blast
  have "?g x0 \<in> ?g ` set (sub_theme_settings d)" using x0 by (rule imageI)
  then have "?f x0 \<in> set (sub_theme_settings ?d')" unfolding d' by simp
  then have "(?f x0, st, t) \<in> set (sub_theme_setting_rows ?d')"
    using row by (simp add: set_sub_theme_setting_rows d')
  then have "(?f x0, st, t) \<in> set [r \<leftarrow> sub_theme_setting_rows ?d'. sts_id (fst r) = sts_id x0]"
    by simp
  from fetchrow_nonempty[OF this]
  obtain r where r: "get_school_year_sub_theme_setting_by_id ?d' (sts_id x0) = Some r"
    unfolding get_school_year_sub_theme_setting_by_id_def by auto
  then have "r \<in> set (sub_theme_setting_rows ?d')" "sts_id (fst r) = sts_id x0"
    unfolding get_school_year_sub_theme_setting_by_id_def by (auto dest: fetchrow_filter_Some)
  then have "fst r \<in> ?g ` set (sub_theme_settings d)" "sts_id (fst r) = sts_id x0"
    using sub_theme_setting_rows_fst[of r ?d'] unfolding d' by simp_all
  then obtain x where x: "x \<in> set (sub_theme_settings d)" "fst r = ?g x" "sts_id (?g x) = sts_id x0"
    by auto
  then have "x = x0" using distinct_key_eq[OF dist x(1) x0] by (simp split: if_splits)
  with x have fr: "fst r = ?f x0" by simp
  have one: "[x \<leftarrow> sub_theme_settings ?d'. sts_id x = sts_id x0] = [?f x0]"
    unfolding d'
    using filter_map_upd_same[of sts_id ?f "sts_id x0" "sub_theme_settings d", OF fi]
      distinct_filter_key[OF dist x0] by simp
  have other: "[x \<leftarrow> sub_theme_settings ?d'. sts_id x \<noteq> sts_id x0] =
               [x \<leftarrow> sub_theme_settings d. sts_id x \<noteq> sts_id x0]"
    unfolding d'
    using filter_map_upd_other[of sts_id ?f "sts_id x0" "sub_theme_settings d", OF fi] by simp
  show ?thesis using r fr one other by (intro exI[of _ r]) simp
qed


lemma sub_theme_by_id_None:
  assumes th: "sub_themes_have_theme d"
  shows "fetchrow [(st, th). st \<leftarrow> coures_sub_themes d, th \<leftarrow> coures_themes d,
                     st_coures_themes_id st = t_id th, st_id st = sid] = None \<longleftrightarrow>
         sid \<notin> set (map st_id (coures_sub_themes d))"
proof -
  let ?rows = "[(st, th). st \<leftarrow> coures_sub_themes d, th \<leftarrow> coures_themes d,
                  st_coures_themes_id st = t_id th, st_id st = sid]"
  have s: "set ?rows = {(st, t). st \<in> set (coures_sub_themes d) \<and> t \<in> set (coures_themes d) \<and>
                          st_coures_themes_id st = t_id t \<and> st_id st = sid}"
    by (auto split: if_splits)
  let ?R = "{(st, t). st \<in> set (coures_sub_themes d) \<and> t \<in> set (coures_themes d) \<and>
                       st_coures_themes_id st = t_id t \<and> st_id st = sid}"
  have "?R = {} \<longleftrightarrow> sid \<notin> set (map st_id (coures_sub_themes d))"
  proof
    assume e: "?R = {}"
    show "sid \<notin> set (map st_id (coures_sub_themes d))"
    proof
      assume "sid \<in> set (map st_id (coures_sub_themes d))"
      then obtain st where st: "st \<in> set (coures_sub_themes d)" "st_id st = sid" by auto
      then obtain t where "t \<in> set (coures_themes d)" "st_coures_themes_id st = t_id t"
        using th unfolding sub_themes_have_theme_def by blast
      with st have "(st, t) \<in> ?R" by simp
      with e show False by blast
    qed
  next
    assume "sid \<notin> set (map st_id (coures_sub_themes d))"
    then show "?R = {}" by auto
  qed
  then have "?rows = [] \<longleftrightarrow> sid \<notin> set (map st_id (coures_sub_themes d))"
    unfolding s[symmetric] by (simp only: set_empty)
  then show ?thesis by (simp add: fetchrow_None)
qed

lemma store1_sub_theme_settings_ok: "sub_theme_settings_ok store1"
  by (simp add: sub_theme_settings_ok_def store1_def sub_theme_setting_key_def)

lemma check_most_relevant_validation_iff:
  assumes "code \<noteq> []"
  shows "check_most_relevant_validation d s c y t theme_code (Some code) \<longleftrightarrow>
         (\<exists>r \<in> set (entry_rows d).
            ce_subj_no (fst r) = s \<and> ce_ps_class_nbr (fst r) = c \<and>
            ce_academic_year (fst r) = y \<and> ce_academic_term (fst r) = t \<and>
            t_theme_code (snd (snd r)) = theme_code \<and> ce_is_most_relevant (fst r) \<and>
            st_sub_theme_code (fst (snd r)) \<noteq> code)"
proof -
  let ?P = "\<lambda>r. ce_subj_no (fst r) = s \<and> ce_ps_class_nbr (fst r) = c \<and>
            ce_academic_year (fst r) = y \<and> ce_academic_term (fst r) = t \<and>
            t_theme_code (snd (snd r)) = theme_code \<and> ce_is_most_relevant (fst r)"
  let ?Q = "\<lambda>r. st_sub_theme_code (fst (snd r)) \<noteq> code"
  have "check_most_relevant_validation d s c y t theme_code (Some code) \<longleftrightarrow>
        filter ?Q (filter ?P (entry_rows d)) \<noteq> []"
    using assms by (simp add: check_most_relevant_validation_def Let_def)
  also have "\<dots> \<longleftrightarrow> (\<exists>r \<in> set (entry_rows d). ?P r \<and> ?Q r)"
    by (simp add: filter_empty_conv) blast
  finally show ?thesis by simp
qed


lemma conflict_iff_sibling:
  assumes ok: "entries_ok d" and cat: "catalog_ok d"
      and row: "(ce, st, t) \<in> set (entry_rows d)"
  shows "check_most_relevant_validation d (ce_subj_no ce) (ce_ps_class_nbr ce)
           (ce_academic_year ce) (ce_academic_term ce) (t_theme_code t)
           (Some (st_sub_theme_code st)) \<longleftrightarrow>
         most_relevant_sibling d ce"
proof -
  have ce: "ce \<in> set (course_entries d)" and st: "st \<in> set (coures_sub_themes d)"
    and cst: "ce_coures_sub_themes_id ce = st_id st" and t: "t \<in> set (coures_themes d)"
    and stt: "st_coures_themes_id st = t_id t"
    using row by (simp_all add: set_entry_rows)
  have dti: "distinct (map t_id (coures_themes d))"
    and dtc: "distinct (map t_theme_code (coures_themes d))"
    and dsi: "distinct (map st_id (coures_sub_themes d))"
    and dsc: "distinct (map (\<lambda>st. (st_coures_themes_id st, st_sub_theme_code st))
                        (coures_sub_themes d))"
    and ne: "st_sub_theme_code st \<noteq> []"
    using cat st by (simp_all add: catalog_ok_def)
  have dei: "distinct (map ce_id (course_entries d))"
    and dek: "distinct (map course_entry_key (course_entries d))"
    using ok by (simp_all add: entries_ok_def)
  let ?C = "\<exists>r \<in> set (entry_rows d).
            ce_subj_no (fst r) = ce_subj_no ce \<and> ce_ps_class_nbr (fst r) = ce_ps_class_nbr ce \<and>
            ce_academic_year (fst r) = ce_academic_year ce \<and>
            ce_academic_term (fst r) = ce_academic_term ce \<and>
            t_theme_code (snd (snd r)) = t_theme_code t \<and> ce_is_most_relevant (fst r) \<and>
            st_sub_theme_code (fst (snd r)) \<noteq> st_sub_theme_code st"
  have "?C \<longleftrightarrow> most_relevant_sibling d ce"
  proof
    assume ?C
    then obtain ce2 st2 t2 where r: "(ce2, st2, t2) \<in> set (entry_rows d)"
      and same: "ce_subj_no ce2 = ce_subj_no ce" "ce_ps_class_nbr ce2 = ce_ps_class_nbr ce"
        "ce_academic_year ce2 = ce_academic_year ce" "ce_academic_term ce2 = ce_academic_term ce"
      and tc: "t_theme_code t2 = t_theme_code t" and mr: "ce_is_most_relevant ce2"
      and code: "st_sub_theme_code st2 \<noteq> st_sub_theme_code st"
      by auto
    have ce2: "ce2 \<in> set (course_entries d)" and st2: "st2 \<in> set (coures_sub_themes d)"
      and cst2: "ce_coures_sub_themes_id ce2 = st_id st2" and t2: "t2 \<in> set (coures_themes d)"
      and stt2: "st_coures_themes_id st2 = t_id t2"
      using r by (simp_all add: set_entry_rows)
    have "t2 = t" using distinct_key_eq[OF dtc t2 t tc] .
    then have theme: "st_coures_themes_id st2 = st_coures_themes_id st" using stt stt2 by simp
    have "ce_id ce2 \<noteq> ce_id ce"
    proof
      assume "ce_id ce2 = ce_id ce"
      then have "ce2 = ce" using distinct_key_eq[OF dei ce2 ce] by simp
      then have "st_id st2 = st_id st" using cst cst2 by simp
      then have "st2 = st" using distinct_key_eq[OF dsi st2 st] by simp
      with code show False by simp
    qed
    then show "most_relevant_sibling d ce"
      unfolding most_relevant_sibling_def same_course_term_def
      using ce2 same mr st st2 cst cst2 theme
      by (intro bexI[of _ ce2] conjI bexI[of _ st] bexI[of _ st2]) simp_all
  next
    assume "most_relevant_sibling d ce"
    then obtain ce2 st' st2 where ce2: "ce2 \<in> set (course_entries d)"
      and nid: "ce_id ce2 \<noteq> ce_id ce"
      and same: "ce_subj_no ce2 = ce_subj_no ce" "ce_ps_class_nbr ce2 = ce_ps_class_nbr ce"
        "ce_academic_year ce2 = ce_academic_year ce" "ce_academic_term ce2 = ce_academic_term ce"
      and mr: "ce_is_most_relevant ce2"
      and st': "st' \<in> set (coures_sub_themes d)" "st_id st' = ce_coures_sub_themes_id ce"
      and st2: "st2 \<in> set (coures_sub_themes d)" "st_id st2 = ce_coures_sub_themes_id ce2"
      and theme: "st_coures_themes_id st2 = st_coures_themes_id st'"
      unfolding most_relevant_sibling_def same_course_term_def by blast
    have "st' = st" using distinct_key_eq[OF dsi st'(1) st] st'(2) cst by simp
    with theme have theme2: "st_coures_themes_id st2 = t_id t" using stt by simp
    then have r: "(ce2, st2, t) \<in> set (entry_rows d)"
      using ce2 st2 t by (simp add: set_entry_rows)
    have "st_sub_theme_code st2 \<noteq> st_sub_theme_code st"
    proof
      assume "st_sub_theme_code st2 = st_sub_theme_code st"
      then have "(st_coures_themes_id st2, st_sub_theme_code st2) =
                 (st_coures_themes_id st, st_sub_theme_code st)"
        using theme2 stt by simp
      then have "st2 = st" using distinct_key_eq[OF dsc st2(1) st] by simp
      then have "course_entry_key ce2 = course_entry_key ce"
        using same st2(2) cst by (simp add: course_entry_key_def)
      then have "ce2 = ce" using distinct_key_eq[OF dek ce2 ce] by simp
      with nid show False by simp
    qed
    then show ?C using r same mr by (intro bexI[of _ "(ce2, st2, t)"]) simp_all
  qed
  then show ?thesis unfolding check_most_relevant_validation_iff[OF ne] .
qed

lemma store2_entries_ok: "entries_ok store2"
  by (simp add: entries_ok_def store2_def store1_def entry42_def course_entry_key_def)

lemma store2_catalog_ok: "catalog_ok store2"
  by (simp add: catalog_ok_def store2_def store1_def)

lemma store2_sub_themes_have_theme: "sub_themes_have_theme store2"
  by (simp add: sub_themes_have_theme_def store2_def store1_def)

lemma copy_sub_theme_settings_effect:
  assumes "distinct (map sts_id (sub_theme_settings d))"
      and "distinct (map sub_theme_setting_key (sub_theme_settings d))"
      and "\<forall>r \<in> set (sub_theme_settings d). sts_id r < uuid_counter d"
      and "distinct (map (\<lambda>r. st_id (fst r)) rows)"
  shows "\<exists>new. copy_sub_theme_settings ty tt cb rows n d =
           (Inr (n + length new),
            d\<lparr>uuid_counter := uuid_counter d + length rows,
              sub_theme_settings := sub_theme_settings d @ new\<rparr>)
         \<and> map sts_row new =
             [((ty, tt, st_id (fst r)), snd r). r \<leftarrow> filter (\<lambda>r. absent d ty tt (fst r)) rows]
         \<and> distinct (map sts_id (sub_theme_settings d @ new))
         \<and> distinct (map sub_theme_setting_key (sub_theme_settings d @ new))
         \<and> (\<forall>r \<in> set (sub_theme_settings d @ new). sts_id r < uuid_counter d + length rows)"
  using assms
proof (induction rows arbitrary: n d)
  case Nil
  show ?case by (rule exI[of _ "[]"]) (use Nil in simp)
next
  case (Cons row rows)
  let ?n0 = "uuid_counter d"
  let ?K = "(ty, tt, st_id (fst row))"
  let ?x = "\<lparr>sts_id = ?n0, sts_academic_year = ty, sts_academic_term = tt,
              sts_coures_sub_themes_id = st_id (fst row), sts_enabled = snd row,
              sts_created_by = cb, sts_updated_by = cb\<rparr>"
  let ?d1 = "d\<lparr>uuid_counter := Suc ?n0\<rparr>"
  have kx: "sub_theme_setting_key ?x = ?K" by (simp add: sub_theme_setting_key_def)
  have sx: "sts_row ?x = (?K, snd row)" by (simp add: sts_row_def kx)
  have nid: "?n0 \<notin> set (map sts_id (sub_theme_settings d))" using Cons.prems(3) by fastforce
  have drows: "distinct (map (\<lambda>r. st_id (fst r)) rows)" using Cons.prems(4) by simp
  have other: "st_id (fst r) \<noteq> st_id (fst row)" if "r \<in> set rows" for r
    using Cons.prems(4) that by (auto simp: image_iff)
  show ?case
  proof (cases "absent d ty tt (fst row)")
    case False
    then have ins: "insert_sub_theme_setting ?x ?d1 = (Inl UniqueConstraint, ?d1)"
      by (simp add: insert_sub_theme_setting_def kx absent_def)
    have p3: "\<forall>r \<in> set (sub_theme_settings ?d1). sts_id r < uuid_counter ?d1"
      using Cons.prems(3) by (simp add: less_Suc_eq)
    from Cons.IH[of ?d1 n] Cons.prems(1,2) p3 drows
    obtain new where new: "copy_sub_theme_settings ty tt cb rows n ?d1 =
           (Inr (n + length new),
            ?d1\<lparr>uuid_counter := uuid_counter ?d1 + length rows,
              sub_theme_settings := sub_theme_settings ?d1 @ new\<rparr>)"
      "map sts_row new =
         [((ty, tt, st_id (fst r)), snd r). r \<leftarrow> filter (\<lambda>r. absent ?d1 ty tt (fst r)) rows]"
      "distinct (map sts_id (sub_theme_settings ?d1 @ new))"
      "distinct (map sub_theme_setting_key (sub_theme_settings ?d1 @ new))"
      "\<forall>r \<in> set (sub_theme_settings ?d1 @ new). sts_id r < uuid_counter ?d1 + length rows"
      by (auto simp del: distinct_append map_append)
    have run: "copy_sub_theme_settings ty tt cb (row # rows) n d =
                 copy_sub_theme_settings ty tt cb rows n ?d1"
      using ins by (simp add: uuid4_def)
    show ?thesis
      unfolding run
      using new False by (intro exI[of _ new]) (simp add: absent_def)
  next
    case True
    let ?d2 = "d\<lparr>uuid_counter := Suc ?n0, sub_theme_settings := sub_theme_settings d @ [?x]\<rparr>"
    have ins: "insert_sub_theme_setting ?x ?d1 = (Inr (), ?d2)"
      using True nid by (simp add: insert_sub_theme_setting_def kx absent_def)
    have p1: "distinct (map sts_id (sub_theme_settings ?d2))"
      using Cons.prems(1) nid by simp
    have p2: "distinct (map sub_theme_setting_key (sub_theme_settings ?d2))"
      using Cons.prems(2) True by (simp add: kx absent_def)
    have p3: "\<forall>r \<in> set (sub_theme_settings ?d2). sts_id r < uuid_counter ?d2"
      using Cons.prems(3) by (auto simp: less_Suc_eq)
    from Cons.IH[of ?d2 "Suc n"] p1 p2 p3 drows
    obtain new where new: "copy_sub_theme_settings ty tt cb rows (Suc n) ?d2 =
           (Inr (Suc n + length new),
            ?d2\<lparr>uuid_counter := uuid_counter ?d2 + length rows,
              sub_theme_settings := sub_theme_settings ?d2 @ new\<rparr>)"
      "map sts_row new =
         [((ty, tt, st_id (fst r)), snd r). r \<leftarrow> filter (\<lambda>r. absent ?d2 ty tt (fst r)) rows]"
      "distinct (map sts_id (sub_theme_settings ?d2 @ new))"
      "distinct (map sub_theme_setting_key (sub_theme_settings ?d2 @ new))"
      "\<forall>r \<in> set (sub_theme_settings ?d2 @ new). sts_id r < uuid_counter ?d2 + length rows"
      by (auto simp del: distinct_append map_append)
    have same: "filter (\<lambda>r. absent ?d2 ty tt (fst r)) rows = filter (\<lambda>r. absent d ty tt (fst r)) rows"
      using other by (intro filter_cong refl) (auto simp: absent_def kx)
    have run: "copy_sub_theme_settings ty tt cb (row # rows) n d =
                 copy_sub_theme_settings ty tt cb rows (Suc n) ?d2"
      using ins by (simp add: uuid4_def)
    show ?thesis
      unfolding run
      using new True unfolding same
      by (intro exI[of _ "?x # new"]) (simp add: sx kx)
  qed
qed


lemma create_sub_theme_settings_copy:
  "create_sub_theme_settings y t cb rows d =
     (case copy_sub_theme_settings y t cb (map (\<lambda>r. (fst r, True)) rows) n d of
        (Inl e, d') \<Rightarrow> (Inl e, d')
      | (Inr k, d') \<Rightarrow> (Inr (), d'))"
proof (induction rows arbitrary: n d)
  case Nil
  then show ?case by simp
next
  case (Cons row rows)
  let ?x = "\<lparr>sts_id = uuid_counter d, sts_academic_year = y, sts_academic_term = t,
              sts_coures_sub_themes_id = st_id (fst row), sts_enabled = True,
              sts_created_by = cb, sts_updated_by = cb\<rparr>"
  obtain res d2 where ins: "insert_sub_theme_setting ?x (d\<lparr>uuid_counter := Suc (uuid_counter d)\<rparr>)
                             = (res, d2)"
    by (cases "insert_sub_theme_setting ?x (d\<lparr>uuid_counter := Suc (uuid_counter d)\<rparr>)")
  show ?case
  proof (cases res)
    case (Inl e)
    then have "e = UniqueConstraint"
      using ins by (simp add: insert_sub_theme_setting_def split: if_splits)
    with Inl ins Cons.IH[of d2 n] show ?thesis by (simp add: uuid4_def)
  next
    case (Inr u)
    with ins Cons.IH[of d2 "Suc n"] show ?thesis by (simp add: uuid4_def)
  qed
qed

lemma concat_map_if:
  "concat (map (\<lambda>x. if P x then [f x] else []) xs) = map f (filter P xs)"
  by (induction xs) auto

lemma count_present:
  assumes "distinct (map k rs)" and "distinct (map g S)"
  shows "length [r \<leftarrow> rs. k r \<in> g ` set S] = length [s \<leftarrow> S. g s \<in> k ` set rs]"
proof -
  have "length [r \<leftarrow> rs. k r \<in> g ` set S] = length (map k [r \<leftarrow> rs. k r \<in> g ` set S])"
    by simp
  also have "\<dots> = card (set (map k [r \<leftarrow> rs. k r \<in> g ` set S]))"
    using assms(1) by (intro distinct_card[symmetric] distinct_map_filter)
  also have "set (map k [r \<leftarrow> rs. k r \<in> g ` set S]) = k ` set rs \<inter> g ` set S" by auto
  also have "\<dots> = g ` {s \<in> set S. g s \<in> k ` set rs}"
  proof (intro set_eqI iffI)
    fix v assume "v \<in> k ` set rs \<inter> g ` set S"
    then have vk: "v \<in> k ` set rs" and vg: "v \<in> g ` set S" by simp_all
    from vg obtain s where s: "s \<in> set S" "v = g s" by (rule imageE)
    with vk have "s \<in> {s \<in> set S. g s \<in> k ` set rs}" by simp
    then show "v \<in> g ` {s \<in> set S. g s \<in> k ` set rs}" unfolding s(2) by (rule imageI)
  next
    fix v assume "v \<in> g ` {s \<in> set S. g s \<in> k ` set rs}"
    then obtain s where s: "s \<in> {s \<in> set S. g s \<in> k ` set rs}" "v = g s" by (rule imageE)
    then show "v \<in> k ` set rs \<inter> g ` set S" by simp
  qed
  also have "\<dots> = set (map g [s \<leftarrow> S. g s \<in> k ` set rs])" by simp
  also have "card \<dots> = length (map g [s \<leftarrow> S. g s \<in> k ` set rs])"
    using assms(2) by (intro distinct_card distinct_map_filter)
  finally show ?thesis by simp
qed

lemma concat_map_if2:
  "concat (map (\<lambda>x. if A x then (if B then [f x] else []) else []) xs) =
     (if B then map f (filter A xs) else [])"
  by (induction xs) auto

lemma get_sub_themes_by_theme_id_rows:
  assumes dti: "distinct (map t_id (coures_themes d))" and th: "th \<in> set (coures_themes d)"
  shows "get_sub_themes_by_theme_id d (t_id th) =
         sort_key (\<lambda>r. st_sub_theme_code (fst r))
           (map (\<lambda>st. (st, th)) [st \<leftarrow> coures_sub_themes d. st_coures_themes_id st = t_id th])"
proof -
  have one: "[t \<leftarrow> coures_themes d. t_id t = t_id th] = [th]"
    using distinct_filter_key[OF dti th] .
  have inner: "concat (map (\<lambda>t. if st_coures_themes_id st = t_id t
                                  then if st_coures_themes_id st = t_id th then [(st, t)] else []
                                  else []) (coures_themes d)) =
               (if st_coures_themes_id st = t_id th then [(st, th)] else [])" for st
  proof -
    have "concat (map (\<lambda>t. if st_coures_themes_id st = t_id t
                                  then if st_coures_themes_id st = t_id th then [(st, t)] else []
                                  else []) (coures_themes d)) =
          (if st_coures_themes_id st = t_id th
           then map (\<lambda>t. (st, t)) [t \<leftarrow> coures_themes d. st_coures_themes_id st = t_id t]
           else [])"
      by (rule concat_map_if2)
    also have "\<dots> = (if st_coures_themes_id st = t_id th then [(st, th)] else [])"
    proof (cases "st_coures_themes_id st = t_id th")
      case True
      have "[t \<leftarrow> coures_themes d. t_id th = t_id t] = [t \<leftarrow> coures_themes d. t_id t = t_id th]"
        by (rule filter_cong) auto
      with True one show ?thesis by simp
    next
      case False
      then show ?thesis by simp
    qed
    finally show ?thesis .
  qed
  show ?thesis
    unfolding get_sub_themes_by_theme_id_def
    by (simp add: inner concat_map_if)
qed


lemma insort_key_map: "insort_key f (g x) (map g xs) = map g (insort_key (\<lambda>x. f (g x)) x xs)"
  by (induction xs) auto

lemma sort_key_map: "sort_key f (map g xs) = map g (sort_key (\<lambda>x. f (g x)) xs)"
  by (induction xs) (auto simp: insort_key_map)

lemma store1_catalog_ok: "catalog_ok store1"
  by (simp add: catalog_ok_def store1_def)

lemma store1_settings_fresh: "settings_fresh store1"
  by (simp add: settings_fresh_def store1_def sub_theme_setting_key_def)

lemma filter_key_cases:
  assumes "distinct (map k xs)"
  shows "filter (\<lambda>x. k x = v) xs = [] \<or> (\<exists>x. filter (\<lambda>x. k x = v) xs = [x])"
proof (cases "v \<in> k ` set xs")
  case True
  then obtain x where x: "x \<in> set xs" "k x = v" by auto
  from distinct_filter_key[OF assms x(1)] x(2) show ?thesis by auto
next
  case False
  then have "filter (\<lambda>x. k x = v) xs = []" by (auto simp: filter_empty_conv)
  then show ?thesis by simp
qed

lemma left_join_enabled_single:
  assumes "distinct (map sub_theme_setting_key (sub_theme_settings d))"
  shows "left_join_enabled d y t s = [source_enabled d y t s]"
proof -
  let ?F = "filter (\<lambda>r. sub_theme_setting_key r = (y, t, st_id s)) (sub_theme_settings d)"
  have m: "[sts_enabled systs. systs \<leftarrow> sub_theme_settings d,
              st_id s = sts_coures_sub_themes_id systs,
              sts_academic_year systs = y, sts_academic_term systs = t] =
           map sts_enabled ?F"
  proof -
    have "[sts_enabled systs. systs \<leftarrow> sub_theme_settings d,
              st_id s = sts_coures_sub_themes_id systs,
              sts_academic_year systs = y, sts_academic_term systs = t] =
          concat (map (\<lambda>r. if st_id s = sts_coures_sub_themes_id r \<and> sts_academic_year r = y \<and>
                               sts_academic_term r = t then [sts_enabled r] else [])
                    (sub_theme_settings d))"
      by (intro arg_cong[of _ _ concat] map_cong refl) simp
    also have "\<dots> = map sts_enabled
                       (filter (\<lambda>r. st_id s = sts_coures_sub_themes_id r \<and> sts_academic_year r = y \<and>
                                    sts_academic_term r = t) (sub_theme_settings d))"
      by (rule concat_map_if)
    also have "filter (\<lambda>r. st_id s = sts_coures_sub_themes_id r \<and> sts_academic_year r = y \<and>
                           sts_academic_term r = t) (sub_theme_settings d) = ?F"
      by (intro filter_cong refl) (auto simp: sub_theme_setting_key_def)
    finally show ?thesis .
  qed
  from filter_key_cases[OF assms, of "(y, t, st_id s)"]
  show ?thesis
  proof
    assume e: "?F = []"
    then have "\<not> source_enabled d y t s"
      unfolding source_enabled_def filter_empty_conv by blast
    then show ?thesis unfolding left_join_enabled_def m e by simp
  next
    assume "\<exists>x. ?F = [x]"
    then obtain x where x: "?F = [x]" by blast
    have "source_enabled d y t s \<longleftrightarrow> (\<exists>r \<in> set ?F. sts_enabled r)"
      unfolding source_enabled_def by auto
    then have "source_enabled d y t s \<longleftrightarrow> sts_enabled x" unfolding x by simp
    then show ?thesis unfolding left_join_enabled_def m x by simp
  qed
qed

lemma sub_themes_with_enabled_rows:
  assumes "distinct (map sub_theme_setting_key (sub_theme_settings d))"
  shows "sub_themes_with_enabled d y t i =
         map (\<lambda>s. (s, source_enabled d y t s)) [s \<leftarrow> coures_sub_themes d. st_coures_themes_id s = i]"
proof -
  have "sub_themes_with_enabled d y t i =
        concat (map (\<lambda>s. if st_coures_themes_id s = i then [(s, source_enabled d y t s)] else [])
                  (coures_sub_themes d))"
    unfolding sub_themes_with_enabled_def
    by (intro arg_cong[of _ _ concat] map_cong refl)
       (simp add: left_join_enabled_single[OF assms])
  then show ?thesis by (simp add: concat_map_if)
qed

lemma source_enabled_cong:
  assumes "filter (in_year_term_sts y t) (sub_theme_settings d') =
           filter (in_year_term_sts y t) (sub_theme_settings d)"
  shows "source_enabled d' y t s = source_enabled d y t s"
proof -
  have eq: "source_enabled e y t s \<longleftrightarrow>
        (\<exists>r \<in> set (filter (in_year_term_sts y t) (sub_theme_settings e)).
           sub_theme_setting_key r = (y, t, st_id s) \<and> sts_enabled r)" for e
    unfolding source_enabled_def
    by (auto simp: in_year_term_sts_def sub_theme_setting_key_def)
  show ?thesis unfolding eq[of d'] eq[of d] assms by (rule refl)
qed


lemma sts_row_target:
  assumes "map sts_row news = map (\<lambda>s. ((ty, tt, st_id s), f s)) xs" and "r \<in> set news"
  shows "\<exists>s \<in> set xs. sub_theme_setting_key r = (ty, tt, st_id s)"
proof -
  have "sts_row r \<in> set (map sts_row news)" using assms(2) by simp
  then have "sts_row r \<in> set (map (\<lambda>s. ((ty, tt, st_id s), f s)) xs)" unfolding assms(1) .
  then obtain s where "s \<in> set xs" "sts_row r = ((ty, tt, st_id s), f s)" by auto
  then show ?thesis by (auto simp: sts_row_def)
qed

lemma copy_theme_settings_loop_effect:
  assumes ne: "(sy, st) \<noteq> (ty, tt)"
      and fresh: "settings_fresh d"
      and dsi: "distinct (map st_id (coures_sub_themes d))"
      and dtr: "distinct (map ts_coures_themes_id trs)"
      and notgt: "\<forall>tr \<in> set trs. (ty, tt, ts_coures_themes_id tr) \<notin>
                    set (map theme_setting_key (themes_setting d))"
  shows "\<exists>newt news c.
           copy_theme_settings_loop sy st ty tt cb trs nt ns d =
             (Inr (nt + length trs, ns + length news),
              d\<lparr>uuid_counter := c, themes_setting := themes_setting d @ newt,
                sub_theme_settings := sub_theme_settings d @ news\<rparr>)
         \<and> map ts_row newt =
             map (\<lambda>tr. ((ty, tt, ts_coures_themes_id tr), ts_fill_in_week_enabled tr,
                        ts_scale_max tr, ts_select_most_relevant_sub_theme_enabled tr)) trs
         \<and> map sts_row news =
             copied_sub_rows d (map sub_theme_setting_key (sub_theme_settings d)) sy st ty tt trs"
  using fresh dsi dtr notgt
proof (induction trs arbitrary: nt ns d)
  case Nil
  show ?case
    by (intro exI[of _ "[]"] exI[of _ "uuid_counter d"]) (simp add: copied_sub_rows_def)
next
  case (Cons tr trs)
  let ?n0 = "uuid_counter d"
  let ?i = "ts_coures_themes_id tr"
  let ?x = "\<lparr>ts_id = ?n0, ts_academic_year = ty, ts_academic_term = tt,
              ts_coures_themes_id = ?i,
              ts_fill_in_week_enabled = ts_fill_in_week_enabled tr,
              ts_scale_max = ts_scale_max tr,
              ts_select_most_relevant_sub_theme_enabled =
                ts_select_most_relevant_sub_theme_enabled tr,
              ts_created_by = cb, ts_updated_by = cb\<rparr>"
  let ?d1 = "d\<lparr>uuid_counter := Suc ?n0\<rparr>"
  let ?d2 = "d\<lparr>uuid_counter := Suc ?n0, themes_setting := themes_setting d @ [?x]\<rparr>"
  let ?keys = "map sub_theme_setting_key (sub_theme_settings d)"
  have f1: "distinct (map sts_id (sub_theme_settings d))"
    and f2: "distinct (map sub_theme_setting_key (sub_theme_settings d))"
    and f3: "\<forall>r \<in> set (sub_theme_settings d). sts_id r < ?n0"
    and f4: "distinct (map ts_id (themes_setting d))"
    and f5: "distinct (map theme_setting_key (themes_setting d))"
    and f6: "\<forall>r \<in> set (themes_setting d). ts_id r < ?n0"
    using Cons.prems(1) by (simp_all add: settings_fresh_def)
  have kx: "theme_setting_key ?x = (ty, tt, ?i)" by (simp add: theme_setting_key_def)
  have nid: "?n0 \<notin> set (map ts_id (themes_setting d))" using f6 by fastforce
  have nk: "(ty, tt, ?i) \<notin> set (map theme_setting_key (themes_setting d))"
    using Cons.prems(4) by simp
  have ins: "insert_theme_setting ?x ?d1 = (Inr (), ?d2)"
    using nid nk by (simp add: insert_theme_setting_def kx)
  \<comment> \<open>the sub-themes of this theme\<close>
  let ?S = "[s \<leftarrow> coures_sub_themes d. st_coures_themes_id s = ?i]"
  let ?rows = "map (\<lambda>s. (s, source_enabled d sy st s)) ?S"
  have se2: "source_enabled ?d2 sy st s = source_enabled d sy st s" for s
    by (rule source_enabled_cong) simp
  have rows: "sub_themes_with_enabled ?d2 sy st ?i = ?rows"
    using sub_themes_with_enabled_rows[of ?d2 sy st ?i] f2 by (simp add: se2)
  have "distinct (map st_id ?S)" using Cons.prems(2) by (rule distinct_map_filter)
  then have drows: "distinct (map (\<lambda>r. st_id (fst r)) ?rows)" by (simp add: comp_def)
  have p3: "\<forall>r \<in> set (sub_theme_settings ?d2). sts_id r < uuid_counter ?d2"
    using f3 by (simp add: less_Suc_eq)
  from copy_sub_theme_settings_effect[of ?d2 ?rows ty tt cb ns] f1 f2 p3 drows
  obtain news1 where n1:
    "copy_sub_theme_settings ty tt cb ?rows ns ?d2 =
       (Inr (ns + length news1),
        ?d2\<lparr>uuid_counter := uuid_counter ?d2 + length ?rows,
             sub_theme_settings := sub_theme_settings ?d2 @ news1\<rparr>)"
    "map sts_row news1 =
       [((ty, tt, st_id (fst r)), snd r). r \<leftarrow> filter (\<lambda>r. absent ?d2 ty tt (fst r)) ?rows]"
    "distinct (map sts_id (sub_theme_settings ?d2 @ news1))"
    "distinct (map sub_theme_setting_key (sub_theme_settings ?d2 @ news1))"
    "\<forall>r \<in> set (sub_theme_settings ?d2 @ news1). sts_id r < uuid_counter ?d2 + length ?rows"
    by (auto simp del: distinct_append map_append)
  let ?c3 = "Suc ?n0 + length ?S"
  let ?d3 = "d\<lparr>uuid_counter := ?c3, themes_setting := themes_setting d @ [?x],
               sub_theme_settings := sub_theme_settings d @ news1\<rparr>"
  have d3: "?d2\<lparr>uuid_counter := uuid_counter ?d2 + length ?rows,
                 sub_theme_settings := sub_theme_settings ?d2 @ news1\<rparr> = ?d3"
    by simp
  let ?S1 = "[s \<leftarrow> coures_sub_themes d. st_coures_themes_id s = ?i \<and> (ty, tt, st_id s) \<notin> set ?keys]"
  have rows1: "map sts_row news1 = map (\<lambda>s. ((ty, tt, st_id s), source_enabled d sy st s)) ?S1"
  proof -
    have "filter (\<lambda>r. absent ?d2 ty tt (fst r)) ?rows =
          map (\<lambda>s. (s, source_enabled d sy st s)) (filter (absent d ty tt) ?S)"
      by (simp add: filter_map comp_def absent_def)
    also have "filter (absent d ty tt) ?S = ?S1"
      by (simp add: absent_def conj_commute)
    finally show ?thesis using n1(2) by (simp add: comp_def)
  qed
  \<comment> \<open>the store after this theme keeps the invariant\<close>
  have fresh3: "settings_fresh ?d3"
    unfolding settings_fresh_def
  proof (intro conjI)
    show "distinct (map sts_id (sub_theme_settings ?d3))" using n1(3) by simp
    show "distinct (map sub_theme_setting_key (sub_theme_settings ?d3))" using n1(4) by simp
    show "\<forall>r \<in> set (sub_theme_settings ?d3). sts_id r < uuid_counter ?d3" using n1(5) by simp
    show "distinct (map ts_id (themes_setting ?d3))" using f4 nid by simp
    show "distinct (map theme_setting_key (themes_setting ?d3))" using f5 nk by (simp add: kx)
    show "\<forall>r \<in> set (themes_setting ?d3). ts_id r < uuid_counter ?d3"
      using f6 by (auto simp: less_Suc_eq)
  qed
  have dtr': "distinct (map ts_coures_themes_id trs)" using Cons.prems(3) by simp
  have diff: "ts_coures_themes_id tr' \<noteq> ?i" if "tr' \<in> set trs" for tr'
    using Cons.prems(3) that by (auto simp: image_iff)
  have notgt3: "\<forall>tr' \<in> set trs. (ty, tt, ts_coures_themes_id tr') \<notin>
                  set (map theme_setting_key (themes_setting ?d3))"
    using Cons.prems(4) diff by (auto simp: kx)
  from Cons.IH[of ?d3 "Suc nt" "ns + length news1"] fresh3 Cons.prems(2) dtr' notgt3
  obtain newt news c where ih:
    "copy_theme_settings_loop sy st ty tt cb trs (Suc nt) (ns + length news1) ?d3 =
       (Inr (Suc nt + length trs, ns + length news1 + length news),
        ?d3\<lparr>uuid_counter := c, themes_setting := themes_setting ?d3 @ newt,
             sub_theme_settings := sub_theme_settings ?d3 @ news\<rparr>)"
    "map ts_row newt =
       map (\<lambda>tr. ((ty, tt, ts_coures_themes_id tr), ts_fill_in_week_enabled tr,
                  ts_scale_max tr, ts_select_most_relevant_sub_theme_enabled tr)) trs"
    "map sts_row news =
       copied_sub_rows ?d3 (map sub_theme_setting_key (sub_theme_settings ?d3)) sy st ty tt trs"
    by (auto simp del: map_append)
  \<comment> \<open>the rows copied for the remaining themes do not depend on this theme's rows\<close>
  have tgt1: "in_year_term_sts ty tt r" if "r \<in> set news1" for r
    using sts_row_target[OF rows1 that]
    by (auto simp: in_year_term_sts_def sub_theme_setting_key_def)
  have nosrc: "filter (in_year_term_sts sy st) news1 = []"
    unfolding filter_empty_conv using tgt1 ne by (auto simp: in_year_term_sts_def)
  have se3: "source_enabled ?d3 sy st s = source_enabled d sy st s" for s
    by (rule source_enabled_cong) (simp add: nosrc)
  have c3: "coures_sub_themes ?d3 = coures_sub_themes d" by simp
  have s3: "sub_theme_settings ?d3 = sub_theme_settings d @ news1" by simp
  have rest: "copied_sub_rows ?d3 (map sub_theme_setting_key (sub_theme_settings ?d3)) sy st ty tt trs =
              copied_sub_rows d ?keys sy st ty tt trs"
    unfolding copied_sub_rows_def
  proof (rule arg_cong[of _ _ concat], rule map_cong[OF refl])
    fix tr' assume tr': "tr' \<in> set trs"
    have "[s \<leftarrow> coures_sub_themes ?d3.
             st_coures_themes_id s = ts_coures_themes_id tr' \<and>
             (ty, tt, st_id s) \<notin> set (map sub_theme_setting_key (sub_theme_settings ?d3))] =
          [s \<leftarrow> coures_sub_themes d.
             st_coures_themes_id s = ts_coures_themes_id tr' \<and> (ty, tt, st_id s) \<notin> set ?keys]"
      unfolding c3 s3
    proof (rule filter_cong[OF refl])
      fix s assume s: "s \<in> set (coures_sub_themes d)"
      have "(ty, tt, st_id s) \<notin> sub_theme_setting_key ` set news1"
        if th: "st_coures_themes_id s = ts_coures_themes_id tr'"
      proof
        assume "(ty, tt, st_id s) \<in> sub_theme_setting_key ` set news1"
        then obtain r where r: "r \<in> set news1" "sub_theme_setting_key r = (ty, tt, st_id s)"
          by auto
        from sts_row_target[OF rows1 r(1)] obtain s1 where
          s1: "s1 \<in> set ?S1" "sub_theme_setting_key r = (ty, tt, st_id s1)" by blast
        then have "st_id s = st_id s1" "s1 \<in> set (coures_sub_themes d)"
          "st_coures_themes_id s1 = ?i" using r(2) by simp_all
        then have "s = s1" using distinct_key_eq[OF Cons.prems(2) s] by simp
        with th \<open>st_coures_themes_id s1 = ?i\<close> diff[OF tr'] show False by simp
      qed
      then show "(st_coures_themes_id s = ts_coures_themes_id tr' \<and>
                  (ty, tt, st_id s) \<notin> set (map sub_theme_setting_key
                     (sub_theme_settings d @ news1))) =
                 (st_coures_themes_id s = ts_coures_themes_id tr' \<and>
                  (ty, tt, st_id s) \<notin> set ?keys)"
        by auto
    qed
    then show "map (\<lambda>s. ((ty, tt, st_id s), source_enabled ?d3 sy st s))
                 [s \<leftarrow> coures_sub_themes ?d3.
                    st_coures_themes_id s = ts_coures_themes_id tr' \<and>
                    (ty, tt, st_id s) \<notin> set (map sub_theme_setting_key (sub_theme_settings ?d3))] =
               map (\<lambda>s. ((ty, tt, st_id s), source_enabled d sy st s))
                 [s \<leftarrow> coures_sub_themes d.
                    st_coures_themes_id s = ts_coures_themes_id tr' \<and>
                    (ty, tt, st_id s) \<notin> set ?keys]"
      by (simp only: se3)
  qed
  have n1': "copy_sub_theme_settings ty tt cb (sub_themes_with_enabled ?d2 sy st ?i) ns ?d2 =
               (Inr (ns + length news1), ?d3)"
    using n1(1) unfolding d3 rows .
  have run: "copy_theme_settings_loop sy st ty tt cb (tr # trs) nt ns d =
               copy_theme_settings_loop sy st ty tt cb trs (Suc nt) (ns + length news1) ?d3"
    by (simp add: uuid4_def ins n1')
  have tsx: "ts_row ?x = ((ty, tt, ?i), ts_fill_in_week_enabled tr, ts_scale_max tr,
                          ts_select_most_relevant_sub_theme_enabled tr)"
    by (simp add: ts_row_def kx)
  have all: "copied_sub_rows d ?keys sy st ty tt (tr # trs) =
             map sts_row news1 @ copied_sub_rows d ?keys sy st ty tt trs"
    unfolding rows1 by (simp add: copied_sub_rows_def)
  show ?case
    unfolding run ih(1) all
    using ih(2) ih(3)[unfolded rest] tsx
    by (intro exI[of _ "?x # newt"] exI[of _ "news1 @ news"] exI[of _ c]) simp
qed


lemma source_theme_ids_distinct:
  "distinct (map theme_setting_key xs) \<Longrightarrow>
   distinct (map ts_coures_themes_id (filter (in_year_term_ts y t) xs))"
  by (induction xs) (auto simp: theme_setting_key_def in_year_term_ts_def image_iff)

lemma copied_sub_rows_target:
  "x \<in> set (copied_sub_rows d taken sy st ty tt trs) \<Longrightarrow> \<exists>i. fst x = (ty, tt, i)"
  by (auto simp: copied_sub_rows_def)

lemma sts_rows_in_target:
  assumes "map sts_row news = rows" and "\<forall>x \<in> set rows. \<exists>i. fst x = (ty, tt, i)"
      and "r \<in> set news"
  shows "in_year_term_sts ty tt r"
proof -
  have "sts_row r \<in> set (map sts_row news)" using assms(3) by simp
  then have "sts_row r \<in> set rows" unfolding assms(1) .
  with assms(2) obtain i where "fst (sts_row r) = (ty, tt, i)" by blast
  then show ?thesis by (simp add: sts_row_def sub_theme_setting_key_def in_year_term_sts_def)
qed

lemma ts_rows_in_target:
  assumes "map ts_row newt = map (\<lambda>tr. ((ty, tt, f tr), g tr)) trs" and "r \<in> set newt"
  shows "in_year_term_ts ty tt r"
proof -
  have "ts_row r \<in> set (map ts_row newt)" using assms(2) by simp
  then have "ts_row r \<in> set (map (\<lambda>tr. ((ty, tt, f tr), g tr)) trs)" unfolding assms(1) .
  then obtain tr where "ts_row r = ((ty, tt, f tr), g tr)" by auto
  then show ?thesis by (simp add: ts_row_def theme_setting_key_def in_year_term_ts_def)
qed

lemma filter_all: "\<forall>x \<in> set xs. P x \<Longrightarrow> filter P xs = xs"
  by (induction xs) simp_all

lemma filter_none: "\<forall>x \<in> set xs. P x \<Longrightarrow> filter (\<lambda>x. \<not> P x) xs = []"
  by (induction xs) simp_all

lemma copied_sub_rows_cong:
  assumes "coures_sub_themes d' = coures_sub_themes d"
      and "\<And>s. source_enabled d' sy st s = source_enabled d sy st s"
      and "\<And>i. (ty, tt, i) \<in> set taken' \<longleftrightarrow> (ty, tt, i) \<in> set taken"
  shows "copied_sub_rows d' taken' sy st ty tt trs = copied_sub_rows d taken sy st ty tt trs"
  unfolding copied_sub_rows_def assms(1) assms(2) assms(3) ..

lemma target_key_mem:
  "(ty, tt, i) \<in> set (map sub_theme_setting_key xs) \<longleftrightarrow>
   (ty, tt, i) \<in> set (map sub_theme_setting_key (filter (in_year_term_sts ty tt) xs))"
  by (auto simp: sub_theme_setting_key_def in_year_term_sts_def image_iff)

lemma copy_school_year_theme_settings_run:
  assumes fresh: "settings_fresh d"
      and dsi: "distinct (map st_id (coures_sub_themes d))"
      and ne: "(sy, st) \<noteq> (ty, tt)"
      and src: "filter (in_year_term_ts sy st) (themes_setting d) \<noteq> []"
  shows "\<exists>res d'.
           copy_school_year_theme_settings sy st ty tt cb d = (Inr res, d')
         \<and> deleted_themes_count res = length (filter (in_year_term_ts ty tt) (themes_setting d))
         \<and> deleted_sub_themes_count res =
             (if filter (in_year_term_ts ty tt) (themes_setting d) = [] then 0
              else length (filter (in_year_term_sts ty tt) (sub_theme_settings d)))
         \<and> themes_count res = length (filter (in_year_term_ts sy st) (themes_setting d))
         \<and> sub_themes_count res =
             length (copied_sub_rows d (map sub_theme_setting_key (kept_sub_theme_settings d ty tt))
                       sy st ty tt (filter (in_year_term_ts sy st) (themes_setting d)))
         \<and> map ts_row (filter (in_year_term_ts ty tt) (themes_setting d')) =
             map (\<lambda>tr. ((ty, tt, ts_coures_themes_id tr), ts_fill_in_week_enabled tr,
                        ts_scale_max tr, ts_select_most_relevant_sub_theme_enabled tr))
               (filter (in_year_term_ts sy st) (themes_setting d))
         \<and> map sts_row (filter (in_year_term_sts ty tt) (sub_theme_settings d')) =
             map sts_row (kept_sub_theme_settings d ty tt) @
             copied_sub_rows d (map sub_theme_setting_key (kept_sub_theme_settings d ty tt))
               sy st ty tt (filter (in_year_term_ts sy st) (themes_setting d))
         \<and> filter (\<lambda>r. \<not> in_year_term_ts ty tt r) (themes_setting d') =
             filter (\<lambda>r. \<not> in_year_term_ts ty tt r) (themes_setting d)
         \<and> filter (\<lambda>r. \<not> in_year_term_sts ty tt r) (sub_theme_settings d') =
             filter (\<lambda>r. \<not> in_year_term_sts ty tt r) (sub_theme_settings d)"
proof -
  let ?src = "filter (in_year_term_ts sy st) (themes_setting d)"
  let ?tgt = "filter (in_year_term_ts ty tt) (themes_setting d)"
  let ?tgs = "filter (in_year_term_sts ty tt) (sub_theme_settings d)"
  let ?kept = "kept_sub_theme_settings d ty tt"
  define d1 where "d1 =
    (if ?tgt = [] then d
     else d\<lparr>sub_theme_settings := filter (\<lambda>r. \<not> in_year_term_sts ty tt r) (sub_theme_settings d),
            themes_setting := filter (\<lambda>r. \<not> in_year_term_ts ty tt r) (themes_setting d)\<rparr>)"
  have st_ne: "\<not> in_year_term_ts ty tt r" if "in_year_term_ts sy st r" for r
    using that ne by (auto simp: in_year_term_ts_def)
  have sts_ne: "\<not> in_year_term_sts ty tt r" if "in_year_term_sts sy st r" for r
    using that ne by (auto simp: in_year_term_sts_def)
  have c1: "coures_sub_themes d1 = coures_sub_themes d" by (simp add: d1_def)
  have u1: "uuid_counter d1 = uuid_counter d" by (simp add: d1_def)
  have src1: "filter (in_year_term_ts sy st) (themes_setting d1) = ?src"
    using st_ne by (auto simp: d1_def intro: filter_cong)
  have srs1: "filter (in_year_term_sts sy st) (sub_theme_settings d1) =
              filter (in_year_term_sts sy st) (sub_theme_settings d)"
    using sts_ne by (auto simp: d1_def intro: filter_cong)
  have tgt1: "filter (in_year_term_ts ty tt) (themes_setting d1) = []"
    by (simp add: d1_def)
  have tgs1: "filter (in_year_term_sts ty tt) (sub_theme_settings d1) = ?kept"
    by (simp add: d1_def kept_sub_theme_settings_def)
  have oth1: "filter (\<lambda>r. \<not> in_year_term_ts ty tt r) (themes_setting d1) =
              filter (\<lambda>r. \<not> in_year_term_ts ty tt r) (themes_setting d)"
    by (simp add: d1_def)
  have ots1: "filter (\<lambda>r. \<not> in_year_term_sts ty tt r) (sub_theme_settings d1) =
              filter (\<lambda>r. \<not> in_year_term_sts ty tt r) (sub_theme_settings d)"
    by (simp add: d1_def)
  have f: "distinct (map sts_id (sub_theme_settings d))"
      "distinct (map sub_theme_setting_key (sub_theme_settings d))"
      "\<forall>r \<in> set (sub_theme_settings d). sts_id r < uuid_counter d"
      "distinct (map ts_id (themes_setting d))"
      "distinct (map theme_setting_key (themes_setting d))"
      "\<forall>r \<in> set (themes_setting d). ts_id r < uuid_counter d"
    using fresh by (simp_all add: settings_fresh_def)
  have fresh1: "settings_fresh d1"
    unfolding settings_fresh_def d1_def using f
    by (simp add: distinct_map_filter)
  have dtr: "distinct (map ts_coures_themes_id ?src)"
    using f(5) by (rule source_theme_ids_distinct)
  have notgt: "\<forall>tr \<in> set ?src. (ty, tt, ts_coures_themes_id tr) \<notin>
                 set (map theme_setting_key (themes_setting d1))"
  proof (intro ballI notI)
    fix tr assume "(ty, tt, ts_coures_themes_id tr) \<in> set (map theme_setting_key (themes_setting d1))"
    then obtain r where r: "r \<in> set (themes_setting d1)"
        "theme_setting_key r = (ty, tt, ts_coures_themes_id tr)" by auto
    then have "in_year_term_ts ty tt r"
      by (simp add: theme_setting_key_def in_year_term_ts_def)
    with r(1) have "r \<in> set (filter (in_year_term_ts ty tt) (themes_setting d1))" by simp
    then show False unfolding tgt1 by simp
  qed
  from copy_theme_settings_loop_effect[OF ne fresh1 _ dtr notgt, of cb 0 0] dsi
  obtain newt news c where loop:
    "copy_theme_settings_loop sy st ty tt cb ?src 0 0 d1 =
       (Inr (0 + length ?src, 0 + length news),
        d1\<lparr>uuid_counter := c, themes_setting := themes_setting d1 @ newt,
           sub_theme_settings := sub_theme_settings d1 @ news\<rparr>)"
    "map ts_row newt =
       map (\<lambda>tr. ((ty, tt, ts_coures_themes_id tr), ts_fill_in_week_enabled tr,
                  ts_scale_max tr, ts_select_most_relevant_sub_theme_enabled tr)) ?src"
    "map sts_row news =
       copied_sub_rows d1 (map sub_theme_setting_key (sub_theme_settings d1)) sy st ty tt ?src"
    unfolding c1 by blast
  let ?d2 = "d1\<lparr>uuid_counter := c, themes_setting := themes_setting d1 @ newt,
                sub_theme_settings := sub_theme_settings d1 @ news\<rparr>"
  let ?res = "\<lparr>themes_count = length ?src, sub_themes_count = length news,
               deleted_themes_count = length ?tgt,
               deleted_sub_themes_count = (if ?tgt = [] then 0 else length ?tgs)\<rparr>"
  have se1: "source_enabled d1 sy st s = source_enabled d sy st s" for s
    by (rule source_enabled_cong[OF srs1])
  have mem: "(ty, tt, i) \<in> set (map sub_theme_setting_key (sub_theme_settings d1)) \<longleftrightarrow>
             (ty, tt, i) \<in> set (map sub_theme_setting_key ?kept)" for i
    unfolding tgs1[symmetric] by (rule target_key_mem)
  have rows: "copied_sub_rows d1 (map sub_theme_setting_key (sub_theme_settings d1)) sy st ty tt ?src =
              copied_sub_rows d (map sub_theme_setting_key ?kept) sy st ty tt ?src"
    by (rule copied_sub_rows_cong[OF c1 se1 mem])
  note news = loop(3)[unfolded rows]
  have nt: "\<forall>r \<in> set newt. in_year_term_ts ty tt r"
    using ts_rows_in_target[OF loop(2)] by blast
  have ns: "\<forall>r \<in> set news. in_year_term_sts ty tt r"
    using sts_rows_in_target[OF news] copied_sub_rows_target by blast
  have run: "copy_school_year_theme_settings sy st ty tt cb d = (Inr ?res, ?d2)"
  proof (cases "?tgt = []")
    case True
    then have "d1 = d" by (simp add: d1_def)
    with loop(1) True src show ?thesis
      by (simp add: copy_school_year_theme_settings_def Let_def)
  next
    case False
    then have e: "d1 = d\<lparr>sub_theme_settings :=
                            filter (\<lambda>r. \<not> in_year_term_sts ty tt r) (sub_theme_settings d),
                          themes_setting :=
                            filter (\<lambda>r. \<not> in_year_term_ts ty tt r) (themes_setting d)\<rparr>"
      by (simp add: d1_def)
    from loop(1) src1 have "copy_theme_settings_loop sy st ty tt cb
        (filter (in_year_term_ts sy st) (themes_setting d1)) 0 0 d1 =
       (Inr (length ?src, length news), ?d2)" by simp
    then show ?thesis using False src unfolding e
      by (simp add: copy_school_year_theme_settings_def Let_def)
  qed
  show ?thesis
  proof (intro exI[of _ ?res] exI[of _ ?d2] conjI)
    show "copy_school_year_theme_settings sy st ty tt cb d = (Inr ?res, ?d2)" by (rule run)
    show "deleted_themes_count ?res = length ?tgt" by simp
    show "deleted_sub_themes_count ?res = (if ?tgt = [] then 0 else length ?tgs)" by simp
    show "themes_count ?res = length ?src" by simp
    show "sub_themes_count ?res =
            length (copied_sub_rows d (map sub_theme_setting_key ?kept) sy st ty tt ?src)"
      using arg_cong[OF news, of length] by simp
    show "map ts_row (filter (in_year_term_ts ty tt) (themes_setting ?d2)) =
            map (\<lambda>tr. ((ty, tt, ts_coures_themes_id tr), ts_fill_in_week_enabled tr,
                       ts_scale_max tr, ts_select_most_relevant_sub_theme_enabled tr)) ?src"
      using loop(2) by (simp add: tgt1 filter_all[OF nt])
    show "map sts_row (filter (in_year_term_sts ty tt) (sub_theme_settings ?d2)) =
            map sts_row ?kept @
            copied_sub_rows d (map sub_theme_setting_key ?kept) sy st ty tt ?src"
      using news by (simp add: tgs1 filter_all[OF ns])
    show "filter (\<lambda>r. \<not> in_year_term_ts ty tt r) (themes_setting ?d2) =
            filter (\<lambda>r. \<not> in_year_term_ts ty tt r) (themes_setting d)"
      by (simp add: oth1 filter_none[OF nt])
    show "filter (\<lambda>r. \<not> in_year_term_sts ty tt r) (sub_theme_settings ?d2) =
            filter (\<lambda>r. \<not> in_year_term_sts ty tt r) (sub_theme_settings d)"
      by (simp add: ots1 filter_none[OF ns])
  qed
qed

lemma store5_rows:
  "entry_rows store5 =
     [(\<lparr>ce_id = 41, ce_subj_no = ''S1'', ce_ps_class_nbr = ''C1'', ce_academic_year = 113,
        ce_academic_term = 1, ce_coures_sub_themes_id = 11, ce_indicator_value = ''2'',
        ce_week_numbers = Some [1, 2], ce_is_most_relevant = True,
        ce_created_by = Some ''u'', ce_updated_by = Some ''u''\<rparr>,
       \<lparr>st_id = 11, st_coures_themes_id = 1, st_sub_theme_code = ''01'',
        st_sub_theme_name = ''Poverty''\<rparr>,
       \<lparr>t_id = 1, t_theme_code = ''A101'', t_theme_name = ''SDGs''\<rparr>),
      (\<lparr>ce_id = 43, ce_subj_no = ''S1'', ce_ps_class_nbr = ''C1'',
        ce_academic_year = 114, ce_academic_term = 1, ce_coures_sub_themes_id = 12,
        ce_indicator_value = ''1'', ce_week_numbers = None,
        ce_is_most_relevant = False, ce_created_by = Some ''u'',
        ce_updated_by = Some ''u''\<rparr>,
       \<lparr>st_id = 12, st_coures_themes_id = 1, st_sub_theme_code = ''02'',
        st_sub_theme_name = ''Hunger''\<rparr>,
       \<lparr>t_id = 1, t_theme_code = ''A101'', t_theme_name = ''SDGs''\<rparr>)]"
  by (simp add: entry_rows_def store5_def store1_def)

section \<open>Updating an entry by id\<close>

text \<open>
  Claim C8, as amended. \<^verbatim>\<open>update_course_entry_by_id\<close> on an existing entry always
  overwrites \<^verbatim>\<open>indicator_value\<close> and \<^verbatim>\<open>week_numbers\<close> (an omitted or empty list
  of weeks stores NULL); \<^verbatim>\<open>is_most_relevant\<close> and \<^verbatim>\<open>updated_by\<close> keep their
  stored values when omitted; the natural key and \<^verbatim>\<open>created_by\<close> of the entry, every
  other entry and the settings are unchanged.
\<close>

theorem update_course_entry_by_id_fields:
  assumes "distinct (map ce_id (course_entries d))"
      and "ce \<in> set (course_entries d)"
      and "update_course_entry_by_id (ce_id ce) v wn imr ub d = (r, d')"
  shows "\<exists>ce'. [c \<leftarrow> course_entries d'. ce_id c = ce_id ce] = [ce']
           \<and> ce_indicator_value ce' = v
           \<and> ce_week_numbers ce' =
               (case wn of None \<Rightarrow> None | Some ws \<Rightarrow> if ws = [] then None else Some ws)
           \<and> ce_is_most_relevant ce' =
               (case imr of None \<Rightarrow> ce_is_most_relevant ce | Some b \<Rightarrow> b)
           \<and> ce_updated_by ce' = (case ub of None \<Rightarrow> ce_updated_by ce | Some u \<Rightarrow> Some u)
           \<and> course_entry_key ce' = course_entry_key ce
           \<and> ce_created_by ce' = ce_created_by ce
           \<and> [c \<leftarrow> course_entries d'. ce_id c \<noteq> ce_id ce] =
               [c \<leftarrow> course_entries d. ce_id c \<noteq> ce_id ce]
           \<and> sub_theme_settings d' = sub_theme_settings d
           \<and> themes_setting d' = themes_setting d"
proof -
  let ?f = "update_entry_row v wn imr ub"
  have id: "\<And>x. ce_id (?f x) = ce_id x" by (simp add: update_entry_row_def)
  have d': "d' = d\<lparr>course_entries :=
                     map (\<lambda>x. if ce_id x = ce_id ce then ?f x else x) (course_entries d)\<rparr>"
    using assms(3) by (simp add: update_course_entry_by_id_def Let_def)
  have one: "[c \<leftarrow> course_entries d'. ce_id c = ce_id ce] = [?f ce]"
    unfolding d' using filter_map_upd_same[of ce_id ?f "ce_id ce" "course_entries d", OF id]
      distinct_filter_key[OF assms(1,2)] by simp
  have other: "[c \<leftarrow> course_entries d'. ce_id c \<noteq> ce_id ce] =
                 [c \<leftarrow> course_entries d. ce_id c \<noteq> ce_id ce]"
    unfolding d' using filter_map_upd_other[of ce_id ?f "ce_id ce" "course_entries d", OF id]
    by simp
  show ?thesis
    using one other
    by (simp add: d' update_entry_row_def to_week_numbers_json_def course_entry_key_def)
qed

theorem update_course_entry_by_id_fields_witness:
  "\<exists>ce'. [c \<leftarrow> course_entries
                 (snd (update_course_entry_by_id (ce_id (hd (course_entries store1))) ''3''
                         None None None store1)).
              ce_id c = ce_id (hd (course_entries store1))] = [ce']
      \<and> ce_indicator_value ce' = ''3'' \<and> ce_week_numbers ce' = None
      \<and> ce_is_most_relevant ce' = ce_is_most_relevant (hd (course_entries store1))
      \<and> ce_updated_by ce' = ce_updated_by (hd (course_entries store1))"
proof -
  have a: "distinct (map ce_id (course_entries store1))" by (simp add: store1_def)
  have b: "hd (course_entries store1) \<in> set (course_entries store1)" by (simp add: store1_def)
  obtain r d' where c: "update_course_entry_by_id (ce_id (hd (course_entries store1))) ''3''
                          None None None store1 = (r, d')"
    by (cases "update_course_entry_by_id (ce_id (hd (course_entries store1))) ''3''
                 None None None store1")
  from update_course_entry_by_id_fields[OF a b c] c show ?thesis by auto
qed

text \<open>
  Claim C8, as stated, fails: an update that omits the weeks clears the stored weeks 1 and 2
  of the entry of \<open>store1\<close>.
\<close>

theorem update_course_entry_by_id_clears_weeks:
  "map ce_week_numbers (course_entries store1) = [Some [1, 2]]
   \<and> map ce_week_numbers
        (course_entries (snd (update_course_entry_by_id 41 ''3'' None None None store1))) =
      [None]"
  by (simp add: store1_def update_course_entry_by_id_def update_entry_row_def
      to_week_numbers_json_def Let_def)

section \<open>Creating an entry\<close>

text \<open>
  Claim C2. With a valid token, on a store that keeps its constraints,
  \<^verbatim>\<open>create_course_entry\<close> of the business layer raises HTTP 400 and leaves the store
  as it was when the year-term has no enabled setting for a sub-theme with the code; when it
  has one, the call returns an entry that is in the store, carries the request's course,
  year-term and indicator value, and belongs to a sub-theme with the code that has an
  enabled setting in the year-term.
\<close>

theorem create_course_entry_write_guard:
  assumes auth: "verify_token gen token user_id"
      and ok: "entries_ok d" and th: "sub_themes_have_theme d"
  shows "if enabled_setting_exists d (ed_academic_year e) (ed_academic_term e) (ed_sub_theme_code e)
         then \<exists>r d'. create_course_entry_business gen token user_id e d = (Inr r, d')
                \<and> fst r \<in> set (course_entries d')
                \<and> ce_subj_no (fst r) = ed_subj_no e
                \<and> ce_ps_class_nbr (fst r) = ed_ps_class_nbr e
                \<and> ce_academic_year (fst r) = ed_academic_year e
                \<and> ce_academic_term (fst r) = ed_academic_term e
                \<and> ce_indicator_value (fst r) = ed_indicator_value e
                \<and> (\<exists>st \<in> set (coures_sub_themes d'). \<exists>systs \<in> set (sub_theme_settings d').
                      st_id st = ce_coures_sub_themes_id (fst r)
                      \<and> st_sub_theme_code st = ed_sub_theme_code e
                      \<and> sts_coures_sub_themes_id systs = st_id st
                      \<and> sts_academic_year systs = ed_academic_year e
                      \<and> sts_academic_term systs = ed_academic_term e
                      \<and> sts_enabled systs)
         else create_course_entry_business gen token user_id e d = (Inl (HTTPException 400), d)"
proof (cases "enabled_sub_themes_by_code d (ed_academic_year e) (ed_academic_term e) (ed_sub_theme_code e)")
  case Nil
  then have "\<not> enabled_setting_exists d (ed_academic_year e) (ed_academic_term e) (ed_sub_theme_code e)"
    by (simp add: enabled_setting_exists_iff)
  moreover have "create_course_entry_business gen token user_id e d = (Inl (HTTPException 400), d)"
    using auth Nil
    by (simp add: create_course_entry_business_def create_from_data_def create_course_entry_def
        fetchrow_def)
  ultimately show ?thesis by simp
next
  case (Cons st rest)
  then have ex: "enabled_setting_exists d (ed_academic_year e) (ed_academic_term e) (ed_sub_theme_code e)"
    by (simp add: enabled_setting_exists_iff)
  let ?K = "(ed_subj_no e, ed_ps_class_nbr e, ed_academic_year e, ed_academic_term e, st_id st)"
  from create_course_entry_effect[OF ok th Cons, of "ed_subj_no e" "ed_ps_class_nbr e"
      "ed_indicator_value e" "ed_week_numbers e" "ed_is_most_relevant e" "Some user_id"]
  obtain r d' where run: "create_course_entry (ed_subj_no e) (ed_ps_class_nbr e) (ed_academic_year e)
        (ed_academic_term e) (ed_sub_theme_code e) (ed_indicator_value e) (ed_week_numbers e)
        (ed_is_most_relevant e) (Some user_id) d = (Inr (Some r), d')"
    and same: "coures_sub_themes d' = coures_sub_themes d" "sub_theme_settings d' = sub_theme_settings d"
    and key: "course_entry_key (fst r) = ?K"
    and val: "ce_indicator_value (fst r) = ed_indicator_value e"
    and one: "[x \<leftarrow> course_entries d'. course_entry_key x = ?K] = [fst r]"
    by blast
  have biz: "create_course_entry_business gen token user_id e d = (Inr r, d')"
    using auth run by (simp add: create_course_entry_business_def create_from_data_def)
  have "fst r \<in> set [x \<leftarrow> course_entries d'. course_entry_key x = ?K]" unfolding one by simp
  then have mem: "fst r \<in> set (course_entries d')" by simp
  from enabled_sub_theme_hd[OF Cons] obtain systs where
    st: "st \<in> set (coures_sub_themes d)" "st_sub_theme_code st = ed_sub_theme_code e"
    and systs: "systs \<in> set (sub_theme_settings d)" "sts_coures_sub_themes_id systs = st_id st"
      "sts_academic_year systs = ed_academic_year e" "sts_academic_term systs = ed_academic_term e"
      "sts_enabled systs"
    by blast
  have fields: "ce_subj_no (fst r) = ed_subj_no e" "ce_ps_class_nbr (fst r) = ed_ps_class_nbr e"
    "ce_academic_year (fst r) = ed_academic_year e" "ce_academic_term (fst r) = ed_academic_term e"
    "ce_coures_sub_themes_id (fst r) = st_id st"
    using key by (simp_all add: course_entry_key_def)
  have guard: "\<exists>st \<in> set (coures_sub_themes d'). \<exists>systs \<in> set (sub_theme_settings d').
                  st_id st = ce_coures_sub_themes_id (fst r)
                  \<and> st_sub_theme_code st = ed_sub_theme_code e
                  \<and> sts_coures_sub_themes_id systs = st_id st
                  \<and> sts_academic_year systs = ed_academic_year e
                  \<and> sts_academic_term systs = ed_academic_term e
                  \<and> sts_enabled systs"
    using st systs fields(5) unfolding same by (intro bexI[of _ st] bexI[of _ systs]) simp_all
  show ?thesis
    using ex biz mem fields(1-4) val guard by (simp del: ex_simps bex_simps)
qed

text \<open>Both branches of C2 on \<open>store1\<close>: code 01 is enabled in 113-1, code 02 has no setting.\<close>

theorem create_course_entry_write_guard_witness:
  "(\<exists>r d'. create_course_entry_business (\<lambda>u. ''tok'') ''tok'' ''u'' request1 store1 = (Inr r, d')
       \<and> fst r \<in> set (course_entries d') \<and> ce_indicator_value (fst r) = ''5'')
   \<and> create_course_entry_business (\<lambda>u. ''tok'') ''tok'' ''u''
        (request1\<lparr>ed_sub_theme_code := ''02''\<rparr>) store1 = (Inl (HTTPException 400), store1)"
proof -
  have a: "verify_token (\<lambda>u. ''tok'') ''tok'' ''u''" by (simp add: verify_token_def)
  have e1: "enabled_setting_exists store1 (ed_academic_year request1) (ed_academic_term request1)
              (ed_sub_theme_code request1)"
    by (simp add: enabled_setting_exists_def store1_def request1_def)
  have e2: "\<not> enabled_setting_exists store1
              (ed_academic_year (request1\<lparr>ed_sub_theme_code := ''02''\<rparr>))
              (ed_academic_term (request1\<lparr>ed_sub_theme_code := ''02''\<rparr>))
              (ed_sub_theme_code (request1\<lparr>ed_sub_theme_code := ''02''\<rparr>))"
    by (simp add: enabled_setting_exists_def store1_def request1_def)
  have v: "ed_indicator_value request1 = ''5''" by (simp add: request1_def)
  from create_course_entry_write_guard[OF a store1_entries_ok store1_sub_themes_have_theme,
      of request1] e1
  have 1: "\<exists>r d'. create_course_entry_business (\<lambda>u. ''tok'') ''tok'' ''u'' request1 store1 = (Inr r, d')
       \<and> fst r \<in> set (course_entries d') \<and> ce_indicator_value (fst r) = ''5''"
    unfolding v by (simp only: if_True) blast
  from create_course_entry_write_guard[OF a store1_entries_ok store1_sub_themes_have_theme,
      of "request1\<lparr>ed_sub_theme_code := ''02''\<rparr>"] e2
  have 2: "create_course_entry_business (\<lambda>u. ''tok'') ''tok'' ''u''
        (request1\<lparr>ed_sub_theme_code := ''02''\<rparr>) store1 = (Inl (HTTPException 400), store1)"
    by (simp only: if_False)
  from 1 2 show ?thesis by (rule conjI)
qed

text \<open>
  Claim C3. When the year-term has an enabled setting for the code, two creates with the
  same course, year-term and code both succeed; afterwards exactly one entry has the natural
  key, it holds the second indicator value, it has the id the first create returned, and
  the second create added no row.
\<close>

theorem create_course_entry_twice:
  assumes ok: "entries_ok d" and th: "sub_themes_have_theme d"
      and en: "enabled_setting_exists d y t code"
  shows "\<exists>r1 d1 r2 d2.
           create_course_entry s c y t code v1 wn1 imr1 cb1 d = (Inr (Some r1), d1)
         \<and> create_course_entry s c y t code v2 wn2 imr2 cb2 d1 = (Inr (Some r2), d2)
         \<and> [x \<leftarrow> course_entries d2. course_entry_key x = course_entry_key (fst r1)] = [fst r2]
         \<and> ce_indicator_value (fst r2) = v2
         \<and> ce_id (fst r2) = ce_id (fst r1)
         \<and> length (course_entries d2) = length (course_entries d1)
         \<and> (\<exists>sid. course_entry_key (fst r1) = (s, c, y, t, sid))"
proof -
  obtain st rest where en1: "enabled_sub_themes_by_code d y t code = st # rest"
    using en unfolding enabled_setting_exists_iff
    by (cases "enabled_sub_themes_by_code d y t code") auto
  let ?K = "(s, c, y, t, st_id st)"
  from create_course_entry_effect[OF ok th en1, of s c v1 wn1 imr1 cb1]
  obtain r1 d1 where run1: "create_course_entry s c y t code v1 wn1 imr1 cb1 d = (Inr (Some r1), d1)"
    and same1: "coures_themes d1 = coures_themes d" "coures_sub_themes d1 = coures_sub_themes d"
      "sub_theme_settings d1 = sub_theme_settings d"
    and ok1: "entries_ok d1"
    and key1: "course_entry_key (fst r1) = ?K"
    and one1: "[x \<leftarrow> course_entries d1. course_entry_key x = ?K] = [fst r1]"
    by blast
  have th1: "sub_themes_have_theme d1" using th by (simp add: sub_themes_have_theme_def same1)
  have en2: "enabled_sub_themes_by_code d1 y t code = st # rest"
    using en1 by (simp add: enabled_sub_themes_by_code_def same1)
  from create_course_entry_effect[OF ok1 th1 en2, of s c v2 wn2 imr2 cb2]
  obtain r2 d2 where run2: "create_course_entry s c y t code v2 wn2 imr2 cb2 d1 = (Inr (Some r2), d2)"
    and val2: "ce_indicator_value (fst r2) = v2"
    and one2: "[x \<leftarrow> course_entries d2. course_entry_key x = ?K] = [fst r2]"
    and other2: "[x \<leftarrow> course_entries d2. course_entry_key x \<noteq> ?K] =
                 [x \<leftarrow> course_entries d1. course_entry_key x \<noteq> ?K]"
    and id2: "\<forall>x \<in> set (course_entries d1). course_entry_key x = ?K \<longrightarrow> ce_id (fst r2) = ce_id x"
    by blast
  have "fst r1 \<in> set [x \<leftarrow> course_entries d1. course_entry_key x = ?K]" unfolding one1 by simp
  then have "fst r1 \<in> set (course_entries d1)" by simp
  then have same_id: "ce_id (fst r2) = ce_id (fst r1)" using id2 key1 by blast
  have "length (course_entries d2) =
          length [x \<leftarrow> course_entries d2. course_entry_key x = ?K] +
          length [x \<leftarrow> course_entries d2. \<not> course_entry_key x = ?K]"
    by (rule sum_length_filter_compl[symmetric])
  also have "\<dots> = length [x \<leftarrow> course_entries d1. course_entry_key x = ?K] +
                   length [x \<leftarrow> course_entries d1. \<not> course_entry_key x = ?K]"
    unfolding one1 one2 other2 by simp
  also have "\<dots> = length (course_entries d1)" by (rule sum_length_filter_compl)
  finally have len: "length (course_entries d2) = length (course_entries d1)" .
  show ?thesis
    using run1 run2 one2 val2 same_id len key1
    by (intro exI[of _ r1] exI[of _ d1] exI[of _ r2] exI[of _ d2]) simp
qed


text \<open>C3 on \<open>store1\<close>: a new course C2 files 5 and then 7 against sub-theme 01.\<close>

theorem create_course_entry_twice_witness:
  "\<exists>r1 d1 r2 d2.
      create_course_entry ''S1'' ''C2'' 113 1 ''01'' ''5'' None None None store1 = (Inr (Some r1), d1)
    \<and> create_course_entry ''S1'' ''C2'' 113 1 ''01'' ''7'' None None None d1 = (Inr (Some r2), d2)
    \<and> [x \<leftarrow> course_entries d2. course_entry_key x = course_entry_key (fst r1)] = [fst r2]
    \<and> ce_indicator_value (fst r2) = ''7''
    \<and> ce_id (fst r2) = ce_id (fst r1)
    \<and> length (course_entries d2) = length (course_entries d1)
    \<and> (\<exists>sid. course_entry_key (fst r1) = (''S1'', ''C2'', 113, 1, sid))"
proof -
  have e: "enabled_setting_exists store1 113 1 ''01''"
    by (simp add: enabled_setting_exists_def store1_def)
  show ?thesis
    by (rule create_course_entry_twice[OF store1_entries_ok store1_sub_themes_have_theme e])
qed

section \<open>Batch creation\<close>

text \<open>
  Claim C9, as amended. With a valid token the business call returns the list of the data
  access object's batch when it is not empty, and raises HTTP 400 when it is empty. The
  batch of the data access object never raises: each entry is created on the store its
  predecessors left, whether they failed or not, the entries after it are processed on the
  store it leaves, and the result lists, in order, exactly the rows of the creates that
  returned one. An entry without an enabled setting fails without writing.
\<close>

theorem create_course_entries_batch_partial_success:
  assumes auth: "verify_token gen token user_id"
  shows "create_course_entries_batch_business gen token user_id es d =
           (case create_course_entries_batch (map (\<lambda>e. e\<lparr>ed_created_by := Some user_id\<rparr>) es) d of
              (rs, d') \<Rightarrow> (if rs = [] then Inl (HTTPException 400) else Inr rs, d'))
       \<and> create_course_entries_batch (es1 @ e # es2) d0 =
           (case create_course_entries_batch es1 d0 of
              (rs1, d1) \<Rightarrow>
                (case create_from_data e d1 of
                   (res, d2) \<Rightarrow>
                     (case create_course_entries_batch es2 d2 of
                        (rs2, d3) \<Rightarrow>
                          (rs1 @ (case res of Inr (Some r) \<Rightarrow> [r] | _ \<Rightarrow> []) @ rs2, d3))))
       \<and> (\<not> enabled_setting_exists d0 (ed_academic_year e) (ed_academic_term e)
              (ed_sub_theme_code e) \<longrightarrow>
            create_from_data e d0 = (Inl ValueError, d0))"
proof (intro conjI)
  show "create_course_entries_batch_business gen token user_id es d =
           (case create_course_entries_batch (map (\<lambda>e. e\<lparr>ed_created_by := Some user_id\<rparr>) es) d of
              (rs, d') \<Rightarrow> (if rs = [] then Inl (HTTPException 400) else Inr rs, d'))"
    using auth by (simp add: create_course_entries_batch_business_def split: prod.splits)
  show "create_course_entries_batch (es1 @ e # es2) d0 =
           (case create_course_entries_batch es1 d0 of
              (rs1, d1) \<Rightarrow>
                (case create_from_data e d1 of
                   (res, d2) \<Rightarrow>
                     (case create_course_entries_batch es2 d2 of
                        (rs2, d3) \<Rightarrow>
                          (rs1 @ (case res of Inr (Some r) \<Rightarrow> [r] | _ \<Rightarrow> []) @ rs2, d3))))"
    unfolding batch_append batch_Cons by (simp add: successes_def split: prod.splits)
  show "\<not> enabled_setting_exists d0 (ed_academic_year e) (ed_academic_term e)
              (ed_sub_theme_code e) \<longrightarrow>
            create_from_data e d0 = (Inl ValueError, d0)"
    by (simp add: enabled_setting_exists_iff create_from_data_def create_course_entry_def
        fetchrow_def)
qed


text \<open>The theorem on \<open>store1\<close>, for a batch whose first entry has no enabled setting.\<close>

theorem create_course_entries_batch_partial_success_witness:
  "create_course_entries_batch_business (\<lambda>u. ''tok'') ''tok'' ''u''
     [request1\<lparr>ed_sub_theme_code := ''02''\<rparr>, request1] store1 =
     (case create_course_entries_batch
             (map (\<lambda>e. e\<lparr>ed_created_by := Some ''u''\<rparr>)
                [request1\<lparr>ed_sub_theme_code := ''02''\<rparr>, request1]) store1 of
        (rs, d') \<Rightarrow> (if rs = [] then Inl (HTTPException 400) else Inr rs, d'))
   \<and> create_from_data (request1\<lparr>ed_sub_theme_code := ''02''\<rparr>) store1 =
       (Inl ValueError, store1)"
proof -
  have a: "verify_token (\<lambda>u. ''tok'') ''tok'' ''u''" by (simp add: verify_token_def)
  have e2: "\<not> enabled_setting_exists store1
              (ed_academic_year (request1\<lparr>ed_sub_theme_code := ''02''\<rparr>))
              (ed_academic_term (request1\<lparr>ed_sub_theme_code := ''02''\<rparr>))
              (ed_sub_theme_code (request1\<lparr>ed_sub_theme_code := ''02''\<rparr>))"
    by (simp add: enabled_setting_exists_def store1_def request1_def)
  from create_course_entries_batch_partial_success[OF a,
      of "[request1\<lparr>ed_sub_theme_code := ''02''\<rparr>, request1]" store1 "[]"
         "request1\<lparr>ed_sub_theme_code := ''02''\<rparr>" "[]" store1] e2
  show ?thesis by blast
qed

text \<open>
  Claim C9, as stated, fails: a batch whose only entry fails does not return the empty list,
  the business call raises HTTP 400.
\<close>

theorem create_course_entries_batch_all_fail:
  "create_course_entries_batch_business (\<lambda>u. ''tok'') ''tok'' ''u''
     [request1\<lparr>ed_sub_theme_code := ''02''\<rparr>] store1 = (Inl (HTTPException 400), store1)"
  by (simp add: create_course_entries_batch_business_def verify_token_def
      create_course_entries_batch_def create_from_data_def create_course_entry_def
      enabled_sub_themes_by_code_def fetchrow_def store1_def request1_def)

section \<open>Updating a sub-theme setting\<close>

text \<open>
  Claim C7. With a valid token, on a store that keeps its constraints,
  \<^verbatim>\<open>update_school_year_sub_theme_setting\<close> of the business layer behaves as follows.
  When a setting row has the id, that row gets the flag and every other row is unchanged.
  Otherwise, when a year and a term are given and the id is the id of a sub-theme of the
  catalog: the setting of that year-term and sub-theme gets the flag in place when there is
  one, and a new row with the flag is appended when there is none. In every other case the
  call raises HTTP 404 and leaves the store as it was.
\<close>

theorem update_school_year_sub_theme_setting_upsert:
  assumes auth: "verify_token gen token user_id"
      and ok: "sub_theme_settings_ok d" and th: "sub_themes_have_theme d"
      and res: "res = update_school_year_sub_theme_setting_business gen token user_id sid en
                        yr tm d"
  shows "if sid \<in> set (map sts_id (sub_theme_settings d))
         then \<exists>r d'. res = (Inr r, d') \<and> sts_id (fst r) = sid \<and> sts_enabled (fst r) = en
                \<and> [x \<leftarrow> sub_theme_settings d'. sts_id x = sid] = [fst r]
                \<and> [x \<leftarrow> sub_theme_settings d'. sts_id x \<noteq> sid] =
                    [x \<leftarrow> sub_theme_settings d. sts_id x \<noteq> sid]
                \<and> (\<exists>x0 \<in> set (sub_theme_settings d). sts_id x0 = sid
                      \<and> sub_theme_setting_key (fst r) = sub_theme_setting_key x0)
         else (case (yr, tm) of
                 (Some y, Some t) \<Rightarrow>
                   if sid \<in> set (map st_id (coures_sub_themes d))
                   then if (y, t, sid) \<in> set (map sub_theme_setting_key (sub_theme_settings d))
                        then \<exists>r d'. res = (Inr r, d')
                               \<and> sub_theme_setting_key (fst r) = (y, t, sid)
                               \<and> sts_enabled (fst r) = en
                               \<and> [x \<leftarrow> sub_theme_settings d'. sts_id x = sts_id (fst r)] = [fst r]
                               \<and> [x \<leftarrow> sub_theme_settings d'. sts_id x \<noteq> sts_id (fst r)] =
                                   [x \<leftarrow> sub_theme_settings d. sts_id x \<noteq> sts_id (fst r)]
                               \<and> sts_id (fst r) \<in> set (map sts_id (sub_theme_settings d))
                        else \<exists>r d'. res = (Inr r, d')
                               \<and> sub_theme_settings d' = sub_theme_settings d @ [fst r]
                               \<and> sub_theme_setting_key (fst r) = (y, t, sid)
                               \<and> sts_enabled (fst r) = en
                   else res = (Inl (HTTPException 404), d)
               | _ \<Rightarrow> res = (Inl (HTTPException 404), d))"
proof (cases "sid \<in> set (map sts_id (sub_theme_settings d))")
  case True
  then obtain x0 where x0: "x0 \<in> set (sub_theme_settings d)" "sts_id x0 = sid" by auto
  from True obtain ex where ex: "get_school_year_sub_theme_setting_by_id d sid = Some ex"
    using get_setting_by_id_None[OF ok th, of sid] by (cases "get_school_year_sub_theme_setting_by_id d sid") auto
  let ?d' = "update_enabled sid en (Some user_id) d"
  from update_enabled_effect[OF ok th x0(1), of en "Some user_id"] obtain r where
    r: "get_school_year_sub_theme_setting_by_id ?d' sid = Some r"
      "fst r = x0\<lparr>sts_enabled := en, sts_updated_by := Some user_id\<rparr>"
      "[x \<leftarrow> sub_theme_settings ?d'. sts_id x = sid] = [fst r]"
      "[x \<leftarrow> sub_theme_settings ?d'. sts_id x \<noteq> sid] = [x \<leftarrow> sub_theme_settings d. sts_id x \<noteq> sid]"
    unfolding x0(2) by blast
  have run: "res = (Inr r, ?d')"
    using auth ex r(1) unfolding res
    by (simp add: update_school_year_sub_theme_setting_business_def
        update_school_year_sub_theme_setting_def Let_def)
  have k: "sub_theme_setting_key (fst r) = sub_theme_setting_key x0" "sts_id (fst r) = sid"
    "sts_enabled (fst r) = en"
    using r(2) x0(2) by (simp_all add: sub_theme_setting_key_def)
  have "\<exists>x0 \<in> set (sub_theme_settings d). sts_id x0 = sid
          \<and> sub_theme_setting_key (fst r) = sub_theme_setting_key x0"
    using x0 k(1) by blast
  then show ?thesis using True run k r(3,4) by (simp del: bex_simps)
next
  case False
  then have none: "get_school_year_sub_theme_setting_by_id d sid = None"
    using get_setting_by_id_None[OF ok th, of sid] by simp
  show ?thesis
  proof (cases yr)
    case None
    then show ?thesis using False none auth unfolding res
      by (simp add: update_school_year_sub_theme_setting_business_def
          update_school_year_sub_theme_setting_def)
  next
    case (Some y)
    note y = this
    show ?thesis
    proof (cases tm)
      case None
      then show ?thesis using False none auth y unfolding res
        by (simp add: update_school_year_sub_theme_setting_business_def
            update_school_year_sub_theme_setting_def)
    next
      case (Some t)
      note t = this
      let ?sub = "fetchrow [(st, th). st \<leftarrow> coures_sub_themes d, th \<leftarrow> coures_themes d,
                              st_coures_themes_id st = t_id th, st_id st = sid]"
      show ?thesis
      proof (cases "sid \<in> set (map st_id (coures_sub_themes d))")
        case nosub: False
        then have "?sub = None" using sub_theme_by_id_None[OF th, of sid] by simp
        then show ?thesis using False none auth y t nosub unfolding res
          by (simp add: update_school_year_sub_theme_setting_business_def
              update_school_year_sub_theme_setting_def)
      next
        case sub: True
        then obtain sb where sb: "?sub = Some sb"
          using sub_theme_by_id_None[OF th, of sid] by (cases ?sub) auto
        obtain st0 t0 where sbp: "sb = (st0, t0)" by (cases sb)
        have "(st0, t0) \<in> set [(st, th). st \<leftarrow> coures_sub_themes d, th \<leftarrow> coures_themes d,
                                   st_coures_themes_id st = t_id th, st_id st = sid]"
          using fetchrow_Some[OF sb] sbp by simp
        then have st0: "st0 \<in> set (coures_sub_themes d)" "t0 \<in> set (coures_themes d)"
          "st_coures_themes_id st0 = t_id t0" "st_id st0 = sid" by (auto split: if_splits)
        let ?ex = "fetchrow [r \<leftarrow> sub_theme_settings d. sub_theme_setting_key r = (y, t, sid)]"
        show ?thesis
        proof (cases "(y, t, sid) \<in> set (map sub_theme_setting_key (sub_theme_settings d))")
          case haskey: True
          then obtain x1 where "x1 \<in> set [r \<leftarrow> sub_theme_settings d. sub_theme_setting_key r = (y, t, sid)]"
            by auto
          from fetchrow_nonempty[OF this] obtain x0 where ex: "?ex = Some x0" by blast
          from fetchrow_filter_Some[OF this] have x0: "x0 \<in> set (sub_theme_settings d)"
            "sub_theme_setting_key x0 = (y, t, sid)" by simp_all
          let ?d' = "update_enabled (sts_id x0) en (Some user_id) d"
          from update_enabled_effect[OF ok th x0(1), of en "Some user_id"] obtain r where
            r: "get_school_year_sub_theme_setting_by_id ?d' (sts_id x0) = Some r"
              "fst r = x0\<lparr>sts_enabled := en, sts_updated_by := Some user_id\<rparr>"
              "[x \<leftarrow> sub_theme_settings ?d'. sts_id x = sts_id x0] = [fst r]"
              "[x \<leftarrow> sub_theme_settings ?d'. sts_id x \<noteq> sts_id x0] =
                 [x \<leftarrow> sub_theme_settings d. sts_id x \<noteq> sts_id x0]"
            by blast
          have run: "res = (Inr r, ?d')"
            using auth none y t sb ex r(1) unfolding res
            by (simp add: update_school_year_sub_theme_setting_business_def
                update_school_year_sub_theme_setting_def Let_def sbp)
          have k: "sub_theme_setting_key (fst r) = (y, t, sid)" "sts_id (fst r) = sts_id x0"
            "sts_enabled (fst r) = en"
            using r(2) x0(2) by (simp_all add: sub_theme_setting_key_def)
          have "sts_id (fst r) \<in> set (map sts_id (sub_theme_settings d))"
            using x0(1) k(2) by simp
          then show ?thesis using False y t sub haskey run k r(3,4)
            by (simp del: ex_simps) 
        next
          case nokey: False
          then have "\<forall>x \<in> set (sub_theme_settings d). sub_theme_setting_key x \<noteq> (y, t, sid)"
            by (metis image_eqI set_map)
          then have ex: "?ex = None" by (simp add: fetchrow_None filter_empty_conv)
          let ?n = "uuid_counter d"
          let ?new = "\<lparr>sts_id = ?n, sts_academic_year = y, sts_academic_term = t,
                        sts_coures_sub_themes_id = sid, sts_enabled = en,
                        sts_created_by = Some user_id, sts_updated_by = Some user_id\<rparr>"
          let ?d2 = "d\<lparr>uuid_counter := Suc ?n,
                        sub_theme_settings := sub_theme_settings d @ [?new]\<rparr>"
          have fresh: "sts_id x < ?n" if "x \<in> set (sub_theme_settings d)" for x
            using ok that by (simp add: sub_theme_settings_ok_def)
          have nid: "?n \<notin> set (map sts_id (sub_theme_settings d))" using fresh by fastforce
          have knew: "sub_theme_setting_key ?new = (y, t, sid)"
            by (simp add: sub_theme_setting_key_def)
          have ins: "insert_sub_theme_setting ?new (d\<lparr>uuid_counter := Suc ?n\<rparr>) = (Inr (), ?d2)"
            using nid nokey unfolding insert_sub_theme_setting_def knew by simp
          have "(?new, st0, t0) \<in> set (sub_theme_setting_rows ?d2)"
            using st0 by (simp add: set_sub_theme_setting_rows)
          then have "(?new, st0, t0) \<in> set [r \<leftarrow> sub_theme_setting_rows ?d2. sts_id (fst r) = ?n]"
            by simp
          from fetchrow_nonempty[OF this]
          obtain r where r: "get_school_year_sub_theme_setting_by_id ?d2 ?n = Some r"
            unfolding get_school_year_sub_theme_setting_by_id_def by auto
          then have "r \<in> set (sub_theme_setting_rows ?d2)" "sts_id (fst r) = ?n"
            unfolding get_school_year_sub_theme_setting_by_id_def
            by (auto dest: fetchrow_filter_Some)
          then have "fst r \<in> set (sub_theme_settings d) \<or> fst r = ?new" "sts_id (fst r) = ?n"
            using sub_theme_setting_rows_fst[of r ?d2] by auto
          then have fr: "fst r = ?new" using fresh[of "fst r"] by auto
          have run: "res = (Inr r, ?d2)"
            using auth none y t sb ex ins r unfolding res
            by (simp add: update_school_year_sub_theme_setting_business_def
                update_school_year_sub_theme_setting_def uuid4_def sbp)
          show ?thesis using False y t sub nokey run fr knew
            by (simp del: ex_simps)
        qed
      qed
    qed
  qed
qed

text \<open>
  The three outcomes on \<open>store1\<close>: setting 31 is updated, a setting is created for
  sub-theme 12 in 113-1, and id 99 resolves to nothing.
\<close>

theorem update_school_year_sub_theme_setting_upsert_witness:
  "(\<exists>r d'. update_school_year_sub_theme_setting_business (\<lambda>u. ''tok'') ''tok'' ''u'' 31 False
              None None store1 = (Inr r, d')
       \<and> sts_id (fst r) = 31 \<and> sts_enabled (fst r) = False
       \<and> [x \<leftarrow> sub_theme_settings d'. sts_id x = 31] = [fst r])
   \<and> (\<exists>r d'. update_school_year_sub_theme_setting_business (\<lambda>u. ''tok'') ''tok'' ''u'' 12 True
              (Some 113) (Some 1) store1 = (Inr r, d')
       \<and> sub_theme_settings d' = sub_theme_settings store1 @ [fst r]
       \<and> sub_theme_setting_key (fst r) = (113, 1, 12) \<and> sts_enabled (fst r) = True)
   \<and> update_school_year_sub_theme_setting_business (\<lambda>u. ''tok'') ''tok'' ''u'' 99 True
        (Some 113) (Some 1) store1 = (Inl (HTTPException 404), store1)"
proof -
  have a: "verify_token (\<lambda>u. ''tok'') ''tok'' ''u''" by (simp add: verify_token_def)
  note inst = update_school_year_sub_theme_setting_upsert[OF a store1_sub_theme_settings_ok
      store1_sub_themes_have_theme refl]
  have c1: "31 \<in> set (map sts_id (sub_theme_settings store1))" by (simp add: store1_def)
  have c2: "12 \<notin> set (map sts_id (sub_theme_settings store1))"
    "12 \<in> set (map st_id (coures_sub_themes store1))"
    "(113, 1, 12) \<notin> set (map sub_theme_setting_key (sub_theme_settings store1))"
    by (simp_all add: store1_def sub_theme_setting_key_def)
  have c3: "99 \<notin> set (map sts_id (sub_theme_settings store1))"
    "99 \<notin> set (map st_id (coures_sub_themes store1))"
    by (simp_all add: store1_def)
  have 1: "\<exists>r d'. update_school_year_sub_theme_setting_business (\<lambda>u. ''tok'') ''tok'' ''u'' 31 False
              None None store1 = (Inr r, d')
       \<and> sts_id (fst r) = 31 \<and> sts_enabled (fst r) = False
       \<and> [x \<leftarrow> sub_theme_settings d'. sts_id x = 31] = [fst r]"
    using inst[of 31 False None None] c1 by (simp only: if_True) blast
  have 2: "\<exists>r d'. update_school_year_sub_theme_setting_business (\<lambda>u. ''tok'') ''tok'' ''u'' 12 True
              (Some 113) (Some 1) store1 = (Inr r, d')
       \<and> sub_theme_settings d' = sub_theme_settings store1 @ [fst r]
       \<and> sub_theme_setting_key (fst r) = (113, 1, 12) \<and> sts_enabled (fst r) = True"
    using inst[of 12 True "Some 113" "Some 1"] c2
    by (simp only: if_True if_False prod.case option.case)
  have 3: "update_school_year_sub_theme_setting_business (\<lambda>u. ''tok'') ''tok'' ''u'' 99 True
        (Some 113) (Some 1) store1 = (Inl (HTTPException 404), store1)"
    using inst[of 99 True "Some 113" "Some 1"] c3
    by (simp only: if_True if_False prod.case option.case)
  from 1 2 3 show ?thesis by blast
qed

section \<open>The most-relevant check of the update by id\<close>

text \<open>
  Claim C6, as amended. With a valid token, on a store that keeps its constraints, an update
  by id that sets \<^verbatim>\<open>is_most_relevant\<close> to true on an existing entry raises HTTP 400
  (the code's BadRequest class, not 409 Conflict) and leaves the store as it was when the
  entry has a most-relevant sibling; without such a sibling the update is applied: the entry
  is marked, gets the indicator value, and no other entry changes.
\<close>

theorem update_course_entry_by_id_most_relevant:
  assumes auth: "verify_token gen (eu_token data) (eu_user_id data)"
      and ok: "entries_ok d" and cat: "catalog_ok d" and th: "sub_themes_have_theme d"
      and ce: "ce \<in> set (course_entries d)"
      and fk: "ce_coures_sub_themes_id ce \<in> set (map st_id (coures_sub_themes d))"
      and mr: "eu_is_most_relevant data = Some True"
  shows "if most_relevant_sibling d ce
         then update_course_entry_by_id_business gen (ce_id ce) data d =
                (Inl (HTTPException 400), d)
         else \<exists>r d'. update_course_entry_by_id_business gen (ce_id ce) data d = (Inr r, d')
                \<and> ce_id (fst r) = ce_id ce \<and> ce_is_most_relevant (fst r)
                \<and> ce_indicator_value (fst r) = eu_indicator_value data
                \<and> course_entry_key (fst r) = course_entry_key ce
                \<and> [x \<leftarrow> course_entries d'. course_entry_key x = course_entry_key ce] = [fst r]
                \<and> [x \<leftarrow> course_entries d'. course_entry_key x \<noteq> course_entry_key ce] =
                    [x \<leftarrow> course_entries d. course_entry_key x \<noteq> course_entry_key ce]"
proof -
  obtain st where st: "st \<in> set (coures_sub_themes d)" "ce_coures_sub_themes_id ce = st_id st"
    using fk by auto
  obtain t where t: "t \<in> set (coures_themes d)" "st_coures_themes_id st = t_id t"
    using th st(1) unfolding sub_themes_have_theme_def by blast
  have "(ce, st, t) \<in> set (entry_rows d)" using ce st t by (simp add: set_entry_rows)
  then have "(ce, st, t) \<in> set [r \<leftarrow> entry_rows d. ce_id (fst r) = ce_id ce]" by simp
  from fetchrow_nonempty[OF this] obtain r0 where
    r0: "get_course_entry_by_id d (ce_id ce) = Some r0"
    unfolding get_course_entry_by_id_def by auto
  then have r0m: "r0 \<in> set (entry_rows d)" "ce_id (fst r0) = ce_id ce"
    unfolding get_course_entry_by_id_def by (auto dest: fetchrow_filter_Some)
  have dei: "distinct (map ce_id (course_entries d))" using ok by (simp add: entries_ok_def)
  have "fst r0 = ce" using distinct_key_eq[OF dei entry_rows_fst[OF r0m(1)] ce r0m(2)] .
  then obtain st0 t0 where r0p: "r0 = (ce, st0, t0)" by (cases r0) auto
  have row: "(ce, st0, t0) \<in> set (entry_rows d)" using r0m(1) r0p by simp
  have conflict: "most_relevant_conflict d (ce_id ce) (eu_is_most_relevant data) \<longleftrightarrow>
                  most_relevant_sibling d ce"
    using conflict_iff_sibling[OF ok cat row] r0 mr
    by (simp add: most_relevant_conflict_def r0p)
  show ?thesis
  proof (cases "most_relevant_sibling d ce")
    case True
    then show ?thesis using auth conflict
      by (simp add: update_course_entry_by_id_business_def)
  next
    case False
    from update_course_entry_by_id_effect[OF ok row, of "eu_indicator_value data"
        "eu_week_numbers data" "Some True" "Some (eu_user_id data)"]
    obtain r d' where u: "update_course_entry_by_id (ce_id ce) (eu_indicator_value data)
          (eu_week_numbers data) (Some True) (Some (eu_user_id data)) d = (Inr (Some r), d')"
        "fst r = update_entry_row (eu_indicator_value data) (eu_week_numbers data) (Some True)
                   (Some (eu_user_id data)) ce"
        "[x \<leftarrow> course_entries d'. course_entry_key x = course_entry_key ce] = [fst r]"
        "[x \<leftarrow> course_entries d'. course_entry_key x \<noteq> course_entry_key ce] =
           [x \<leftarrow> course_entries d. course_entry_key x \<noteq> course_entry_key ce]"
      by blast
    have run: "update_course_entry_by_id_business gen (ce_id ce) data d = (Inr r, d')"
      using auth conflict False u(1) mr by (simp add: update_course_entry_by_id_business_def)
    have f: "ce_id (fst r) = ce_id ce" "ce_is_most_relevant (fst r)"
      "ce_indicator_value (fst r) = eu_indicator_value data"
      "course_entry_key (fst r) = course_entry_key ce"
      using u(2) by (simp_all add: update_entry_row_def course_entry_key_def)
    show ?thesis using False run f u(3,4) by simp
  qed
qed

text \<open>
  On \<open>store2\<close>: marking entry 42 is refused because entry 41 of the same theme is
  marked; marking entry 41 again is accepted.
\<close>

theorem update_course_entry_by_id_most_relevant_witness:
  "update_course_entry_by_id_business (\<lambda>u. ''tok'') (ce_id entry42) update1 store2 =
     (Inl (HTTPException 400), store2)
   \<and> (\<exists>r d'. update_course_entry_by_id_business (\<lambda>u. ''tok'')
                 (ce_id (hd (course_entries store2))) update1 store2 = (Inr r, d')
         \<and> ce_is_most_relevant (fst r) \<and> ce_indicator_value (fst r) = ''3'')"
proof -
  have a: "verify_token (\<lambda>u. ''tok'') (eu_token update1) (eu_user_id update1)"
    by (simp add: verify_token_def update1_def)
  have m: "eu_is_most_relevant update1 = Some True" by (simp add: update1_def)
  have v: "eu_indicator_value update1 = ''3''" by (simp add: update1_def)
  have e1: "entry42 \<in> set (course_entries store2)" by (simp add: store2_def)
  have f1: "ce_coures_sub_themes_id entry42 \<in> set (map st_id (coures_sub_themes store2))"
    by (simp add: store2_def store1_def entry42_def)
  have s1: "most_relevant_sibling store2 entry42"
    by (simp add: most_relevant_sibling_def same_course_term_def store2_def store1_def
        entry42_def)
  have e2: "hd (course_entries store2) \<in> set (course_entries store2)"
    by (simp add: store2_def store1_def)
  have f2: "ce_coures_sub_themes_id (hd (course_entries store2))
              \<in> set (map st_id (coures_sub_themes store2))"
    by (simp add: store2_def store1_def)
  have s2: "\<not> most_relevant_sibling store2 (hd (course_entries store2))"
    by (simp add: most_relevant_sibling_def same_course_term_def store2_def store1_def
        entry42_def)
  have 1: "update_course_entry_by_id_business (\<lambda>u. ''tok'') (ce_id entry42) update1 store2 =
     (Inl (HTTPException 400), store2)"
    using update_course_entry_by_id_most_relevant[OF a store2_entries_ok store2_catalog_ok
        store2_sub_themes_have_theme e1 f1 m] s1 by (simp only: if_True)
  have 2: "\<exists>r d'. update_course_entry_by_id_business (\<lambda>u. ''tok'')
                 (ce_id (hd (course_entries store2))) update1 store2 = (Inr r, d')
         \<and> ce_is_most_relevant (fst r) \<and> ce_indicator_value (fst r) = ''3''"
    using update_course_entry_by_id_most_relevant[OF a store2_entries_ok store2_catalog_ok
        store2_sub_themes_have_theme e2 f2 m] s2 unfolding v by (simp only: if_False) blast
  from 1 2 show ?thesis by (rule conjI)
qed

text \<open>
  Claim C6, as stated, fails on the error class: the refusal is HTTP 400, not 409.
\<close>

theorem update_course_entry_by_id_most_relevant_status:
  "fst (update_course_entry_by_id_business (\<lambda>u. ''tok'') 42 update1 store2) =
     Inl (HTTPException 400)
   \<and> fst (update_course_entry_by_id_business (\<lambda>u. ''tok'') 42 update1 store2) \<noteq>
     Inl (HTTPException 409)"
proof -
  have "most_relevant_conflict store2 42 (Some True)"
    by (simp add: most_relevant_conflict_def get_course_entry_by_id_def entry_rows_def
        fetchrow_def check_most_relevant_validation_def store2_def store1_def entry42_def)
  then show ?thesis
    by (simp add: update_course_entry_by_id_business_def verify_token_def update1_def)
qed

section \<open>Creating a theme setting\<close>

text \<open>
  Claim C1, as amended. On a store that keeps its constraints, creating a theme setting for
  a theme of the catalog that has none in the year-term succeeds and appends exactly one
  theme-setting row with the given values. It appends one sub-theme setting, with the flag
  on and for that year-term, for every sub-theme of the theme that has no row there yet, in
  the order of the sub-theme codes; the rows that already exist are skipped and stay as
  they are, with the flag they had, and the call does not fail on them. Afterwards the
  year-term has exactly N setting rows for the N sub-themes of the theme, so exactly N rows
  are created, all enabled, when none existed.
\<close>

theorem create_school_year_theme_setting_materializes:
  assumes theme: "get_theme_by_code d code = Some th"
      and cat: "catalog_ok d" and fresh: "settings_fresh d"
      and nots: "(y, t, t_id th) \<notin> set (map theme_setting_key (themes_setting d))"
  shows "\<exists>res d' ts new.
           create_school_year_theme_setting y t code fill scale sel cb d = (Inr (Some res), d')
         \<and> themes_setting d' = themes_setting d @ [ts]
         \<and> theme_setting_key ts = (y, t, t_id th)
         \<and> ts_fill_in_week_enabled ts = fill \<and> ts_scale_max ts = scale
         \<and> ts_select_most_relevant_sub_theme_enabled ts = sel
         \<and> sub_theme_settings d' = sub_theme_settings d @ new
         \<and> map (\<lambda>r. (sts_academic_year r, sts_academic_term r, sts_coures_sub_themes_id r,
                     sts_enabled r)) new =
             map (\<lambda>st. (y, t, st_id st, True))
               (sort_key st_sub_theme_code
                  [st \<leftarrow> coures_sub_themes d.
                     st_coures_themes_id st = t_id th \<and>
                     (y, t, st_id st) \<notin> set (map sub_theme_setting_key (sub_theme_settings d))])
         \<and> length [r \<leftarrow> sub_theme_settings d'.
                      sub_theme_setting_key r \<in>
                        set (map (\<lambda>st. (y, t, st_id st))
                               [st \<leftarrow> coures_sub_themes d. st_coures_themes_id st = t_id th])] =
             length [st \<leftarrow> coures_sub_themes d. st_coures_themes_id st = t_id th]"
proof -
  let ?S = "[st \<leftarrow> coures_sub_themes d. st_coures_themes_id st = t_id th]"
  let ?n0 = "uuid_counter d"
  let ?ts = "\<lparr>ts_id = ?n0, ts_academic_year = y, ts_academic_term = t,
               ts_coures_themes_id = t_id th, ts_fill_in_week_enabled = fill,
               ts_scale_max = scale, ts_select_most_relevant_sub_theme_enabled = sel,
               ts_created_by = cb, ts_updated_by = cb\<rparr>"
  let ?d1 = "d\<lparr>uuid_counter := Suc ?n0\<rparr>"
  let ?d2 = "d\<lparr>uuid_counter := Suc ?n0, themes_setting := themes_setting d @ [?ts]\<rparr>"
  have thmem: "th \<in> set (coures_themes d)" and thc: "t_theme_code th = code"
    using fetchrow_filter_Some[OF theme[unfolded get_theme_by_code_def]] by simp_all
  have dti: "distinct (map t_id (coures_themes d))"
    and dsi: "distinct (map st_id (coures_sub_themes d))"
    using cat by (simp_all add: catalog_ok_def)
  have f1: "distinct (map sts_id (sub_theme_settings d))"
    and f2: "distinct (map sub_theme_setting_key (sub_theme_settings d))"
    and f3: "\<forall>r \<in> set (sub_theme_settings d). sts_id r < ?n0"
    and f4: "\<forall>r \<in> set (themes_setting d). ts_id r < ?n0"
    using fresh by (simp_all add: settings_fresh_def)
  have kts: "theme_setting_key ?ts = (y, t, t_id th)" by (simp add: theme_setting_key_def)
  have nid: "?n0 \<notin> set (map ts_id (themes_setting d))" using f4 by fastforce
  have ins: "insert_theme_setting ?ts ?d1 = (Inr (), ?d2)"
    using nid nots by (simp add: insert_theme_setting_def kts)
  \<comment> \<open>the setting is found again\<close>
  let ?L = "[(syts, t'). syts \<leftarrow> themes_setting ?d2, t' \<leftarrow> coures_themes ?d2,
               ts_coures_themes_id syts = t_id t',
               ts_academic_year syts = y, ts_academic_term syts = t,
               t_theme_code t' = code]"
  have "(?ts, th) \<in> set ?L" using thmem thc by auto
  from fetchrow_nonempty[OF this] obtain r0 where r0: "fetchrow ?L = Some r0" by blast
  define res where "res = with_sub_themes ?d2 r0"
  have res: "get_school_year_theme_setting_by_code ?d2 y t code = Some res"
    unfolding get_school_year_theme_setting_by_code_def res_def
    by (simp only: r0 option.map)
  \<comment> \<open>the sub-themes of the theme, in code order\<close>
  have "get_sub_themes_by_theme_id ?d2 (t_id th) =
        sort_key (\<lambda>r. st_sub_theme_code (fst r)) (map (\<lambda>st. (st, th)) ?S)"
    using get_sub_themes_by_theme_id_rows[of ?d2 th] dti thmem by simp
  then have rows: "get_sub_themes_by_theme_id ?d2 (t_id th) =
                   map (\<lambda>st. (st, th)) (sort_key st_sub_theme_code ?S)"
    by (simp add: sort_key_map)
  let ?rows = "map (\<lambda>st. (st, True)) (sort_key st_sub_theme_code ?S)"
  have rows': "map (\<lambda>r. (fst r, True)) (get_sub_themes_by_theme_id ?d2 (t_id th)) = ?rows"
    unfolding rows by simp
  have "distinct (map st_id ?S)" using dsi by (rule distinct_map_filter)
  then have "distinct (map st_id (sort_key st_sub_theme_code ?S))"
    by (simp add: distinct_map)
  then have drows: "distinct (map (\<lambda>r. st_id (fst r)) ?rows)" by (simp add: comp_def)
  have p3: "\<forall>r \<in> set (sub_theme_settings ?d2). sts_id r < uuid_counter ?d2"
    using f3 by (simp add: less_Suc_eq)
  from copy_sub_theme_settings_effect[of ?d2 ?rows y t cb 0] f1 f2 p3 drows
  obtain new where new:
    "copy_sub_theme_settings y t cb ?rows 0 ?d2 =
       (Inr (0 + length new),
        ?d2\<lparr>uuid_counter := uuid_counter ?d2 + length ?rows,
             sub_theme_settings := sub_theme_settings ?d2 @ new\<rparr>)"
    "map sts_row new =
       [((y, t, st_id (fst r)), snd r). r \<leftarrow> filter (\<lambda>r. absent ?d2 y t (fst r)) ?rows]"
    by auto
  let ?d3 = "?d2\<lparr>uuid_counter := uuid_counter ?d2 + length ?rows,
                  sub_theme_settings := sub_theme_settings ?d2 @ new\<rparr>"
  have loop: "create_sub_theme_settings y t cb (get_sub_themes_by_theme_id ?d2 (t_id th)) ?d2 =
                (Inr (), ?d3)"
    using create_sub_theme_settings_copy[of y t cb "get_sub_themes_by_theme_id ?d2 (t_id th)"
        ?d2 0] new(1) unfolding rows' by simp
  have run: "create_school_year_theme_setting y t code fill scale sel cb d = (Inr (Some res), ?d3)"
    using theme ins res loop by (simp add: create_school_year_theme_setting_def uuid4_def)
  \<comment> \<open>the new rows\<close>
  let ?A = "[st \<leftarrow> coures_sub_themes d.
              st_coures_themes_id st = t_id th \<and>
              (y, t, st_id st) \<notin> set (map sub_theme_setting_key (sub_theme_settings d))]"
  have "filter (\<lambda>r. absent ?d2 y t (fst r)) ?rows =
        map (\<lambda>st. (st, True)) (sort_key st_sub_theme_code (filter (absent d y t) ?S))"
    by (simp add: filter_map comp_def absent_def filter_sort)
  also have "filter (absent d y t) ?S = ?A"
    by (simp add: absent_def conj_commute)
  finally have "map sts_row new = map (\<lambda>st. ((y, t, st_id st), True)) (sort_key st_sub_theme_code ?A)"
    using new(2) by (simp add: comp_def)
  then have newrows: "map (\<lambda>r. (sts_academic_year r, sts_academic_term r,
                             sts_coures_sub_themes_id r, sts_enabled r)) new =
             map (\<lambda>st. (y, t, st_id st, True)) (sort_key st_sub_theme_code ?A)"
    (is "map ?p new = map ?q ?sA")
  proof -
    assume a: "map sts_row new = map (\<lambda>st. ((y, t, st_id st), True)) ?sA"
    have "map ?p new = map (\<lambda>((a, b, c), e). (a, b, c, e)) (map sts_row new)"
      by (simp add: sts_row_def sub_theme_setting_key_def)
    also have "\<dots> = map ?q ?sA" unfolding a by simp
    finally show ?thesis .
  qed
  \<comment> \<open>the rows of the theme's sub-themes afterwards\<close>
  let ?g = "\<lambda>st. (y, t, st_id st)"
  let ?G = "set (map ?g ?S)"
  have G: "?G = ?g ` set ?S" by simp
  have "map sub_theme_setting_key new = map ?g ?sA"
  proof -
    have "map sub_theme_setting_key new = map fst (map sts_row new)" by (simp add: sts_row_def)
    also have "\<dots> = map ?g ?sA"
      unfolding \<open>map sts_row new = map (\<lambda>st. ((y, t, st_id st), True)) ?sA\<close> by simp
    finally show ?thesis .
  qed
  then have knew: "map sub_theme_setting_key new = map ?g (sort_key st_sub_theme_code ?A)" .
  have allin: "\<forall>r \<in> set new. sub_theme_setting_key r \<in> ?G"
  proof
    fix r assume "r \<in> set new"
    then have "sub_theme_setting_key r \<in> set (map sub_theme_setting_key new)" by simp
    then have "sub_theme_setting_key r \<in> ?g ` set ?A" unfolding knew by simp
    then show "sub_theme_setting_key r \<in> ?G" by auto
  qed
  have cnew: "length [r \<leftarrow> new. sub_theme_setting_key r \<in> ?G] = length ?A"
  proof -
    have "[r \<leftarrow> new. sub_theme_setting_key r \<in> ?G] = new" using allin by (simp add: filter_id_conv)
    moreover have "length new = length ?A"
      using arg_cong[OF knew, of length] by simp
    ultimately show ?thesis by simp
  qed
  have dg: "distinct (map ?g ?S)"
    using \<open>distinct (map st_id ?S)\<close> by (simp add: distinct_map inj_on_def)
  have cold: "length [r \<leftarrow> sub_theme_settings d. sub_theme_setting_key r \<in> ?G] =
              length [st \<leftarrow> ?S. ?g st \<in> sub_theme_setting_key ` set (sub_theme_settings d)]"
    unfolding G using count_present[OF f2 dg] .
  have "?A = [st \<leftarrow> ?S. \<not> ?g st \<in> sub_theme_setting_key ` set (sub_theme_settings d)]"
    by (simp add: conj_commute)
  then have "length [r \<leftarrow> sub_theme_settings d @ new. sub_theme_setting_key r \<in> ?G] =
             length [st \<leftarrow> ?S. ?g st \<in> sub_theme_setting_key ` set (sub_theme_settings d)] +
             length [st \<leftarrow> ?S. \<not> ?g st \<in> sub_theme_setting_key ` set (sub_theme_settings d)]"
    using cold cnew by simp
  also have "\<dots> = length ?S" by (rule sum_length_filter_compl)
  finally have count: "length [r \<leftarrow> sub_theme_settings ?d3. sub_theme_setting_key r \<in> ?G] =
                       length ?S" by simp
  show ?thesis
    using run newrows count kts
    by (intro exI[of _ res] exI[of _ ?d3] exI[of _ ?ts] exI[of _ new]) simp
qed

text \<open>
  On \<open>store1\<close>, theme A101 has the sub-themes 11 and 12 and 113-1 has a row for 11: the
  create appends the row of 12 only, and two rows exist afterwards.
\<close>

theorem create_school_year_theme_setting_materializes_witness:
  "\<exists>res d' ts new.
      create_school_year_theme_setting 113 1 ''A101'' True 3 False None store1 =
        (Inr (Some res), d')
    \<and> themes_setting d' = themes_setting store1 @ [ts]
    \<and> theme_setting_key ts = (113, 1, 1)
    \<and> ts_fill_in_week_enabled ts = True \<and> ts_scale_max ts = 3
    \<and> ts_select_most_relevant_sub_theme_enabled ts = False
    \<and> sub_theme_settings d' = sub_theme_settings store1 @ new
    \<and> map (\<lambda>r. (sts_academic_year r, sts_academic_term r, sts_coures_sub_themes_id r,
                sts_enabled r)) new = [(113, 1, 12, True)]
    \<and> length [r \<leftarrow> sub_theme_settings d'.
                 sub_theme_setting_key r \<in> {(113, 1, 11), (113, 1, 12)}] = 2"
proof -
  let ?th = "\<lparr>t_id = 1, t_theme_code = ''A101'', t_theme_name = ''SDGs''\<rparr>"
  have a: "get_theme_by_code store1 ''A101'' = Some ?th"
    by (simp add: get_theme_by_code_def fetchrow_def store1_def)
  have n: "(113, 1, t_id ?th) \<notin> set (map theme_setting_key (themes_setting store1))"
    by (simp add: store1_def)
  have S: "[st \<leftarrow> coures_sub_themes store1. st_coures_themes_id st = t_id ?th \<and>
             (113, 1, st_id st) \<notin> set (map sub_theme_setting_key (sub_theme_settings store1))] =
           [\<lparr>st_id = 12, st_coures_themes_id = 1, st_sub_theme_code = ''02'',
             st_sub_theme_name = ''Hunger''\<rparr>]"
    by (simp add: store1_def sub_theme_setting_key_def)
  have G: "set (map (\<lambda>st. (113::int, 1::int, st_id st))
                  [st \<leftarrow> coures_sub_themes store1. st_coures_themes_id st = t_id ?th]) =
           {(113, 1, 11), (113, 1, 12)}"
    by (simp add: store1_def)
  have N: "length [st \<leftarrow> coures_sub_themes store1. st_coures_themes_id st = t_id ?th] = 2"
    by (simp add: store1_def)
  from create_school_year_theme_setting_materializes[OF a store1_catalog_ok
      store1_settings_fresh n, of True 3 False None]
  show ?thesis unfolding S G N by simp
qed

text \<open>
  The claim as stated fails on \<open>store4\<close>, where 114-1 has a disabled setting of
  sub-theme 01 of A101 before the theme setting is created: the insert of 01 is skipped on
  the unique key, one row is created for the two sub-themes of the theme, and afterwards
  the year-term has 01 disabled beside 02 enabled.
\<close>

theorem create_school_year_theme_setting_keeps_disabled_row:
  "create_school_year_theme_setting 114 1 ''A101'' True 3 False None store4 =
     (Inr (Some (\<lparr>ts_id = 100, ts_academic_year = 114, ts_academic_term = 1,
                   ts_coures_themes_id = 1, ts_fill_in_week_enabled = True, ts_scale_max = 3,
                   ts_select_most_relevant_sub_theme_enabled = False, ts_created_by = None,
                   ts_updated_by = None\<rparr>,
                 \<lparr>t_id = 1, t_theme_code = ''A101'', t_theme_name = ''SDGs''\<rparr>,
                 [(\<lparr>st_id = 11, st_coures_themes_id = 1, st_sub_theme_code = ''01'',
                    st_sub_theme_name = ''Poverty''\<rparr>, False),
                  (\<lparr>st_id = 12, st_coures_themes_id = 1, st_sub_theme_code = ''02'',
                    st_sub_theme_name = ''Hunger''\<rparr>, False)])),
      store4\<lparr>uuid_counter := 103,
             themes_setting := themes_setting store4 @
               [\<lparr>ts_id = 100, ts_academic_year = 114, ts_academic_term = 1,
                 ts_coures_themes_id = 1, ts_fill_in_week_enabled = True, ts_scale_max = 3,
                 ts_select_most_relevant_sub_theme_enabled = False, ts_created_by = None,
                 ts_updated_by = None\<rparr>],
             sub_theme_settings := sub_theme_settings store4 @
               [\<lparr>sts_id = 102, sts_academic_year = 114, sts_academic_term = 1,
                 sts_coures_sub_themes_id = 12, sts_enabled = True, sts_created_by = None,
                 sts_updated_by = None\<rparr>]\<rparr>)
   \<and> map sts_row (filter (in_year_term_sts 114 1) (sub_theme_settings store4)) =
       [((114, 1, 11), False)]"
  by (simp add: create_school_year_theme_setting_def get_theme_by_code_def fetchrow_def
      store4_def store1_def uuid4_def insert_theme_setting_def theme_setting_key_def
      get_school_year_theme_setting_by_code_def with_sub_themes_def
      sub_themes_with_enabled_def left_join_enabled_def get_sub_themes_by_theme_id_def
      insert_sub_theme_setting_def sub_theme_setting_key_def sts_row_def
      in_year_term_sts_def)

section \<open>Copying the settings of a year-term\<close>

text \<open>
  Claim C4 fails on the code by a slip of the deletion step. The function is to delete the
  settings that the target year-term already has and then to derive the target's settings
  from the source, but it deletes only when the target has at least one theme setting. On
  \<open>store4\<close> the target 114-1 has a disabled setting of sub-theme 01 and no theme
  setting: nothing is deleted, the insert of 01 is skipped on the unique key, and
  \<open>sub_themes_count\<close> is 1 for the two sub-themes of the copied theme. Afterwards the
  target still has 01 disabled, while the source has it enabled.
\<close>

theorem copy_school_year_theme_settings_keeps_target_rows:
  "copy_school_year_theme_settings_business (\<lambda>u. ''tok'') ''tok'' ''u'' 113 1 114 1 store4 =
     (Inr \<lparr>themes_count = 1, sub_themes_count = 1, deleted_themes_count = 0,
           deleted_sub_themes_count = 0\<rparr>,
      store4\<lparr>uuid_counter := 103,
             themes_setting := themes_setting store4 @
               [\<lparr>ts_id = 100, ts_academic_year = 114, ts_academic_term = 1,
                 ts_coures_themes_id = 1, ts_fill_in_week_enabled = True, ts_scale_max = 3,
                 ts_select_most_relevant_sub_theme_enabled = False,
                 ts_created_by = Some ''u'', ts_updated_by = Some ''u''\<rparr>],
             sub_theme_settings := sub_theme_settings store4 @
               [\<lparr>sts_id = 102, sts_academic_year = 114, sts_academic_term = 1,
                 sts_coures_sub_themes_id = 12, sts_enabled = False,
                 sts_created_by = Some ''u'', sts_updated_by = Some ''u''\<rparr>]\<rparr>)
   \<and> map sts_row (filter (in_year_term_sts 113 1) (sub_theme_settings store4)) =
       [((113, 1, 11), True)]
   \<and> map sts_row (filter (in_year_term_sts 114 1) (sub_theme_settings store4)) =
       [((114, 1, 11), False)]"
  by (simp add: copy_school_year_theme_settings_business_def verify_token_def
      copy_school_year_theme_settings_def Let_def store4_def store1_def
      in_year_term_ts_def in_year_term_sts_def uuid4_def insert_theme_setting_def
      theme_setting_key_def sub_themes_with_enabled_def left_join_enabled_def
      insert_sub_theme_setting_def sub_theme_setting_key_def sts_row_def)

text \<open>
  The deletion step also runs before the source's theme settings are read, so a copy of a
  year-term onto itself deletes its settings and copies nothing: on \<open>store3\<close> the copy of
  114-1 onto 114-1 leaves the year-term without settings.
\<close>

lemma copy_school_year_theme_settings_self_copy:
  "copy_school_year_theme_settings_business (\<lambda>u. ''tok'') ''tok'' ''u'' 114 1 114 1 store3 =
     (Inr \<lparr>themes_count = 0, sub_themes_count = 0, deleted_themes_count = 1,
           deleted_sub_themes_count = 1\<rparr>,
      store3\<lparr>themes_setting := filter (in_year_term_ts 113 1) (themes_setting store3),
             sub_theme_settings := sub_theme_settings store1\<rparr>)"
  by (simp add: copy_school_year_theme_settings_business_def verify_token_def
      copy_school_year_theme_settings_def Let_def store3_def store1_def
      in_year_term_ts_def in_year_term_sts_def)

text \<open>
  What the copy does in general, on a store whose setting ids and keys are unique and below
  the id counter and for a target other than the source. Without a theme setting of the
  source it fails with HTTP 400 and writes nothing. Otherwise it succeeds; one theme
  setting is inserted per theme setting of the source, with the source's three values, and
  one sub-theme setting per catalog sub-theme of every copied theme that has no surviving
  setting in the target, with the source's flag (off when the source has no row); the
  counts are the numbers of rows deleted and inserted, and the rows of all other
  year-terms are as before. When the target has a theme setting, or no sub-theme setting,
  no row survives and the target's settings are those derived from the source, as the
  claim has it.
\<close>

lemma copy_school_year_theme_settings_destructive_copy:
  assumes auth: "verify_token gen token user_id"
      and fresh: "settings_fresh d"
      and dsi: "distinct (map st_id (coures_sub_themes d))"
      and ne: "(sy, st) \<noteq> (ty, tt)"
  shows "if filter (in_year_term_ts sy st) (themes_setting d) = []
         then copy_school_year_theme_settings_business gen token user_id sy st ty tt d =
                (Inl (HTTPException 400), d)
         else (\<exists>res d'.
           copy_school_year_theme_settings_business gen token user_id sy st ty tt d =
             (Inr res, d')
         \<and> deleted_themes_count res = length (filter (in_year_term_ts ty tt) (themes_setting d))
         \<and> deleted_sub_themes_count res =
             (if filter (in_year_term_ts ty tt) (themes_setting d) = [] then 0
              else length (filter (in_year_term_sts ty tt) (sub_theme_settings d)))
         \<and> themes_count res = length (filter (in_year_term_ts sy st) (themes_setting d))
         \<and> sub_themes_count res =
             length (copied_sub_rows d (map sub_theme_setting_key (kept_sub_theme_settings d ty tt))
                       sy st ty tt (filter (in_year_term_ts sy st) (themes_setting d)))
         \<and> map ts_row (filter (in_year_term_ts ty tt) (themes_setting d')) =
             map (\<lambda>tr. ((ty, tt, ts_coures_themes_id tr), ts_fill_in_week_enabled tr,
                        ts_scale_max tr, ts_select_most_relevant_sub_theme_enabled tr))
               (filter (in_year_term_ts sy st) (themes_setting d))
         \<and> map sts_row (filter (in_year_term_sts ty tt) (sub_theme_settings d')) =
             map sts_row (kept_sub_theme_settings d ty tt) @
             copied_sub_rows d (map sub_theme_setting_key (kept_sub_theme_settings d ty tt))
               sy st ty tt (filter (in_year_term_ts sy st) (themes_setting d))
         \<and> filter (\<lambda>r. \<not> in_year_term_ts ty tt r) (themes_setting d') =
             filter (\<lambda>r. \<not> in_year_term_ts ty tt r) (themes_setting d)
         \<and> filter (\<lambda>r. \<not> in_year_term_sts ty tt r) (sub_theme_settings d') =
             filter (\<lambda>r. \<not> in_year_term_sts ty tt r) (sub_theme_settings d))"
proof (cases "filter (in_year_term_ts sy st) (themes_setting d) = []")
  case True
  then show ?thesis
    using auth
    by (simp add: copy_school_year_theme_settings_business_def
        copy_school_year_theme_settings_def)
next
  case False
  from copy_school_year_theme_settings_run[OF fresh dsi ne False, of "Some user_id"]
  obtain res d' where r:
    "copy_school_year_theme_settings sy st ty tt (Some user_id) d = (Inr res, d')"
    and rest: "deleted_themes_count res = length (filter (in_year_term_ts ty tt) (themes_setting d))
         \<and> deleted_sub_themes_count res =
             (if filter (in_year_term_ts ty tt) (themes_setting d) = [] then 0
              else length (filter (in_year_term_sts ty tt) (sub_theme_settings d)))
         \<and> themes_count res = length (filter (in_year_term_ts sy st) (themes_setting d))
         \<and> sub_themes_count res =
             length (copied_sub_rows d (map sub_theme_setting_key (kept_sub_theme_settings d ty tt))
                       sy st ty tt (filter (in_year_term_ts sy st) (themes_setting d)))
         \<and> map ts_row (filter (in_year_term_ts ty tt) (themes_setting d')) =
             map (\<lambda>tr. ((ty, tt, ts_coures_themes_id tr), ts_fill_in_week_enabled tr,
                        ts_scale_max tr, ts_select_most_relevant_sub_theme_enabled tr))
               (filter (in_year_term_ts sy st) (themes_setting d))
         \<and> map sts_row (filter (in_year_term_sts ty tt) (sub_theme_settings d')) =
             map sts_row (kept_sub_theme_settings d ty tt) @
             copied_sub_rows d (map sub_theme_setting_key (kept_sub_theme_settings d ty tt))
               sy st ty tt (filter (in_year_term_ts sy st) (themes_setting d))
         \<and> filter (\<lambda>r. \<not> in_year_term_ts ty tt r) (themes_setting d') =
             filter (\<lambda>r. \<not> in_year_term_ts ty tt r) (themes_setting d)
         \<and> filter (\<lambda>r. \<not> in_year_term_sts ty tt r) (sub_theme_settings d') =
             filter (\<lambda>r. \<not> in_year_term_sts ty tt r) (sub_theme_settings d)"
    by blast
  have b: "copy_school_year_theme_settings_business gen token user_id sy st ty tt d =
             (Inr res, d')"
    using auth r by (simp add: copy_school_year_theme_settings_business_def)
  show ?thesis
    unfolding if_not_P[OF False]
    by (intro exI[of _ res] exI[of _ d'] conjI b rest[THEN conjunct1]) (use rest in simp_all)
qed

text \<open>
  On \<open>store3\<close>, copying 113-1 to 114-1 deletes the target's theme setting and sub-theme
  setting and leaves the copy of A101 with its two sub-themes: 01 enabled as in the
  source, 02 disabled for want of a source row.
\<close>

lemma copy_school_year_theme_settings_destructive_copy_store3:
  "\<exists>res d'.
      copy_school_year_theme_settings_business (\<lambda>u. ''tok'') ''tok'' ''u'' 113 1 114 1 store3 =
        (Inr res, d')
    \<and> deleted_themes_count res = 1 \<and> deleted_sub_themes_count res = 1
    \<and> themes_count res = 1 \<and> sub_themes_count res = 2
    \<and> map ts_row (filter (in_year_term_ts 114 1) (themes_setting d')) =
        [((114, 1, 1), True, 3, False)]
    \<and> map sts_row (filter (in_year_term_sts 114 1) (sub_theme_settings d')) =
        [((114, 1, 11), True), ((114, 1, 12), False)]"
proof -
  let ?r = "\<lparr>ts_id = 51, ts_academic_year = 113, ts_academic_term = 1,
             ts_coures_themes_id = 1, ts_fill_in_week_enabled = True, ts_scale_max = 3,
             ts_select_most_relevant_sub_theme_enabled = False, ts_created_by = None,
             ts_updated_by = None\<rparr>"
  have a: "verify_token (\<lambda>u. ''tok'') ''tok'' ''u''" by (simp add: verify_token_def)
  have f: "settings_fresh store3"
    by (simp add: settings_fresh_def store3_def store1_def sub_theme_setting_key_def
        theme_setting_key_def)
  have c: "distinct (map st_id (coures_sub_themes store3))"
    by (simp add: store3_def store1_def)
  have n: "((113::int), (1::int)) \<noteq> (114, 1)" by simp
  have S: "filter (in_year_term_ts 113 1) (themes_setting store3) = [?r]"
    by (simp add: store3_def in_year_term_ts_def)
  have T: "length (filter (in_year_term_ts 114 1) (themes_setting store3)) = 1"
    by (simp add: store3_def in_year_term_ts_def)
  have T0: "filter (in_year_term_ts 114 1) (themes_setting store3) \<noteq> []"
    by (simp add: store3_def in_year_term_ts_def)
  have TS: "length (filter (in_year_term_sts 114 1) (sub_theme_settings store3)) = 1"
    by (simp add: store3_def store1_def in_year_term_sts_def)
  have K: "kept_sub_theme_settings store3 114 1 = []"
    by (simp add: kept_sub_theme_settings_def T0)
  have C: "copied_sub_rows store3 [] 113 1 114 1 [?r] =
             [((114, 1, 11), True), ((114, 1, 12), False)]"
    by (simp add: copied_sub_rows_def source_enabled_def store3_def store1_def
        sub_theme_setting_key_def)
  have CL: "length [((114::int, 1::int, 11::nat), True), ((114, 1, 12), False)] = 2" by simp
  from copy_school_year_theme_settings_destructive_copy[OF a f c n]
  have "\<exists>res d'.
      copy_school_year_theme_settings_business (\<lambda>u. ''tok'') ''tok'' ''u'' 113 1 114 1 store3 =
        (Inr res, d')
    \<and> deleted_themes_count res = 1 \<and> deleted_sub_themes_count res = 1
    \<and> themes_count res = 1 \<and> sub_themes_count res = 2
    \<and> map ts_row (filter (in_year_term_ts 114 1) (themes_setting d')) =
        [((114, 1, 1), True, 3, False)]
    \<and> map sts_row (filter (in_year_term_sts 114 1) (sub_theme_settings d')) =
        [((114, 1, 11), True), ((114, 1, 12), False)]
    \<and> filter (\<lambda>r. \<not> in_year_term_ts 114 1 r) (themes_setting d') =
        filter (\<lambda>r. \<not> in_year_term_ts 114 1 r) (themes_setting store3)
    \<and> filter (\<lambda>r. \<not> in_year_term_sts 114 1 r) (sub_theme_settings d') =
        filter (\<lambda>r. \<not> in_year_term_sts 114 1 r) (sub_theme_settings store3)"
    unfolding S K list.map C CL T TS if_not_P[OF T0] by simp
  then obtain res d' where
    "copy_school_year_theme_settings_business (\<lambda>u. ''tok'') ''tok'' ''u'' 113 1 114 1 store3 =
        (Inr res, d')"
    "deleted_themes_count res = 1" "deleted_sub_themes_count res = 1"
    "themes_count res = 1" "sub_themes_count res = 2"
    "map ts_row (filter (in_year_term_ts 114 1) (themes_setting d')) =
        [((114, 1, 1), True, 3, False)]"
    "map sts_row (filter (in_year_term_sts 114 1) (sub_theme_settings d')) =
        [((114, 1, 11), True), ((114, 1, 12), False)]"
    by (elim exE conjE) (rule that, assumption+)
  then show ?thesis by (intro exI[of _ res] exI[of _ d'] conjI)
qed

section \<open>Copying the entries of a course\<close>

text \<open>
  Claim C5 fails on the code by a slip of the deletion step. The entries of the course in
  the target are counted by \<^verbatim>\<open>len(existing_target_entries)\<close>, but each is deleted
  through \<^verbatim>\<open>delete_course_entry\<close>, which looks its sub-theme up by code among the
  settings of the target year-term and does nothing when there is none. On \<open>store5\<close> the
  copy returns \<open>deleted_count = 1\<close> and the entry 43 of the target is still in the store
  next to the copied one.
\<close>

theorem copy_course_entries_counts_kept_entry:
  "copy_course_entries (\<lambda>u. ''tok'') copy1 store5 =
     (Inr \<lparr>copied_count = 1, skipped_count = 0, deleted_count = 1\<rparr>,
      store5\<lparr>uuid_counter := 101,
             course_entries := course_entries store5 @
               [\<lparr>ce_id = 100, ce_subj_no = ''S1'', ce_ps_class_nbr = ''C1'',
                 ce_academic_year = 114, ce_academic_term = 1, ce_coures_sub_themes_id = 11,
                 ce_indicator_value = ''2'', ce_week_numbers = Some [1, 2],
                 ce_is_most_relevant = True, ce_created_by = Some ''u'',
                 ce_updated_by = Some ''u''\<rparr>]\<rparr>)
   \<and> map (\<lambda>r. ce_id (fst r)) (get_course_entries_by_subj_no store5 ''S1'' ''C1'' 114 1) = [43]"
proof -
  let ?st11 = "\<lparr>st_id = 11, st_coures_themes_id = 1, st_sub_theme_code = ''01'',
                st_sub_theme_name = ''Poverty''\<rparr>"
  let ?st12 = "\<lparr>st_id = 12, st_coures_themes_id = 1, st_sub_theme_code = ''02'',
                st_sub_theme_name = ''Hunger''\<rparr>"
  let ?t1 = "\<lparr>t_id = 1, t_theme_code = ''A101'', t_theme_name = ''SDGs''\<rparr>"
  let ?e41 = "\<lparr>ce_id = 41, ce_subj_no = ''S1'', ce_ps_class_nbr = ''C1'', ce_academic_year = 113,
        ce_academic_term = 1, ce_coures_sub_themes_id = 11, ce_indicator_value = ''2'',
        ce_week_numbers = Some [1, 2], ce_is_most_relevant = True,
        ce_created_by = Some ''u'', ce_updated_by = Some ''u''\<rparr>"
  let ?e43 = "\<lparr>ce_id = 43, ce_subj_no = ''S1'', ce_ps_class_nbr = ''C1'',
        ce_academic_year = 114, ce_academic_term = 1, ce_coures_sub_themes_id = 12,
        ce_indicator_value = ''1'', ce_week_numbers = None,
        ce_is_most_relevant = False, ce_created_by = Some ''u'',
        ce_updated_by = Some ''u''\<rparr>"
  have src: "get_course_entries_by_subj_no store5 ''S1'' ''C1'' 113 1 = [(?e41, ?st11, ?t1)]"
    by (simp add: get_course_entries_by_subj_no_def store5_rows)
  have tgt: "get_course_entries_by_subj_no store5 ''S1'' ''C1'' 114 1 = [(?e43, ?st12, ?t1)]"
    by (simp add: get_course_entries_by_subj_no_def store5_rows)
  have en: "get_enabled_theme_sub_themes store5 114 1 = [(''A101'', ''01'')]"
    by (simp add: get_enabled_theme_sub_themes_def store5_def store1_def)
  have c2: "sub_themes_by_code store5 114 1 ''02'' = []"
    by (simp add: sub_themes_by_code_def store5_def store1_def)
  have del: "delete_target_entries ''S1'' ''C1'' 114 1 [(?e43, ?st12, ?t1)] store5 = store5"
    by (simp add: delete_course_entry_def get_course_entry_def c2 fetchrow_def)
  have c1: "sub_themes_by_code store5 114 1 ''01'' = [?st11]"
    by (simp add: sub_themes_by_code_def store5_def store1_def)
  have loop: "copy_entries_loop copy1 [(''A101'', ''01'')] [(?e41, ?st11, ?t1)] 0 0 store5 =
     (Inr (1, 0),
      store5\<lparr>uuid_counter := 101,
             course_entries := course_entries store5 @
               [\<lparr>ce_id = 100, ce_subj_no = ''S1'', ce_ps_class_nbr = ''C1'',
                 ce_academic_year = 114, ce_academic_term = 1, ce_coures_sub_themes_id = 11,
                 ce_indicator_value = ''2'', ce_week_numbers = Some [1, 2],
                 ce_is_most_relevant = True, ce_created_by = Some ''u'',
                 ce_updated_by = Some ''u''\<rparr>]\<rparr>)"
    by (simp add: copy1_def copy_course_entry_with_new_user_def c1 fetchrow_def
        uuid4_def insert_course_entry_def course_entry_key_def to_week_numbers_json_def)
       (simp add: store5_def store1_def)
  have f: "cd_subj_no copy1 = ''S1''" "cd_ps_class_nbr copy1 = ''C1''"
      "cd_source_academic_year copy1 = 113" "cd_source_academic_term copy1 = 1"
      "cd_target_academic_year copy1 = 114" "cd_target_academic_term copy1 = 1"
    by (simp_all add: copy1_def)
  have v: "verify_token (\<lambda>u. ''tok'') (cd_token copy1) (cd_user_id copy1)"
    by (simp add: verify_token_def copy1_def)
  have run: "copy_course_entries (\<lambda>u. ''tok'') copy1 store5 =
     (Inr \<lparr>copied_count = 1, skipped_count = 0, deleted_count = 1\<rparr>,
      store5\<lparr>uuid_counter := 101,
             course_entries := course_entries store5 @
               [\<lparr>ce_id = 100, ce_subj_no = ''S1'', ce_ps_class_nbr = ''C1'',
                 ce_academic_year = 114, ce_academic_term = 1, ce_coures_sub_themes_id = 11,
                 ce_indicator_value = ''2'', ce_week_numbers = Some [1, 2],
                 ce_is_most_relevant = True, ce_created_by = Some ''u'',
                 ce_updated_by = Some ''u''\<rparr>]\<rparr>)"
    unfolding copy_course_entries_def Let_def f src tgt en del loop
    using v by simp
  show ?thesis unfolding run by (simp add: tgt)
qed

section \<open>Exporting the entries of a year-term\<close>

text \<open>
  Claim C10 fails on the code by a slip of the week columns. Two sub-themes whose week
  columns have the same name share one column of the header: the name is appended to
  \<^verbatim>\<open>csv_columns\<close> only when no column has it yet. But the week
  \<^verbatim>\<open>col_info\<close> is appended to the theme's list for each of them, so every data row
  gets a week cell per sub-theme. On \<open>store8\<close> the header has seven columns, with one
  week column for the sub-themes 1120 and 1130 of A301, and the row of course S1/C1 has
  eight cells: the week column holds week 1 of the entry of 1120, and week 2 of the entry
  of 1130 is a last cell that no column of the header names.
\<close>

theorem export_course_entries_to_csv_shared_week_column:
  "export_course_entries_to_csv store8 113 1 =
     Inr (bom @
          writerow [year_term_column, ''OPMS_COURSE_NO'', ''PS_CLASS_NBR'', course_name_column,
                    column_name ''A301'' ''1120'' ''Media'',
                    week_column_name ''A301'' ''1120'' ''Media'',
                    column_name ''A301'' ''1130'' ''Info''] @
          writerow [''1131'', ''S1'', ''C1'', '''', ''2'', ''1'', ''3'', ''2''])
   \<and> week_column_name ''A301'' ''1130'' ''Info'' = week_column_name ''A301'' ''1120'' ''Media''
   \<and> column_name ''A301'' ''1120'' ''Media'' = ''Media'' @ indicator_theme_suffix
   \<and> column_name ''A301'' ''1130'' ''Info'' = ''Info'' @ indicator_theme_suffix
   \<and> writerow [''1131'', ''S1'', ''C1'', '''', ''2'', ''1'', ''3'', ''2''] =
       ''1131,S1,C1,,2,1,3,2'' @ [CHR 0x0A]"
proof -
  let ?th = "\<lparr>t_id = 2, t_theme_code = ''A301'', t_theme_name = ''Core''\<rparr>"
  let ?s22 = "\<lparr>st_id = 22, st_coures_themes_id = 2, st_sub_theme_code = ''1120'',
               st_sub_theme_name = ''Media''\<rparr>"
  let ?s23 = "\<lparr>st_id = 23, st_coures_themes_id = 2, st_sub_theme_code = ''1130'',
               st_sub_theme_name = ''Info''\<rparr>"
  let ?ts = "\<lparr>ts_id = 51, ts_academic_year = 113, ts_academic_term = 1,
              ts_coures_themes_id = 2, ts_fill_in_week_enabled = True, ts_scale_max = 3,
              ts_select_most_relevant_sub_theme_enabled = False, ts_created_by = None,
              ts_updated_by = None\<rparr>"
  let ?e71 = "\<lparr>ce_id = 71, ce_subj_no = ''S1'', ce_ps_class_nbr = ''C1'', ce_academic_year = 113,
               ce_academic_term = 1, ce_coures_sub_themes_id = 22, ce_indicator_value = ''2'',
               ce_week_numbers = Some [1], ce_is_most_relevant = False,
               ce_created_by = Some ''u'', ce_updated_by = Some ''u''\<rparr>"
  let ?e72 = "\<lparr>ce_id = 72, ce_subj_no = ''S1'', ce_ps_class_nbr = ''C1'', ce_academic_year = 113,
               ce_academic_term = 1, ce_coures_sub_themes_id = 23, ce_indicator_value = ''3'',
               ce_week_numbers = Some [2], ce_is_most_relevant = False,
               ce_created_by = Some ''u'', ce_updated_by = Some ''u''\<rparr>"
  let ?r71 = "(?e71, ?s22, ?th, '''')"
  let ?r72 = "(?e72, ?s23, ?th, '''')"
  let ?w = "week_column_name ''A301'' ''1120'' ''Media''"
  let ?base = "[year_term_column, ''OPMS_COURSE_NO'', ''PS_CLASS_NBR'', course_name_column]"
  let ?n1 = "column_name ''A301'' ''1120'' ''Media''"
  let ?n2 = "column_name ''A301'' ''1130'' ''Info''"
  have settings: "get_school_year_theme_settings_by_year store8 113 1 =
                    [(?ts, ?th, [(?s22, True), (?s23, True)])]"
    by (simp add: get_school_year_theme_settings_by_year_def with_sub_themes_def
        sub_themes_with_enabled_def left_join_enabled_def store8_def)
  have entries: "get_all_course_entries_by_academic_year_term store8 113 1 = [?r71, ?r72]"
    by (simp add: get_all_course_entries_by_academic_year_term_def left_join_cofsubj_def
        store8_def)
  have courses: "fold add_entry [?r71, ?r72] [] =
                   [((''S1'', ''C1''),
                     \<lparr>co_subj_no = ''S1'', co_ps_class_nbr = ''C1'',
                      co_course_chinese_name = '''',
                      co_entries_by_sub_theme = [(''1120'', ?r71), (''1130'', ?r72)]\<rparr>)]"
    by (simp add: add_entry_def default_course_def)
  have same: "week_column_name ''A301'' ''1130'' ''Info'' = ?w"
    by (simp add: week_column_name_def week_name_map_def)
  note names = column_name_def week_column_name_def week_name_map_def year_term_column_def
    course_name_column_def indicator_theme_suffix_def
  have subs: "sub_themes_loop ''A301'' True [(?s22, True), (?s23, True)] (?base, []) =
                (?base @ [?n1, ?w, ?n2],
                 [indicator ?n1 ''1120'', week ?w ''1120'', indicator ?n2 ''1130'',
                  week ?w ''1130''])"
    by (simp add: Let_def names)
  have columns: "themes_loop theme_order [(?ts, ?th, [(?s22, True), (?s23, True)])] (?base, []) =
                   (?base @ [?n1, ?w, ?n2],
                    [(''A301'',
                      [indicator ?n1 ''1120'', week ?w ''1120'', indicator ?n2 ''1130'',
                       week ?w ''1130''])])"
    by (simp add: theme_order_def Let_def subs del: sub_themes_loop.simps)
  have yt: "str_int 113 @ str_int 1 = ''1131''"
    by (simp add: str_int_def str_nat.simps)
  have row: "course_row ''1131''
               [(''A301'',
                 [indicator ?n1 ''1120'', week ?w ''1120'', indicator ?n2 ''1130'',
                  week ?w ''1130''])]
               \<lparr>co_subj_no = ''S1'', co_ps_class_nbr = ''C1'', co_course_chinese_name = '''',
                co_entries_by_sub_theme = [(''1120'', ?r71), (''1130'', ?r72)]\<rparr> =
             [''1131'', ''S1'', ''C1'', '''', ''2'', ''1'', ''3'', ''2'']"
    by (simp add: course_row_def theme_order_def most_relevant_sub_theme_def str_int_def
        str_nat.simps)
  have "export_course_entries_to_csv store8 113 1 =
          Inr (bom @
               writerow [year_term_column, ''OPMS_COURSE_NO'', ''PS_CLASS_NBR'',
                         course_name_column, ?n1, ?w, ?n2] @
               writerow [''1131'', ''S1'', ''C1'', '''', ''2'', ''1'', ''3'', ''2''])"
    unfolding export_course_entries_to_csv_def Let_def settings entries courses columns yt
    by (simp add: row)
  moreover have "column_name ''A301'' ''1120'' ''Media'' = ''Media'' @ indicator_theme_suffix"
    and "column_name ''A301'' ''1130'' ''Info'' = ''Info'' @ indicator_theme_suffix"
    by (simp_all add: column_name_def)
  moreover have "writerow [''1131'', ''S1'', ''C1'', '''', ''2'', ''1'', ''3'', ''2''] =
                   ''1131,S1,C1,,2,1,3,2'' @ [CHR 0x0A]"
    by (simp add: writerow_def quote_field_def needs_quote_def)
  ultimately show ?thesis using same by (intro conjI)
qed

end
